theory Spec2Isabelle
  imports Complex_Main "HOL-Library.Sublist"
begin

section \<open>The 4D STEM notebook: values, the HDF5 file and the interpreter state\<close>

text \<open>
  The notebook \<^verbatim>\<open>Notebooks/EM/STEM/4D_STEM.ipynb\<close> is a sequence of code cells that share
  one Python global namespace and one open HDF5 file. It is embedded as state transformers
  over a record holding the global variables that a later cell or the mouse callback reads,
  the contents of the HDF5 files, the open file handles and the sequence of calls made into
  h5py, pyUSID, pycroscopy, scikit-learn and matplotlib. A global is \<open>None\<close> until it is
  bound. A name that only its own cell reads after binding it (\<^verbatim>\<open>h5_path\<close>,
  \<^verbatim>\<open>coarse_pos\<close>, \<^verbatim>\<open>current_ronch\<close>, \<^verbatim>\<open>h5_svd_group\<close>, \<^verbatim>\<open>loadings\<close>, ...) is a bound
  variable of that cell. A matplotlib artist is represented by what it shows: an image by
  its array, a crosshair line by its coordinate. Logged calls carry the arguments that
  matter to the data flow; colour maps, figure sizes and line colours are left out.
\<close>

datatype error =
    IndexError | KeyError | ValueError | TypeError | NameError | LibraryError string

text \<open>A numpy array: its shape and its elements in row-major (C) order.\<close>

record 'a ndarray =
  shape :: "nat list"
  flat :: "'a list"

text \<open>
  An object of an HDF5 file is named by the file's path and the object's path inside the
  file; it is a group or a dataset.
\<close>

type_synonym h5ref = "string \<times> string list"

datatype 'a node = Group | Dataset "'a ndarray"

type_synonym 'a h5fs = "h5ref \<Rightarrow> 'a node option"

datatype arg = AStr string | AInt int | ARef h5ref | AShape "nat list"

datatype event = Call string "arg list"

record 'a state =
  h5fs :: "'a h5fs"
  open_files :: "string list"
  figures :: nat
  log :: "event list"
  h5_file :: "string option"
  h5_main :: "h5ref option"
  num_rows :: "nat option"
  num_cols :: "nat option"
  num_sensor_rows :: "nat option"
  num_sensor_cols :: "nat option"
  fig :: "nat option"
  main_map :: "'a ndarray option"
  main_vert_line :: "int option"
  main_hor_line :: "int option"
  img_zoom :: "'a ndarray option"
  h5_u :: "h5ref option"
  h5_v :: "h5ref option"
  h5_s :: "h5ref option"
  num_plot_comps :: "nat option"
  spectral_components :: "nat option"
  num_clusters :: "nat option"
  h5_labels :: "h5ref option"
  num_comps_for_clustering :: "nat option"
  label_mat :: "'a ndarray option"

text \<open>
  What the external packages do is not part of the notebook. Each call into them is
  recorded in \<open>log\<close>; whether it raises, and what the data-carrying routines return, is a
  parameter of the model.
\<close>

record 'a lib =
  ext_fault :: "'a h5fs \<Rightarrow> string \<Rightarrow> arg list \<Rightarrow> error option"
  file_dialog :: "string"
  find_dataset :: "'a h5fs \<Rightarrow> string \<Rightarrow> string \<Rightarrow> h5ref list"
  pos_dim_sizes :: "'a h5fs \<Rightarrow> h5ref \<Rightarrow> nat list"
  spec_dim_sizes :: "'a h5fs \<Rightarrow> h5ref \<Rightarrow> nat list"
  svd_compute :: "'a h5fs \<Rightarrow> h5ref \<Rightarrow> nat \<Rightarrow> 'a h5fs \<times> h5ref"
  cluster_compute :: "'a h5fs \<Rightarrow> h5ref \<Rightarrow> nat \<Rightarrow> nat \<Rightarrow> 'a h5fs \<times> h5ref"

subsection \<open>Statements: state passing with exceptions\<close>

text \<open>
  A statement maps the state to a result or a raised exception, and to the state it leaves
  behind. What a statement did before it raised stays done.
\<close>

type_synonym ('a, 'r) py = "'a state \<Rightarrow> (error + 'r) \<times> 'a state"

definition py_return :: "'r \<Rightarrow> ('a, 'r) py" where
  "py_return x = (\<lambda>s. (Inr x, s))"

definition py_raise :: "error \<Rightarrow> ('a, 'r) py" where
  "py_raise e = (\<lambda>s. (Inl e, s))"

definition py_bind :: "('a, 'r) py \<Rightarrow> ('r \<Rightarrow> ('a, 'q) py) \<Rightarrow> ('a, 'q) py" where
  "py_bind m f = (\<lambda>s. case m s of (Inl e, s') \<Rightarrow> (Inl e, s') | (Inr x, s') \<Rightarrow> f x s')"

definition py_lift :: "error + 'r \<Rightarrow> ('a, 'r) py" where
  "py_lift x = (\<lambda>s. (x, s))"

text \<open>Reading a global variable; an unbound name raises NameError.\<close>

definition var :: "('a state \<Rightarrow> 'v option) \<Rightarrow> ('a, 'v) py" where
  "var x = (\<lambda>s. case x s of None \<Rightarrow> (Inl NameError, s) | Some v \<Rightarrow> (Inr v, s))"

definition modify :: "('a state \<Rightarrow> 'a state) \<Rightarrow> ('a, unit) py" where
  "modify upd = (\<lambda>s. (Inr (), upd s))"

definition gets :: "('a state \<Rightarrow> 'v) \<Rightarrow> ('a, 'v) py" where
  "gets f = (\<lambda>s. (Inr (f s), s))"

text \<open>A call into an external package: it is logged, then it raises or returns.\<close>

definition external :: "'a lib \<Rightarrow> string \<Rightarrow> arg list \<Rightarrow> ('a, unit) py" where
  "external l f args = (\<lambda>s.
     let s' = s\<lparr>log := log s @ [Call f args]\<rparr>
     in case ext_fault l (h5fs s) f args of
          Some e \<Rightarrow> (Inl e, s')
        | None \<Rightarrow> (Inr (), s'))"

text \<open>A call that creates a matplotlib figure returns a fresh figure number.\<close>

definition new_figure :: "'a lib \<Rightarrow> string \<Rightarrow> arg list \<Rightarrow> ('a, nat) py" where
  "new_figure l f args =
     py_bind (external l f args) (\<lambda>_.
     py_bind (gets figures) (\<lambda>n.
     py_bind (modify (figures_update (\<lambda>_. Suc n))) (\<lambda>_.
     py_return n)))"

subsection \<open>Python, numpy and h5py operations used by the notebook\<close>

text \<open>\<^verbatim>\<open>xs[-1]\<close> on a Python list.\<close>

definition py_last :: "'v list \<Rightarrow> error + 'v" where
  "py_last xs = (if xs = [] then Inl IndexError else Inr (last xs))"

text \<open>\<^verbatim>\<open>a, b = xs\<close>: unpacking into two names.\<close>

definition unpack2 :: "'v list \<Rightarrow> error + ('v \<times> 'v)" where
  "unpack2 xs = (case xs of [a, b] \<Rightarrow> Inr (a, b) | _ \<Rightarrow> Inl ValueError)"

text \<open>
  \<^verbatim>\<open>int(round(x))\<close> in Python 3, the notebook's kernel: the nearest integer, ties to the
  even one. A finite float is a rational number and rounding it is exact.
\<close>

definition py_round :: "rat \<Rightarrow> int" where
  "py_round q =
     (let f = \<lfloor>q\<rfloor>; d = q - of_int f
      in if d < 1 / 2 then f
         else if 1 / 2 < d then f + 1
         else if even f then f else f + 1)"

text \<open>
  \<^verbatim>\<open>np.reshape(a, shp)\<close>: the elements keep their row-major order; one entry of the new
  shape may be \<open>-1\<close> and is then inferred; a shape that does not fit raises ValueError.
\<close>

definition np_reshape :: "'a ndarray \<Rightarrow> int list \<Rightarrow> error + 'a ndarray" where
  "np_reshape a shp =
     (let n = prod_list (shape a);
          known = prod_list (map nat (filter (\<lambda>d. d \<noteq> - 1) shp));
          unknown = length (filter (\<lambda>d. d = - 1) shp)
      in if (\<exists>d \<in> set shp. d < - 1) \<or> 1 < unknown then Inl ValueError
         else if unknown = 1 then
           (if known = 0 \<or> n mod known \<noteq> 0 then Inl ValueError
            else Inr \<lparr>shape = map (\<lambda>d. if d = - 1 then n div known else nat d) shp,
                      flat = flat a\<rparr>)
         else if known = n then Inr \<lparr>shape = map nat shp, flat = flat a\<rparr>
         else Inl ValueError)"

text \<open>
  \<^verbatim>\<open>a[i]\<close> with an integer: the \<open>i\<close>-th slab along the first axis; a negative index
  counts from the end; h5py raises ValueError out of range.
\<close>

definition nd_getitem :: "'a ndarray \<Rightarrow> int \<Rightarrow> error + 'a ndarray" where
  "nd_getitem a i =
     (case shape a of
        [] \<Rightarrow> Inl ValueError
      | m # rest \<Rightarrow>
          (let j = (if i < 0 then int m + i else i); w = prod_list rest
           in if 0 \<le> j \<and> j < int m
              then Inr \<lparr>shape = rest, flat = take w (drop (nat j * w) (flat a))\<rparr>
              else Inl ValueError))"

text \<open>\<^verbatim>\<open>a[:k]\<close>: the first \<open>k\<close> slabs along the first axis.\<close>

definition nd_take_rows :: "'a ndarray \<Rightarrow> nat \<Rightarrow> error + 'a ndarray" where
  "nd_take_rows a k =
     (case shape a of
        [] \<Rightarrow> Inl ValueError
      | m # rest \<Rightarrow>
          Inr \<lparr>shape = min k m # rest, flat = take (min k m * prod_list rest) (flat a)\<rparr>)"

text \<open>\<^verbatim>\<open>a[:, :k]\<close>: the first \<open>k\<close> entries along the second axis.\<close>

definition nd_take_cols :: "'a ndarray \<Rightarrow> nat \<Rightarrow> error + 'a ndarray" where
  "nd_take_cols a k =
     (case shape a of
        m # n # rest \<Rightarrow>
          (let w = prod_list rest
           in Inr \<lparr>shape = m # min k n # rest,
                   flat = concat (map (\<lambda>r. take (min k n * w) (drop (r * n * w) (flat a)))
                                      [0..<m])\<rparr>)
      | _ \<Rightarrow> Inl TypeError)"

text \<open>\<^verbatim>\<open>a.transpose([2, 0, 1])\<close> of a three-dimensional array.\<close>

definition nd_transpose_201 :: "'a ndarray \<Rightarrow> error + 'a ndarray" where
  "nd_transpose_201 a =
     (case shape a of
        [p, q, r] \<Rightarrow>
          Inr \<lparr>shape = [r, p, q],
               flat = concat (map (\<lambda>k. concat (map (\<lambda>i. map (\<lambda>j. flat a ! ((i * q + j) * r + k))
                                                              [0..<q]) [0..<p])) [0..<r])\<rparr>
      | _ \<Rightarrow> Inl ValueError)"

text \<open>\<^verbatim>\<open>a.shape[1]\<close>.\<close>

definition shape1 :: "'a ndarray \<Rightarrow> error + nat" where
  "shape1 a = (case shape a of _ # n # _ \<Rightarrow> Inr n | _ \<Rightarrow> Inl IndexError)"

text \<open>
  Reading a dataset through its handle touches the file: the file must be open and the
  handle must name a dataset.
\<close>

definition read_dataset :: "h5ref \<Rightarrow> ('a, 'a ndarray) py" where
  "read_dataset d = (\<lambda>s.
     let s' = s\<lparr>log := log s @ [Call ''h5py.Dataset.read'' [ARef d]]\<rparr>
     in if fst d \<notin> set (open_files s) then (Inl ValueError, s')
        else case h5fs s d of
               Some (Dataset a) \<Rightarrow> (Inr a, s')
             | Some Group \<Rightarrow> (Inl TypeError, s')
             | None \<Rightarrow> (Inl KeyError, s'))"

text \<open>\<^verbatim>\<open>g[name]\<close> on a group: the member's handle, KeyError when there is none.\<close>

definition group_getitem :: "h5ref \<Rightarrow> string \<Rightarrow> ('a, h5ref) py" where
  "group_getitem g name = (\<lambda>s.
     let s' = s\<lparr>log := log s @ [Call ''h5py.Group.__getitem__'' [ARef g, AStr name]]\<rparr>;
         m = (fst g, snd g @ [name])
     in if fst g \<notin> set (open_files s) then (Inl ValueError, s')
        else case h5fs s m of
               None \<Rightarrow> (Inl KeyError, s')
             | Some _ \<Rightarrow> (Inr m, s'))"

text \<open>\<^verbatim>\<open>d.parent\<close>: the group that holds the object.\<close>

definition parent :: "h5ref \<Rightarrow> h5ref" where
  "parent d = (fst d, butlast (snd d))"

text \<open>\<^verbatim>\<open>d[i]\<close> on a dataset.\<close>

definition dataset_getitem :: "h5ref \<Rightarrow> int \<Rightarrow> ('a, 'a ndarray) py" where
  "dataset_getitem d i = py_bind (read_dataset d) (\<lambda>a. py_lift (nd_getitem a i))"

text \<open>A list of statements or cells run in order; the first exception ends the run.\<close>

fun py_seq :: "('a, unit) py list \<Rightarrow> ('a, unit) py" where
  "py_seq [] = py_return ()"
| "py_seq (m # ms) = py_bind m (\<lambda>_. py_seq ms)"

text \<open>An IPython \<^verbatim>\<open>!command\<close> line: the command runs; its failure raises nothing.\<close>

definition shell :: "string \<Rightarrow> ('a, unit) py" where
  "shell cmd = modify (\<lambda>s. s\<lparr>log := log s @ [Call ''!'' [AStr cmd]]\<rparr>)"

definition py_import :: "'a lib \<Rightarrow> string \<Rightarrow> ('a, unit) py" where
  "py_import l name = external l ''import'' [AStr name]"

text \<open>
  \<^verbatim>\<open>proc.compute()\<close> of the SVD and of the clustering process: the routine works on the
  file and returns the group that holds its results.
\<close>

definition compute_svd :: "'a lib \<Rightarrow> h5ref \<Rightarrow> nat \<Rightarrow> ('a, h5ref) py" where
  "compute_svd l d n =
     py_bind (external l ''px.processing.SVD.compute'' [ARef d, AInt (int n)]) (\<lambda>_.
     py_bind (gets (\<lambda>s. svd_compute l (h5fs s) d n)) (\<lambda>(fs', g).
     py_bind (modify (h5fs_update (\<lambda>_. fs'))) (\<lambda>_.
     py_return g)))"

definition compute_cluster :: "'a lib \<Rightarrow> h5ref \<Rightarrow> nat \<Rightarrow> nat \<Rightarrow> ('a, h5ref) py" where
  "compute_cluster l d comps k =
     py_bind (external l ''px.processing.Cluster.compute''
                [ARef d, AInt (int k), AInt (int comps)]) (\<lambda>_.
     py_bind (gets (\<lambda>s. cluster_compute l (h5fs s) d comps k)) (\<lambda>(fs', g).
     py_bind (modify (h5fs_update (\<lambda>_. fs'))) (\<lambda>_.
     py_return g)))"

section \<open>The cells of the notebook\<close>

text \<open>Cell 1: package installation through the shell.\<close>

definition cell_install :: "'a lib \<Rightarrow> ('a, unit) py" where
  "cell_install l = py_seq
     [py_import l ''sys'',
      shell (''conda install --yes --prefix {sys.prefix} numpy scipy matplotlib '' @
             ''scikit-learn Ipython ipywidgets h5py''),
      shell ''{sys.executable} -m pip install -U --no-deps pyUSID==0.0.4'',
      shell ''{sys.executable} -m pip install -U --no-deps pycroscopy==0.60.1'']"

text \<open>
  Cell 2: imports and notebook display settings. \<^verbatim>\<open>sys.path.append('..')\<close> changes
  nothing that the notebook reads and is left out.
\<close>

definition cell_imports :: "'a lib \<Rightarrow> ('a, unit) py" where
  "cell_imports l = py_seq
     (map (py_import l)
        [''__future__'', ''os'', ''h5py'', ''numpy'', ''matplotlib.pyplot'', ''matplotlib.patches'',
         ''IPython.display'', ''ipywidgets'', ''sklearn.cluster'', ''pyUSID'', ''pycroscopy'']
      @ [external l ''display'' [AStr ''HTML''],
         external l ''%matplotlib'' [AStr ''notebook'']])"

text \<open>Cell 3: choose the file and open it with mode \<^verbatim>\<open>r+\<close>.\<close>

definition cell_open :: "'a lib \<Rightarrow> ('a, unit) py" where
  "cell_open l =
     py_bind (external l ''px.io_utils.file_dialog''
                [AStr ''*.h5'', AStr ''4D STEM dataset formatted according to USID'']) (\<lambda>_.
     (let h5_path = file_dialog l in
     py_bind (external l ''print'' [AStr (''Working on:'' @ [CHR 0x0A] @ h5_path)]) (\<lambda>_.
     py_bind (external l ''h5py.File'' [AStr h5_path, AStr ''r+'']) (\<lambda>_.
     py_bind (modify (open_files_update (\<lambda>fs. h5_path # fs))) (\<lambda>_.
     modify (h5_file_update (\<lambda>_. Some h5_path)))))))"

text \<open>
  Cell 4: the raw dataset is the last dataset that the search for \<^verbatim>\<open>Raw_Data\<close> returns;
  the scan grid and the detector size are read from it. The variables \<^verbatim>\<open>h5_pos_inds\<close>
  and \<^verbatim>\<open>h5_spec_inds\<close> are bound here and never read.
\<close>

definition cell_get_raw :: "'a lib \<Rightarrow> ('a, unit) py" where
  "cell_get_raw l =
     py_bind (var h5_file) (\<lambda>f.
     py_bind (external l ''usid.hdf_utils.find_dataset'' [ARef (f, []), AStr ''Raw_Data'']) (\<lambda>_.
     py_bind (gets (\<lambda>s. find_dataset l (h5fs s) f ''Raw_Data'')) (\<lambda>found.
     py_bind (py_lift (py_last found)) (\<lambda>d.
     py_bind (modify (h5_main_update (\<lambda>_. Some d))) (\<lambda>_.
     py_bind (external l ''usid.USIDataset'' [ARef d]) (\<lambda>_.
     py_bind (modify (h5_main_update (\<lambda>_. Some d))) (\<lambda>_.
     py_bind (gets (\<lambda>s. pos_dim_sizes l (h5fs s) d)) (\<lambda>pos_sizes.
     py_bind (py_lift (unpack2 pos_sizes)) (\<lambda>(r, c).
     py_bind (modify (\<lambda>s. s\<lparr>num_rows := Some r, num_cols := Some c\<rparr>)) (\<lambda>_.
     py_bind (gets (\<lambda>s. spec_dim_sizes l (h5fs s) d)) (\<lambda>spec_sizes.
     py_bind (py_lift (unpack2 spec_sizes)) (\<lambda>(sr, sc).
     modify (\<lambda>s. s\<lparr>num_sensor_rows := Some sr, num_sensor_cols := Some sc\<rparr>)))))))))))))"

text \<open>
  Cell 5: the two-panel figure. The left panel shows the stored \<^verbatim>\<open>Spectroscopic_Mean\<close>
  dataset, the right panel the ronchigram at \<^verbatim>\<open>coarse_pos\<close>. \<^verbatim>\<open>int(0.5*n)\<close> is
  \<open>n div 2\<close> for a dimension size \<open>n\<close>.
\<close>

definition cell_visualize :: "'a lib \<Rightarrow> ('a, unit) py" where
  "cell_visualize l =
     py_bind (var num_rows) (\<lambda>rows.
     py_bind (var num_cols) (\<lambda>cols.
     (let coarse_row = rows div 2;
          coarse_col = cols div 2;
          coarse_pos = coarse_row * rows + coarse_col in
     py_bind (var h5_main) (\<lambda>d.
     py_bind (dataset_getitem d (int coarse_pos)) (\<lambda>ronch_row.
     py_bind (var num_sensor_rows) (\<lambda>sr.
     py_bind (var num_sensor_cols) (\<lambda>sc.
     py_bind (py_lift (np_reshape ronch_row [int sr, int sc])) (\<lambda>current_ronch.
     py_bind (new_figure l ''plt.subplots'' [AInt 2]) (\<lambda>f.
     py_bind (modify (fig_update (\<lambda>_. Some f))) (\<lambda>_.
     py_bind (external l ''axes[0].hold'' []) (\<lambda>_.
     py_bind (external l ''axes[0].set_title'' [AStr ''Mean Response'']) (\<lambda>_.
     py_bind (group_getitem (parent d) ''Spectroscopic_Mean'') (\<lambda>mean_ref.
     py_bind (read_dataset mean_ref) (\<lambda>mean.
     py_bind (py_lift (np_reshape mean [int rows, int cols])) (\<lambda>mean_img.
     py_bind (external l ''px.plot_utils.cmap_jet_white_center'' []) (\<lambda>_.
     py_bind (external l ''axes[0].imshow'' [AShape (shape mean_img)]) (\<lambda>_.
     py_bind (modify (main_map_update (\<lambda>_. Some mean_img))) (\<lambda>_.
     py_bind (external l ''axes[0].axvline'' [AInt (int coarse_col)]) (\<lambda>_.
     py_bind (modify (main_vert_line_update (\<lambda>_. Some (int coarse_col)))) (\<lambda>_.
     py_bind (external l ''axes[0].axhline'' [AInt (int coarse_row)]) (\<lambda>_.
     py_bind (modify (main_hor_line_update (\<lambda>_. Some (int coarse_row)))) (\<lambda>_.
     py_bind (external l ''axes[1].set_title'' [AStr ''Ronchigram at current pixel'']) (\<lambda>_.
     py_bind (external l ''px.plot_utils.cmap_jet_white_center'' []) (\<lambda>_.
     py_bind (external l ''axes[1].imshow'' [AShape (shape current_ronch)]) (\<lambda>_.
     py_bind (modify (img_zoom_update (\<lambda>_. Some current_ronch))) (\<lambda>_.
     external l ''canvas.mpl_connect'' [AStr ''button_press_event'', AStr ''move_zoom_box'']))))))))))))))))))))))))))"

text \<open>
  The mouse event as the callback sees it: whether \<^verbatim>\<open>main_map.axes.in_axes(event)\<close>
  holds, and the data coordinates of the pointer.
\<close>

record mouse_event =
  in_main_axes :: bool
  xdata :: rat
  ydata :: rat

text \<open>
  The callback connected in cell 5. Its names \<^verbatim>\<open>coarse_col\<close>, \<^verbatim>\<open>coarse_row\<close>,
  \<^verbatim>\<open>coarse_pos\<close> and \<^verbatim>\<open>current_ronch\<close> are local; every other name is a global,
  looked up when the callback runs.
\<close>

definition move_zoom_box :: "'a lib \<Rightarrow> mouse_event \<Rightarrow> ('a, unit) py" where
  "move_zoom_box l event =
     py_bind (var main_map) (\<lambda>_.
     if \<not> in_main_axes event then py_return ()
     else
       (let coarse_col = py_round (xdata event);
            coarse_row = py_round (ydata event) in
       py_bind (var main_vert_line) (\<lambda>_.
       py_bind (modify (main_vert_line_update (\<lambda>_. Some coarse_col))) (\<lambda>_.
       py_bind (var main_hor_line) (\<lambda>_.
       py_bind (modify (main_hor_line_update (\<lambda>_. Some coarse_row))) (\<lambda>_.
       py_bind (var num_rows) (\<lambda>rows.
       (let coarse_pos = coarse_row * int rows + coarse_col in
       py_bind (var h5_main) (\<lambda>d.
       py_bind (dataset_getitem d coarse_pos) (\<lambda>ronch_row.
       py_bind (var num_sensor_rows) (\<lambda>sr.
       py_bind (var num_sensor_cols) (\<lambda>sc.
       py_bind (py_lift (np_reshape ronch_row [int sr, int sc])) (\<lambda>current_ronch.
       py_bind (var img_zoom) (\<lambda>_.
       py_bind (modify (img_zoom_update (\<lambda>_. Some current_ronch))) (\<lambda>_.
       py_bind (var fig) (\<lambda>f.
       external l ''fig.canvas.draw'' [AInt (int f)]))))))))))))))))"

text \<open>Cell 6: SVD of the raw dataset with 256 components; the members of its group.\<close>

definition cell_svd :: "'a lib \<Rightarrow> ('a, unit) py" where
  "cell_svd l =
     (let num_svd_comps = (256::nat) in
     py_bind (var h5_main) (\<lambda>d.
     py_bind (external l ''px.processing.SVD'' [ARef d, AInt (int num_svd_comps)]) (\<lambda>_.
     py_bind (compute_svd l d num_svd_comps) (\<lambda>h5_svd_group.
     py_bind (group_getitem h5_svd_group ''U'') (\<lambda>u.
     py_bind (modify (h5_u_update (\<lambda>_. Some u))) (\<lambda>_.
     py_bind (group_getitem h5_svd_group ''V'') (\<lambda>v.
     py_bind (modify (h5_v_update (\<lambda>_. Some v))) (\<lambda>_.
     py_bind (group_getitem h5_svd_group ''S'') (\<lambda>sv.
     modify (h5_s_update (\<lambda>_. Some sv)))))))))))"

text \<open>Cell 7: the number of components to plot.\<close>

definition cell_num_plot_comps :: "('a, unit) py" where
  "cell_num_plot_comps = modify (num_plot_comps_update (\<lambda>_. Some 16))"

text \<open>Cell 8: the scree plot of the singular values.\<close>

definition cell_plot_scree :: "'a lib \<Rightarrow> ('a, unit) py" where
  "cell_plot_scree l =
     py_bind (var h5_s) (\<lambda>sv.
     py_bind (new_figure l ''usid.plot_utils.plot_scree'' [ARef sv, AStr ''Variance'']) (\<lambda>f.
     modify (fig_update (\<lambda>_. Some f))))"

text \<open>Cell 9: the abundance maps, from the first columns of \<^verbatim>\<open>U\<close>.\<close>

definition cell_abundance :: "'a lib \<Rightarrow> ('a, unit) py" where
  "cell_abundance l =
     py_bind (var h5_u) (\<lambda>u.
     py_bind (var num_plot_comps) (\<lambda>k.
     py_bind (read_dataset u) (\<lambda>a.
     py_bind (py_lift (nd_take_cols a k)) (\<lambda>cols_k.
     py_bind (var num_rows) (\<lambda>rows.
     py_bind (var num_cols) (\<lambda>cols.
     py_bind (py_lift (np_reshape cols_k [int rows, int cols, - 1])) (\<lambda>maps.
     py_bind (py_lift (nd_transpose_201 maps)) (\<lambda>loadings.
     py_bind (external l ''px.plot_utils.cmap_jet_white_center'' []) (\<lambda>_.
     py_bind (new_figure l ''usid.plot_utils.plot_map_stack''
                [AShape (shape loadings), AInt (int k), AStr ''Abundance Maps'']) (\<lambda>f.
     modify (fig_update (\<lambda>_. Some f))))))))))))"

text \<open>Cell 10: the endmembers, from the first rows of \<^verbatim>\<open>V\<close>.\<close>

definition cell_endmembers :: "'a lib \<Rightarrow> ('a, unit) py" where
  "cell_endmembers l =
     py_bind (var h5_v) (\<lambda>v.
     py_bind (var num_plot_comps) (\<lambda>k.
     py_bind (read_dataset v) (\<lambda>a.
     py_bind (py_lift (nd_take_rows a k)) (\<lambda>rows_k.
     py_bind (var num_sensor_rows) (\<lambda>sr.
     py_bind (var num_sensor_cols) (\<lambda>sc.
     py_bind (py_lift (np_reshape rows_k [- 1, int sr, int sc])) (\<lambda>eigenvectors.
     py_bind (external l ''px.plot_utils.cmap_jet_white_center'' []) (\<lambda>_.
     py_bind (new_figure l ''usid.plot_utils.plot_map_stack''
                [AShape (shape eigenvectors), AInt (int k), AStr ''Endmembers'']) (\<lambda>f.
     modify (fig_update (\<lambda>_. Some f)))))))))))"

text \<open>Cell 11: the parameters of the clustering.\<close>

definition cell_cluster_params :: "('a, unit) py" where
  "cell_cluster_params =
     modify (\<lambda>s. s\<lparr>spectral_components := Some 128, num_clusters := Some 32\<rparr>)"

text \<open>
  Cell 12: k-means on \<^verbatim>\<open>U\<close>; the members of its group. Reading
  \<^verbatim>\<open>h5_centroids.shape\<close> goes to the file like any other read of the dataset.
\<close>

definition cell_cluster :: "'a lib \<Rightarrow> ('a, unit) py" where
  "cell_cluster l =
     py_bind (var num_clusters) (\<lambda>k.
     py_bind (external l ''KMeans'' [AInt (int k)]) (\<lambda>_.
     py_bind (var h5_u) (\<lambda>u.
     py_bind (var spectral_components) (\<lambda>comps.
     py_bind (external l ''px.processing.Cluster'' [ARef u, AInt (int k), AInt (int comps)]) (\<lambda>_.
     py_bind (compute_cluster l u comps k) (\<lambda>h5_kmeans_group.
     py_bind (group_getitem h5_kmeans_group ''Labels'') (\<lambda>labels.
     py_bind (modify (h5_labels_update (\<lambda>_. Some labels))) (\<lambda>_.
     py_bind (group_getitem h5_kmeans_group ''Mean_Response'') (\<lambda>h5_centroids.
     py_bind (read_dataset h5_centroids) (\<lambda>centroids.
     py_bind (py_lift (shape1 centroids)) (\<lambda>n.
     modify (num_comps_for_clustering_update (\<lambda>_. Some n)))))))))))))"

text \<open>Cell 13: the map of cluster labels.\<close>

definition cell_labels :: "'a lib \<Rightarrow> ('a, unit) py" where
  "cell_labels l =
     py_bind (var h5_labels) (\<lambda>labels.
     py_bind (var num_rows) (\<lambda>rows.
     py_bind (var num_cols) (\<lambda>cols.
     py_bind (read_dataset labels) (\<lambda>a.
     py_bind (py_lift (np_reshape a [int rows, int cols])) (\<lambda>m.
     py_bind (modify (label_mat_update (\<lambda>_. Some m))) (\<lambda>_.
     py_bind (var num_clusters) (\<lambda>k.
     py_bind (new_figure l ''px.viz.cluster_utils.plot_cluster_labels''
                [AShape (shape m), AInt (int k)]) (\<lambda>f.
     modify (fig_update (\<lambda>_. Some f))))))))))"

text \<open>Cell 14: the dendrogram of the clusters.\<close>

definition cell_dendrogram :: "'a lib \<Rightarrow> ('a, unit) py" where
  "cell_dendrogram l =
     py_bind (var h5_u) (\<lambda>u.
     py_bind (var spectral_components) (\<lambda>comps.
     py_bind (read_dataset u) (\<lambda>a.
     py_bind (py_lift (nd_take_cols a comps)) (\<lambda>cols_k.
     py_bind (var num_rows) (\<lambda>rows.
     py_bind (var num_cols) (\<lambda>cols.
     py_bind (py_lift (np_reshape cols_k [int rows, int cols, - 1])) (\<lambda>e_vals.
     py_bind (var label_mat) (\<lambda>m.
     py_bind (var num_comps_for_clustering) (\<lambda>n.
     py_bind (var num_clusters) (\<lambda>k.
     py_bind (new_figure l ''px.viz.cluster_utils.plot_cluster_dendrogram''
                [AShape (shape m), AShape (shape e_vals), AInt (int n), AInt (int k), AInt (int k)]) (\<lambda>f.
     modify (fig_update (\<lambda>_. Some f)))))))))))))"

text \<open>Cell 15: close the file.\<close>

definition cell_close :: "'a lib \<Rightarrow> ('a, unit) py" where
  "cell_close l =
     py_bind (var h5_file) (\<lambda>f.
     py_bind (external l ''h5py.File.close'' [AStr f]) (\<lambda>_.
     modify (open_files_update (removeAll f))))"

text \<open>Cell 16 is empty.\<close>

definition cell_empty :: "('a, unit) py" where
  "cell_empty = py_return ()"

text \<open>The notebook is its cells in order; running it runs them one after the other.\<close>

definition notebook :: "'a lib \<Rightarrow> ('a, unit) py list" where
  "notebook l =
     [cell_install l, cell_imports l, cell_open l, cell_get_raw l, cell_visualize l,
      cell_svd l, cell_num_plot_comps, cell_plot_scree l, cell_abundance l,
      cell_endmembers l, cell_cluster_params, cell_cluster l, cell_labels l,
      cell_dendrogram l, cell_close l, cell_empty]"

definition run_all :: "'a lib \<Rightarrow> ('a, unit) py" where
  "run_all l = py_seq (notebook l)"

text \<open>A fresh kernel: no global is bound, no file is open, nothing has been called.\<close>

definition initial_state :: "'a h5fs \<Rightarrow> 'a state" where
  "initial_state fs =
     \<lparr>h5fs = fs, open_files = [], figures = 0, log = [],
      h5_file = None, h5_main = None, num_rows = None, num_cols = None,
      num_sensor_rows = None, num_sensor_cols = None, fig = None, main_map = None,
      main_vert_line = None, main_hor_line = None, img_zoom = None,
      h5_u = None, h5_v = None, h5_s = None, num_plot_comps = None,
      spectral_components = None, num_clusters = None, h5_labels = None,
      num_comps_for_clustering = None, label_mat = None\<rparr>"

section \<open>A small data file and a library that answers for it\<close>

text \<open>
  A scan of 2 rows by 3 columns with a detector of 1 by 2 pixels, stored twice under the
  name \<^verbatim>\<open>Raw_Data\<close>; the stored \<^verbatim>\<open>Spectroscopic_Mean\<close> is deliberately not the mean of
  the raw rows.
\<close>

definition demo_raw0 :: h5ref where
  "demo_raw0 = (''stem.h5'', [''Measurement_000'', ''Channel_000'', ''Raw_Data''])"

definition demo_raw :: h5ref where
  "demo_raw = (''stem.h5'', [''Measurement_001'', ''Channel_000'', ''Raw_Data''])"

definition demo_data :: "int ndarray" where
  "demo_data = \<lparr>shape = [6, 2], flat = [0, 1, 10, 11, 20, 21, 30, 31, 40, 41, 50, 51]\<rparr>"

definition demo_mean :: "int ndarray" where
  "demo_mean = \<lparr>shape = [6], flat = [7, 7, 8, 8, 9, 9]\<rparr>"

definition demo_fs :: "int h5fs" where
  "demo_fs =
     [demo_raw0 \<mapsto> Dataset \<lparr>shape = [1, 2], flat = [5, 6]\<rparr>,
      demo_raw \<mapsto> Dataset demo_data,
      (''stem.h5'', [''Measurement_001'', ''Channel_000'', ''Spectroscopic_Mean'']) \<mapsto>
         Dataset demo_mean]"

definition demo_svd :: "int h5fs \<Rightarrow> h5ref \<Rightarrow> nat \<Rightarrow> int h5fs \<times> h5ref" where
  "demo_svd fs d n =
     (let g = (fst d, butlast (snd d) @ [''Raw_Data-SVD_000''])
      in (fs(g \<mapsto> Group,
             (fst g, snd g @ [''U'']) \<mapsto>
                Dataset \<lparr>shape = [6, 2], flat = [1, 0, 1, 0, 1, 0, 0, 1, 0, 1, 0, 1]\<rparr>,
             (fst g, snd g @ [''V'']) \<mapsto> Dataset \<lparr>shape = [2, 2], flat = [1, 0, 0, 1]\<rparr>,
             (fst g, snd g @ [''S'']) \<mapsto> Dataset \<lparr>shape = [2], flat = [3, 2]\<rparr>), g))"

definition demo_cluster :: "int h5fs \<Rightarrow> h5ref \<Rightarrow> nat \<Rightarrow> nat \<Rightarrow> int h5fs \<times> h5ref" where
  "demo_cluster fs d comps k =
     (let g = (fst d, butlast (snd d) @ [''U-Cluster_000''])
      in (fs(g \<mapsto> Group,
             (fst g, snd g @ [''Labels'']) \<mapsto>
                Dataset \<lparr>shape = [6, 1], flat = [0, 0, 0, 1, 1, 1]\<rparr>,
             (fst g, snd g @ [''Mean_Response'']) \<mapsto>
                Dataset \<lparr>shape = [2, 2], flat = [1, 0, 0, 1]\<rparr>), g))"

definition demo_lib :: "int lib" where
  "demo_lib =
     \<lparr>ext_fault = (\<lambda>_ _ _. None),
      file_dialog = ''stem.h5'',
      find_dataset = (\<lambda>_ _ _. [demo_raw0, demo_raw]),
      pos_dim_sizes = (\<lambda>_ _. [2, 3]),
      spec_dim_sizes = (\<lambda>_ _. [1, 2]),
      svd_compute = demo_svd,
      cluster_compute = demo_cluster\<rparr>"

text \<open>The same library for a file in which the search finds no \<^verbatim>\<open>Raw_Data\<close>.\<close>

definition demo_lib_no_raw :: "int lib" where
  "demo_lib_no_raw = demo_lib\<lparr>find_dataset := (\<lambda>_ _ _. [])\<rparr>"

text \<open>The same library when the SVD computation runs out of memory.\<close>

definition demo_lib_svd_fails :: "int lib" where
  "demo_lib_svd_fails =
     demo_lib\<lparr>ext_fault := (\<lambda>_ f _. if f = ''px.processing.SVD.compute''
                                   then Some (LibraryError ''MemoryError'') else None)\<rparr>"



text \<open>A click on the left panel at column 0 of row 1, and one beside the panel.\<close>

definition demo_click :: mouse_event where
  "demo_click = \<lparr>in_main_axes = True, xdata = 0, ydata = 1\<rparr>"

definition demo_click_outside :: mouse_event where
  "demo_click_outside = \<lparr>in_main_axes = False, xdata = 0, ydata = 1\<rparr>"

section \<open>Notions used to state the properties\<close>

text \<open>The name of the routine that a logged call went to.\<close>

definition ev_name :: "event \<Rightarrow> string" where
  "ev_name e = (case e of Call f _ \<Rightarrow> f)"

text \<open>A statement leaves a component of the state as it was, however it ends.\<close>

definition keeps :: "('a state \<Rightarrow> 'v) \<Rightarrow> ('a, 'r) py \<Rightarrow> bool" where
  "keeps f m = (\<forall>s. f (snd (m s)) = f s)"

text \<open>
  A statement only appends to the log; when it returns, the names of the calls it made
  are \<open>ns\<close>, and when it raises they are an initial part of \<open>ns\<close>.
\<close>

definition emits :: "string list \<Rightarrow> ('a, 'r) py \<Rightarrow> bool" where
  "emits ns m = (\<forall>s. \<exists>evs. log (snd (m s)) = log s @ evs \<and>
      (case fst (m s) of Inr _ \<Rightarrow> map ev_name evs = ns | Inl _ \<Rightarrow> prefix (map ev_name evs) ns))"

text \<open>The names of the calls that each cell makes, in the order of the source.\<close>

definition cell_calls :: "string list list" where
  "cell_calls =
     [[''import'', ''!'', ''!'', ''!''],
      [''import'', ''import'', ''import'', ''import'', ''import'', ''import'',
       ''import'', ''import'', ''import'', ''import'', ''import'', ''display'',
       ''%matplotlib''],
      [''px.io_utils.file_dialog'', ''print'', ''h5py.File''],
      [''usid.hdf_utils.find_dataset'', ''usid.USIDataset''],
      [''h5py.Dataset.read'', ''plt.subplots'', ''axes[0].hold'',
       ''axes[0].set_title'', ''h5py.Group.__getitem__'', ''h5py.Dataset.read'',
       ''px.plot_utils.cmap_jet_white_center'', ''axes[0].imshow'',
       ''axes[0].axvline'', ''axes[0].axhline'', ''axes[1].set_title'',
       ''px.plot_utils.cmap_jet_white_center'', ''axes[1].imshow'',
       ''canvas.mpl_connect''],
      [''px.processing.SVD'', ''px.processing.SVD.compute'',
       ''h5py.Group.__getitem__'', ''h5py.Group.__getitem__'',
       ''h5py.Group.__getitem__''],
      [],
      [''usid.plot_utils.plot_scree''],
      [''h5py.Dataset.read'', ''px.plot_utils.cmap_jet_white_center'',
       ''usid.plot_utils.plot_map_stack''],
      [''h5py.Dataset.read'', ''px.plot_utils.cmap_jet_white_center'',
       ''usid.plot_utils.plot_map_stack''],
      [],
      [''KMeans'', ''px.processing.Cluster'', ''px.processing.Cluster.compute'',
       ''h5py.Group.__getitem__'', ''h5py.Group.__getitem__'', ''h5py.Dataset.read''],
      [''h5py.Dataset.read'', ''px.viz.cluster_utils.plot_cluster_labels''],
      [''h5py.Dataset.read'', ''px.viz.cluster_utils.plot_cluster_dendrogram''],
      [''h5py.File.close''],
      []]"

definition script_calls :: "string list" where
  "script_calls = concat cell_calls"

text \<open>
  The objects a run works on, as functions of the library and of the file contents at
  the start: the raw dataset, the result of the SVD on it, a member of a group, and the
  result of the clustering on the \<^verbatim>\<open>U\<close> member of the SVD group.
\<close>

definition raw_ref :: "'a lib \<Rightarrow> 'a h5fs \<Rightarrow> h5ref" where
  "raw_ref l fs = last (find_dataset l fs (file_dialog l) ''Raw_Data'')"

definition svd_result :: "'a lib \<Rightarrow> 'a h5fs \<Rightarrow> 'a h5fs \<times> h5ref" where
  "svd_result l fs = svd_compute l fs (raw_ref l fs) 256"

definition member :: "h5ref \<Rightarrow> string \<Rightarrow> h5ref" where
  "member g name = (fst g, snd g @ [name])"

definition cluster_result :: "'a lib \<Rightarrow> 'a h5fs \<Rightarrow> 'a h5fs \<times> h5ref" where
  "cluster_result l fs =
     cluster_compute l (fst (svd_result l fs)) (member (snd (svd_result l fs)) ''U'') 128 32"

text \<open>
  The exception that a logged call raises, given the contents of the file and the files
  that are open when it is made. A shell line raises nothing. A read of a dataset and a
  lookup of a group member fail as \<open>read_dataset\<close> and \<open>group_getitem\<close> do. Every other
  call goes to an external package and raises what the library says.
\<close>

definition call_error :: "'a lib \<Rightarrow> 'a h5fs \<Rightarrow> string list \<Rightarrow> event \<Rightarrow> error option" where
  "call_error l fs opened c =
     (case c of Call n args \<Rightarrow>
        if n = ''!'' then None
        else if n = ''h5py.Dataset.read'' then
          (case args of
             [ARef d] \<Rightarrow>
               if fst d \<notin> set opened then Some ValueError
               else (case fs d of
                       Some (Dataset a) \<Rightarrow> None
                     | Some Group \<Rightarrow> Some TypeError
                     | None \<Rightarrow> Some KeyError)
           | _ \<Rightarrow> None)
        else if n = ''h5py.Group.__getitem__'' then
          (case args of
             [ARef g, AStr name] \<Rightarrow>
               if fst g \<notin> set opened then Some ValueError
               else (case fs (fst g, snd g @ [name]) of
                       None \<Rightarrow> Some KeyError
                     | Some _ \<Rightarrow> None)
           | _ \<Rightarrow> None)
        else ext_fault l fs n args)"

text \<open>
  In a run from a fresh kernel the contents of the file and the open files at the moment of
  a call follow from the names of the calls made before it: the file holds what the SVD
  returned once its \<^verbatim>\<open>compute\<close> was called, what the clustering returned once its
  \<^verbatim>\<open>compute\<close> was called, and the file chosen in cell 3 is open from the call of
  \<^verbatim>\<open>h5py.File\<close> to the call of \<^verbatim>\<open>close\<close>.
\<close>

definition file_before :: "'a lib \<Rightarrow> 'a h5fs \<Rightarrow> string list \<Rightarrow> 'a h5fs" where
  "file_before l fs ns =
     (if ''px.processing.Cluster.compute'' \<in> set ns then fst (cluster_result l fs)
      else if ''px.processing.SVD.compute'' \<in> set ns then fst (svd_result l fs)
      else fs)"

definition open_before :: "'a lib \<Rightarrow> string list \<Rightarrow> string list" where
  "open_before l ns =
     (if ''h5py.File'' \<in> set ns \<and> ''h5py.File.close'' \<notin> set ns then [file_dialog l] else [])"

text \<open>
  Of the calls \<open>evs\<close> made by a statement with outcome \<open>r\<close>: a call that raises is the last
  one, and its exception is the outcome. \<open>F\<close> and \<open>H\<close> give the contents of the file and
  the open files after the calls with the given names.
\<close>

definition stops :: "'a lib \<Rightarrow> (string list \<Rightarrow> 'a h5fs) \<Rightarrow> (string list \<Rightarrow> string list) \<Rightarrow>
    event list \<Rightarrow> error + 'r \<Rightarrow> bool" where
  "stops l F H evs r =
     (\<forall>pre c post e.
        evs = pre @ c # post \<and>
        call_error l (F (map ev_name pre)) (H (map ev_name pre)) c = Some e \<longrightarrow>
        post = [] \<and> r = Inl e)"

text \<open>
  A statement that changes neither the file nor the open files, and in which a call that
  raises is the last call made and decides the outcome.
\<close>

definition uncaught :: "'a lib \<Rightarrow> ('a, 'r) py \<Rightarrow> bool" where
  "uncaught l m =
     (\<forall>s. h5fs (snd (m s)) = h5fs s \<and> open_files (snd (m s)) = open_files s \<and>
          (\<exists>evs. log (snd (m s)) = log s @ evs \<and>
                 stops l (\<lambda>_. h5fs s) (\<lambda>_. open_files s) evs (fst (m s))))"


section \<open>Unfolding rules\<close>

lemmas py_defs = py_bind_def py_return_def py_raise_def py_lift_def var_def modify_def
  gets_def external_def new_figure_def read_dataset_def group_getitem_def dataset_getitem_def
  shell_def py_import_def compute_svd_def compute_cluster_def

lemmas np_defs = py_last_def unpack2_def np_reshape_def nd_getitem_def nd_take_rows_def
  nd_take_cols_def nd_transpose_201_def shape1_def parent_def

lemmas cell_defs = cell_install_def cell_imports_def cell_open_def cell_get_raw_def
  cell_visualize_def cell_svd_def cell_num_plot_comps_def cell_plot_scree_def
  cell_abundance_def cell_endmembers_def cell_cluster_params_def cell_cluster_def
  cell_labels_def cell_dendrogram_def cell_close_def cell_empty_def

lemmas demo_defs = demo_lib_def demo_fs_def demo_raw_def demo_raw0_def demo_data_def
  demo_mean_def demo_svd_def demo_cluster_def initial_state_def

section \<open>The mouse callback\<close>

text \<open>
  What a click inside the left panel shows when the callback completes: the slab of the
  raw dataset at index \<open>row * num_rows + col\<close>, reshaped to the detector's size.
\<close>

lemma move_zoom_box_position:
  assumes "move_zoom_box l ev s = (Inr (), s')" and "in_main_axes ev"
  shows "\<exists>d a rows sr sc ronch.
           h5_main s = Some d \<and> h5fs s d = Some (Dataset a) \<and> num_rows s = Some rows \<and>
           num_sensor_rows s = Some sr \<and> num_sensor_cols s = Some sc \<and>
           nd_getitem a (py_round (ydata ev) * int rows + py_round (xdata ev)) = Inr ronch \<and>
           img_zoom s' = Some \<lparr>shape = [sr, sc], flat = flat ronch\<rparr>"
  using assms
  by (auto simp: move_zoom_box_def py_defs Let_def np_reshape_def
           split: option.splits sum.splits if_splits node.splits prod.splits)

text \<open>
  C1. A click inside the mean-response map at the rounded coordinates (row, col) should
  show the ronchigram of the scan position with row-major index \<open>row * num_cols + col\<close>.
  On the 2 by 3 scan, after cells 1 to 5, a click at row 1, column 0 shows the ronchigram
  stored at index 2 (the values 20, 21), which belongs to row 0, column 2; the one at
  index \<open>1 * 3 + 0\<close> holds the values 30, 31. The callback multiplies the row by
  \<^verbatim>\<open>num_rows\<close>.
\<close>

theorem move_zoom_box_row_stride:
  "img_zoom (snd (py_bind (py_seq (take 5 (notebook demo_lib)))
                    (\<lambda>_. move_zoom_box demo_lib demo_click) (initial_state demo_fs)))
     = Some \<lparr>shape = [1, 2], flat = [20, 21]\<rparr>
   \<and> nd_getitem demo_data (1 * 3 + 0) = Inr \<lparr>shape = [2], flat = [30, 31]\<rparr>
   \<and> nd_getitem demo_data (0 * 3 + 2) = Inr \<lparr>shape = [2], flat = [20, 21]\<rparr>"
  by (simp add: notebook_def cell_defs py_defs np_defs demo_defs Let_def move_zoom_box_def
        demo_click_def py_round_def)

text \<open>
  C9. A button press outside the axes of the mean-response map makes the callback return
  at once: the crosshair lines, the zoomed image and the rest of the state stay as they are.
  The callback exists once cell 5 has bound \<^verbatim>\<open>main_map\<close>.
\<close>

theorem move_zoom_box_outside_axes:
  "main_map s \<noteq> None \<Longrightarrow> \<not> in_main_axes event \<Longrightarrow> move_zoom_box l event s = (Inr (), s)"
  by (auto simp: move_zoom_box_def py_bind_def var_def py_return_def)

theorem move_zoom_box_outside_axes_witness:
  "main_map ((initial_state demo_fs)\<lparr>main_map := Some demo_mean\<rparr>) \<noteq> None
   \<and> \<not> in_main_axes demo_click_outside
   \<and> move_zoom_box demo_lib demo_click_outside ((initial_state demo_fs)\<lparr>main_map := Some demo_mean\<rparr>)
       = (Inr (), (initial_state demo_fs)\<lparr>main_map := Some demo_mean\<rparr>)"
  using move_zoom_box_outside_axes
          [of "(initial_state demo_fs)\<lparr>main_map := Some demo_mean\<rparr>" demo_click_outside demo_lib]
  by (simp add: demo_click_outside_def)

section \<open>Rules for statements\<close>

lemma keeps_return: "keeps f (py_return x)"
  by (simp add: keeps_def py_return_def)

lemma keeps_raise: "keeps f (py_raise e)"
  by (simp add: keeps_def py_raise_def)

lemma keeps_lift: "keeps f (py_lift x)"
  by (simp add: keeps_def py_lift_def)

lemma keeps_var: "keeps f (var v)"
  by (simp add: keeps_def var_def split: option.splits)

lemma keeps_gets: "keeps f (gets g)"
  by (simp add: keeps_def gets_def)

lemma keeps_modify: "(\<And>s. f (u s) = f s) \<Longrightarrow> keeps f (modify u)"
  by (simp add: keeps_def modify_def)

lemma keeps_bind: "keeps f m \<Longrightarrow> (\<And>x. keeps f (g x)) \<Longrightarrow> keeps f (py_bind m g)"
  by (auto simp: keeps_def py_bind_def split: prod.splits sum.splits) (metis snd_conv)+

lemma keeps_external: "(\<And>s x. f (s\<lparr>log := x\<rparr>) = f s) \<Longrightarrow> keeps f (external l g args)"
  by (simp add: keeps_def external_def Let_def split: option.splits)

lemma keeps_read: "(\<And>s x. f (s\<lparr>log := x\<rparr>) = f s) \<Longrightarrow> keeps f (read_dataset d)"
  by (simp add: keeps_def read_dataset_def Let_def split: option.splits node.splits)

lemma keeps_getitem: "(\<And>s x. f (s\<lparr>log := x\<rparr>) = f s) \<Longrightarrow> keeps f (group_getitem d n)"
  by (simp add: keeps_def group_getitem_def Let_def split: option.splits node.splits)

lemma keeps_prod: "(\<And>a b. keeps f (g a b)) \<Longrightarrow> keeps f (case p of (a, b) \<Rightarrow> g a b)"
  by (cases p) simp

lemma keeps_if: "keeps f m \<Longrightarrow> keeps f n \<Longrightarrow> keeps f (if b then m else n)"
  by simp

lemma keeps_seq: "(\<And>m. m \<in> set ms \<Longrightarrow> keeps f m) \<Longrightarrow> keeps f (py_seq ms)"
  by (induction ms) (auto intro: keeps_return keeps_bind)

lemmas keeps_intros = keeps_return keeps_raise keeps_lift keeps_var keeps_gets keeps_modify
  keeps_bind keeps_external keeps_read keeps_getitem keeps_prod keeps_if

lemma emits_return: "emits [] (py_return x)"
  by (simp add: emits_def py_return_def)

lemma emits_raise: "emits [] (py_raise e)"
  by (simp add: emits_def py_raise_def)

lemma emits_lift: "emits [] (py_lift x)"
  by (cases x) (simp_all add: emits_def py_lift_def)

lemma emits_var: "emits [] (var v)"
  by (simp add: emits_def var_def split: option.splits)

lemma emits_gets: "emits [] (gets g)"
  by (simp add: emits_def gets_def)

lemma emits_modify: "(\<And>s. log (u s) = log s) \<Longrightarrow> emits [] (modify u)"
  by (simp add: emits_def modify_def)

lemma emits_shell: "emits [''!''] (shell c)"
  by (simp add: emits_def shell_def modify_def ev_name_def)

lemma emits_external: "emits [g] (external l g args)"
  by (simp add: emits_def external_def Let_def ev_name_def split: option.splits)

lemma emits_read: "emits [''h5py.Dataset.read''] (read_dataset d)"
  by (simp add: emits_def read_dataset_def Let_def ev_name_def split: option.splits node.splits)

lemma emits_getitem: "emits [''h5py.Group.__getitem__''] (group_getitem d n)"
  by (simp add: emits_def group_getitem_def Let_def ev_name_def split: option.splits node.splits)

lemma emits_bind:
  assumes "emits ns1 m" and "\<And>x. emits ns2 (g x)"
  shows "emits (ns1 @ ns2) (py_bind m g)"
  unfolding emits_def
proof
  fix s
  obtain r s1 where ms: "m s = (r, s1)" by (cases "m s")
  from assms(1) ms obtain evs where e1: "log s1 = log s @ evs"
    and c1: "(case r of Inr _ \<Rightarrow> map ev_name evs = ns1 | Inl _ \<Rightarrow> prefix (map ev_name evs) ns1)"
    unfolding emits_def by (metis fst_conv snd_conv)
  show "\<exists>evs. log (snd (py_bind m g s)) = log s @ evs \<and>
      (case fst (py_bind m g s) of Inr _ \<Rightarrow> map ev_name evs = ns1 @ ns2
       | Inl _ \<Rightarrow> prefix (map ev_name evs) (ns1 @ ns2))"
  proof (cases r)
    case (Inl e)
    with ms e1 c1 show ?thesis by (auto simp: py_bind_def intro: prefix_prefix)
  next
    case (Inr x)
    from assms(2)[of x] obtain evs2 where e2: "log (snd (g x s1)) = log s1 @ evs2"
      and c2: "(case fst (g x s1) of Inr _ \<Rightarrow> map ev_name evs2 = ns2
                | Inl _ \<Rightarrow> prefix (map ev_name evs2) ns2)"
      unfolding emits_def by blast
    from Inr ms have b: "py_bind m g s = g x s1" by (simp add: py_bind_def)
    from Inr c1 have n1: "map ev_name evs = ns1" by simp
    show ?thesis
      using e1 e2 c2 n1 unfolding b
      by (intro exI[of _ "evs @ evs2"]) (auto split: sum.splits)
  qed
qed

lemma emits_prod: "(\<And>a b. emits ns (g a b)) \<Longrightarrow> emits ns (case p of (a, b) \<Rightarrow> g a b)"
  by (cases p) simp

lemma emits_eq: "emits ns' m \<Longrightarrow> ns' = ns \<Longrightarrow> emits ns m"
  by simp

lemmas emits_intros = emits_return emits_raise emits_lift emits_var emits_gets emits_modify
  emits_shell emits_external emits_read emits_getitem emits_bind emits_prod

lemma py_bind_ok:
  "py_bind m g s = (Inr y, s') \<longleftrightarrow> (\<exists>x s1. m s = (Inr x, s1) \<and> g x s1 = (Inr y, s'))"
  by (auto simp: py_bind_def split: prod.splits sum.splits)

lemma py_bind_cases:
  assumes "py_bind m g s = (r, s')"
  obtains (fail) e where "m s = (Inl e, s')" "r = Inl e"
        | (ok) x s1 where "m s = (Inr x, s1)" "g x s1 = (r, s')"
  using assms by (auto simp: py_bind_def split: prod.splits sum.splits)

lemma py_seq_append: "py_seq (xs @ ys) = py_bind (py_seq xs) (\<lambda>_. py_seq ys)"
  by (induction xs) (auto simp: py_bind_def py_return_def fun_eq_iff split: prod.splits sum.splits)

lemma py_seq_single: "py_seq [c] = c"
  by (auto simp: fun_eq_iff py_bind_def py_return_def split: prod.splits sum.splits)

lemma py_seq_snoc_ok:
  "py_seq (xs @ [c]) s = (Inr (), s') \<longleftrightarrow> (\<exists>s1. py_seq xs s = (Inr (), s1) \<and> c s1 = (Inr (), s'))"
  by (auto simp: py_seq_append py_bind_ok py_return_def)

lemma py_seq_append_ok:
  "py_seq (xs @ ys) s = (Inr (), s') \<longleftrightarrow> (\<exists>s1. py_seq xs s = (Inr (), s1) \<and> py_seq ys s1 = (Inr (), s'))"
  by (auto simp: py_seq_append py_bind_ok)

lemma keepsD: "keeps f m \<Longrightarrow> m s = (r, s') \<Longrightarrow> f s' = f s"
  by (metis keeps_def snd_conv)

lemma emits_seq: "list_all2 emits nss ms \<Longrightarrow> emits (concat nss) (py_seq ms)"
  by (induction nss ms rule: list_all2_induct) (auto intro: emits_return emits_bind)

lemma emitsD:
  assumes "emits ns m" "m s = (r, s')"
  shows "\<exists>evs. log s' = log s @ evs \<and> prefix (map ev_name evs) ns \<and>
           ((\<exists>x. r = Inr x) \<longrightarrow> map ev_name evs = ns)"
proof -
  from assms(1) obtain evs where e: "log (snd (m s)) = log s @ evs"
    and c: "(case fst (m s) of Inr _ \<Rightarrow> map ev_name evs = ns | Inl _ \<Rightarrow> prefix (map ev_name evs) ns)"
    unfolding emits_def by blast
  show ?thesis
  proof (cases r)
    case (Inl a)
    with e c assms(2) show ?thesis by auto
  next
    case (Inr b)
    with e c assms(2) show ?thesis by auto
  qed
qed

section \<open>The calls and the frame of each cell\<close>

lemma emits_cell_install:
  "emits [''import'', ''!'', ''!'', ''!'']
     (cell_install l)"
  unfolding cell_install_def Let_def dataset_getitem_def new_figure_def compute_svd_def
    compute_cluster_def py_import_def
  by (rule emits_eq, (simp only: list.map append.simps py_seq.simps)?)
     (rule emits_intros | simp)+

lemma emits_cell_imports:
  "emits [''import'', ''import'', ''import'', ''import'', ''import'', ''import'',
     ''import'', ''import'', ''import'', ''import'', ''import'', ''display'',
     ''%matplotlib'']
     (cell_imports l)"
  unfolding cell_imports_def Let_def dataset_getitem_def new_figure_def compute_svd_def
    compute_cluster_def py_import_def
  by (rule emits_eq, (simp only: list.map append.simps py_seq.simps)?)
     (rule emits_intros | simp)+

lemma emits_cell_open:
  "emits [''px.io_utils.file_dialog'', ''print'', ''h5py.File'']
     (cell_open l)"
  unfolding cell_open_def Let_def dataset_getitem_def new_figure_def compute_svd_def
    compute_cluster_def py_import_def
  by (rule emits_eq, (simp only: list.map append.simps py_seq.simps)?)
     (rule emits_intros | simp)+

lemma emits_cell_get_raw:
  "emits [''usid.hdf_utils.find_dataset'', ''usid.USIDataset'']
     (cell_get_raw l)"
  unfolding cell_get_raw_def Let_def dataset_getitem_def new_figure_def compute_svd_def
    compute_cluster_def py_import_def
  by (rule emits_eq, (simp only: list.map append.simps py_seq.simps)?)
     (rule emits_intros | simp)+

lemma emits_cell_visualize:
  "emits [''h5py.Dataset.read'', ''plt.subplots'', ''axes[0].hold'',
     ''axes[0].set_title'', ''h5py.Group.__getitem__'', ''h5py.Dataset.read'',
     ''px.plot_utils.cmap_jet_white_center'', ''axes[0].imshow'',
     ''axes[0].axvline'', ''axes[0].axhline'', ''axes[1].set_title'',
     ''px.plot_utils.cmap_jet_white_center'', ''axes[1].imshow'',
     ''canvas.mpl_connect'']
     (cell_visualize l)"
  unfolding cell_visualize_def Let_def dataset_getitem_def new_figure_def compute_svd_def
    compute_cluster_def py_import_def
  by (rule emits_eq, (simp only: list.map append.simps py_seq.simps)?)
     (rule emits_intros | simp)+

lemma emits_cell_svd:
  "emits [''px.processing.SVD'', ''px.processing.SVD.compute'',
     ''h5py.Group.__getitem__'', ''h5py.Group.__getitem__'',
     ''h5py.Group.__getitem__'']
     (cell_svd l)"
  unfolding cell_svd_def Let_def dataset_getitem_def new_figure_def compute_svd_def
    compute_cluster_def py_import_def
  by (rule emits_eq, (simp only: list.map append.simps py_seq.simps)?)
     (rule emits_intros | simp)+

lemma emits_cell_num_plot_comps: "emits [] (cell_num_plot_comps)"
  unfolding cell_num_plot_comps_def Let_def dataset_getitem_def new_figure_def compute_svd_def
    compute_cluster_def py_import_def
  by (rule emits_eq, (simp only: list.map append.simps py_seq.simps)?)
     (rule emits_intros | simp)+

lemma emits_cell_plot_scree:
  "emits [''usid.plot_utils.plot_scree'']
     (cell_plot_scree l)"
  unfolding cell_plot_scree_def Let_def dataset_getitem_def new_figure_def compute_svd_def
    compute_cluster_def py_import_def
  by (rule emits_eq, (simp only: list.map append.simps py_seq.simps)?)
     (rule emits_intros | simp)+

lemma emits_cell_abundance:
  "emits [''h5py.Dataset.read'', ''px.plot_utils.cmap_jet_white_center'',
     ''usid.plot_utils.plot_map_stack'']
     (cell_abundance l)"
  unfolding cell_abundance_def Let_def dataset_getitem_def new_figure_def compute_svd_def
    compute_cluster_def py_import_def
  by (rule emits_eq, (simp only: list.map append.simps py_seq.simps)?)
     (rule emits_intros | simp)+

lemma emits_cell_endmembers:
  "emits [''h5py.Dataset.read'', ''px.plot_utils.cmap_jet_white_center'',
     ''usid.plot_utils.plot_map_stack'']
     (cell_endmembers l)"
  unfolding cell_endmembers_def Let_def dataset_getitem_def new_figure_def compute_svd_def
    compute_cluster_def py_import_def
  by (rule emits_eq, (simp only: list.map append.simps py_seq.simps)?)
     (rule emits_intros | simp)+

lemma emits_cell_cluster_params: "emits [] (cell_cluster_params)"
  unfolding cell_cluster_params_def Let_def dataset_getitem_def new_figure_def compute_svd_def
    compute_cluster_def py_import_def
  by (rule emits_eq, (simp only: list.map append.simps py_seq.simps)?)
     (rule emits_intros | simp)+

lemma emits_cell_cluster:
  "emits [''KMeans'', ''px.processing.Cluster'', ''px.processing.Cluster.compute'',
     ''h5py.Group.__getitem__'', ''h5py.Group.__getitem__'', ''h5py.Dataset.read'']
     (cell_cluster l)"
  unfolding cell_cluster_def Let_def dataset_getitem_def new_figure_def compute_svd_def
    compute_cluster_def py_import_def
  by (rule emits_eq, (simp only: list.map append.simps py_seq.simps)?)
     (rule emits_intros | simp)+

lemma emits_cell_labels:
  "emits [''h5py.Dataset.read'', ''px.viz.cluster_utils.plot_cluster_labels'']
     (cell_labels l)"
  unfolding cell_labels_def Let_def dataset_getitem_def new_figure_def compute_svd_def
    compute_cluster_def py_import_def
  by (rule emits_eq, (simp only: list.map append.simps py_seq.simps)?)
     (rule emits_intros | simp)+

lemma emits_cell_dendrogram:
  "emits [''h5py.Dataset.read'', ''px.viz.cluster_utils.plot_cluster_dendrogram'']
     (cell_dendrogram l)"
  unfolding cell_dendrogram_def Let_def dataset_getitem_def new_figure_def compute_svd_def
    compute_cluster_def py_import_def
  by (rule emits_eq, (simp only: list.map append.simps py_seq.simps)?)
     (rule emits_intros | simp)+

lemma emits_cell_close:
  "emits [''h5py.File.close'']
     (cell_close l)"
  unfolding cell_close_def Let_def dataset_getitem_def new_figure_def compute_svd_def
    compute_cluster_def py_import_def
  by (rule emits_eq, (simp only: list.map append.simps py_seq.simps)?)
     (rule emits_intros | simp)+

lemma emits_cell_empty: "emits [] (cell_empty)"
  unfolding cell_empty_def Let_def dataset_getitem_def new_figure_def compute_svd_def
    compute_cluster_def py_import_def
  by (rule emits_eq, (simp only: list.map append.simps py_seq.simps)?)
     (rule emits_intros | simp)+

lemmas emits_cells = emits_cell_install emits_cell_imports emits_cell_open emits_cell_get_raw emits_cell_visualize emits_cell_svd emits_cell_num_plot_comps emits_cell_plot_scree emits_cell_abundance emits_cell_endmembers emits_cell_cluster_params emits_cell_cluster emits_cell_labels emits_cell_dendrogram emits_cell_close emits_cell_empty

lemma emits_notebook: "list_all2 emits cell_calls (notebook l)"
  unfolding cell_calls_def notebook_def by (simp add: emits_cells)

lemma emits_take: "emits (concat (take k cell_calls)) (py_seq (take k (notebook l)))"
  by (intro emits_seq list_all2_takeI emits_notebook)

lemma emits_drop: "emits (concat (drop k cell_calls)) (py_seq (drop k (notebook l)))"
  by (intro emits_seq list_all2_dropI emits_notebook)

lemma emits_run_all: "emits script_calls (run_all l)"
  unfolding script_calls_def run_all_def by (intro emits_seq emits_notebook)

lemma keeps_cell_install:
  "keeps h5fs (cell_install l)"
  "keeps h5_file (cell_install l)"
  "keeps h5_main (cell_install l)"
  "keeps h5_u (cell_install l)"
  "keeps num_clusters (cell_install l)"
  "keeps spectral_components (cell_install l)"
  "keeps open_files (cell_install l)"
  "keeps num_rows (cell_install l)"
  "keeps num_cols (cell_install l)"
  "keeps h5_labels (cell_install l)"
  "keeps num_comps_for_clustering (cell_install l)"
  unfolding cell_install_def Let_def dataset_getitem_def new_figure_def compute_svd_def
    compute_cluster_def py_import_def shell_def
  by ((simp only: list.map append.simps py_seq.simps)?, (rule keeps_intros | simp)+)+

lemma keeps_cell_imports:
  "keeps h5fs (cell_imports l)"
  "keeps h5_file (cell_imports l)"
  "keeps h5_main (cell_imports l)"
  "keeps h5_u (cell_imports l)"
  "keeps num_clusters (cell_imports l)"
  "keeps spectral_components (cell_imports l)"
  "keeps open_files (cell_imports l)"
  "keeps num_rows (cell_imports l)"
  "keeps num_cols (cell_imports l)"
  "keeps h5_labels (cell_imports l)"
  "keeps num_comps_for_clustering (cell_imports l)"
  unfolding cell_imports_def Let_def dataset_getitem_def new_figure_def compute_svd_def
    compute_cluster_def py_import_def shell_def
  by ((simp only: list.map append.simps py_seq.simps)?, (rule keeps_intros | simp)+)+

lemma keeps_cell_open:
  "keeps h5fs (cell_open l)"
  "keeps h5_main (cell_open l)"
  "keeps h5_u (cell_open l)"
  "keeps num_clusters (cell_open l)"
  "keeps spectral_components (cell_open l)"
  "keeps num_rows (cell_open l)"
  "keeps num_cols (cell_open l)"
  "keeps h5_labels (cell_open l)"
  "keeps num_comps_for_clustering (cell_open l)"
  unfolding cell_open_def Let_def dataset_getitem_def new_figure_def compute_svd_def
    compute_cluster_def py_import_def shell_def
  by ((simp only: list.map append.simps py_seq.simps)?, (rule keeps_intros | simp)+)+

lemma keeps_cell_get_raw:
  "keeps h5fs (cell_get_raw l)"
  "keeps h5_file (cell_get_raw l)"
  "keeps h5_u (cell_get_raw l)"
  "keeps num_clusters (cell_get_raw l)"
  "keeps spectral_components (cell_get_raw l)"
  "keeps open_files (cell_get_raw l)"
  "keeps h5_labels (cell_get_raw l)"
  "keeps num_comps_for_clustering (cell_get_raw l)"
  unfolding cell_get_raw_def Let_def dataset_getitem_def new_figure_def compute_svd_def
    compute_cluster_def py_import_def shell_def
  by ((simp only: list.map append.simps py_seq.simps)?, (rule keeps_intros | simp)+)+

lemma keeps_cell_visualize:
  "keeps h5fs (cell_visualize l)"
  "keeps h5_file (cell_visualize l)"
  "keeps h5_main (cell_visualize l)"
  "keeps h5_u (cell_visualize l)"
  "keeps num_clusters (cell_visualize l)"
  "keeps spectral_components (cell_visualize l)"
  "keeps open_files (cell_visualize l)"
  "keeps num_rows (cell_visualize l)"
  "keeps num_cols (cell_visualize l)"
  "keeps h5_labels (cell_visualize l)"
  "keeps num_comps_for_clustering (cell_visualize l)"
  unfolding cell_visualize_def Let_def dataset_getitem_def new_figure_def compute_svd_def
    compute_cluster_def py_import_def shell_def
  by ((simp only: list.map append.simps py_seq.simps)?, (rule keeps_intros | simp)+)+

lemma keeps_cell_svd:
  "keeps h5_file (cell_svd l)"
  "keeps h5_main (cell_svd l)"
  "keeps num_clusters (cell_svd l)"
  "keeps spectral_components (cell_svd l)"
  "keeps open_files (cell_svd l)"
  "keeps num_rows (cell_svd l)"
  "keeps num_cols (cell_svd l)"
  "keeps h5_labels (cell_svd l)"
  "keeps num_comps_for_clustering (cell_svd l)"
  unfolding cell_svd_def Let_def dataset_getitem_def new_figure_def compute_svd_def
    compute_cluster_def py_import_def shell_def
  by ((simp only: list.map append.simps py_seq.simps)?, (rule keeps_intros | simp)+)+

lemma keeps_cell_num_plot_comps:
  "keeps h5fs (cell_num_plot_comps)"
  "keeps h5_file (cell_num_plot_comps)"
  "keeps h5_main (cell_num_plot_comps)"
  "keeps h5_u (cell_num_plot_comps)"
  "keeps num_clusters (cell_num_plot_comps)"
  "keeps spectral_components (cell_num_plot_comps)"
  "keeps open_files (cell_num_plot_comps)"
  "keeps num_rows (cell_num_plot_comps)"
  "keeps num_cols (cell_num_plot_comps)"
  "keeps h5_labels (cell_num_plot_comps)"
  "keeps num_comps_for_clustering (cell_num_plot_comps)"
  unfolding cell_num_plot_comps_def Let_def dataset_getitem_def new_figure_def compute_svd_def
    compute_cluster_def py_import_def shell_def
  by ((simp only: list.map append.simps py_seq.simps)?, (rule keeps_intros | simp)+)+

lemma keeps_cell_plot_scree:
  "keeps h5fs (cell_plot_scree l)"
  "keeps h5_file (cell_plot_scree l)"
  "keeps h5_main (cell_plot_scree l)"
  "keeps h5_u (cell_plot_scree l)"
  "keeps num_clusters (cell_plot_scree l)"
  "keeps spectral_components (cell_plot_scree l)"
  "keeps open_files (cell_plot_scree l)"
  "keeps num_rows (cell_plot_scree l)"
  "keeps num_cols (cell_plot_scree l)"
  "keeps h5_labels (cell_plot_scree l)"
  "keeps num_comps_for_clustering (cell_plot_scree l)"
  unfolding cell_plot_scree_def Let_def dataset_getitem_def new_figure_def compute_svd_def
    compute_cluster_def py_import_def shell_def
  by ((simp only: list.map append.simps py_seq.simps)?, (rule keeps_intros | simp)+)+

lemma keeps_cell_abundance:
  "keeps h5fs (cell_abundance l)"
  "keeps h5_file (cell_abundance l)"
  "keeps h5_main (cell_abundance l)"
  "keeps h5_u (cell_abundance l)"
  "keeps num_clusters (cell_abundance l)"
  "keeps spectral_components (cell_abundance l)"
  "keeps open_files (cell_abundance l)"
  "keeps num_rows (cell_abundance l)"
  "keeps num_cols (cell_abundance l)"
  "keeps h5_labels (cell_abundance l)"
  "keeps num_comps_for_clustering (cell_abundance l)"
  unfolding cell_abundance_def Let_def dataset_getitem_def new_figure_def compute_svd_def
    compute_cluster_def py_import_def shell_def
  by ((simp only: list.map append.simps py_seq.simps)?, (rule keeps_intros | simp)+)+

lemma keeps_cell_endmembers:
  "keeps h5fs (cell_endmembers l)"
  "keeps h5_file (cell_endmembers l)"
  "keeps h5_main (cell_endmembers l)"
  "keeps h5_u (cell_endmembers l)"
  "keeps num_clusters (cell_endmembers l)"
  "keeps spectral_components (cell_endmembers l)"
  "keeps open_files (cell_endmembers l)"
  "keeps num_rows (cell_endmembers l)"
  "keeps num_cols (cell_endmembers l)"
  "keeps h5_labels (cell_endmembers l)"
  "keeps num_comps_for_clustering (cell_endmembers l)"
  unfolding cell_endmembers_def Let_def dataset_getitem_def new_figure_def compute_svd_def
    compute_cluster_def py_import_def shell_def
  by ((simp only: list.map append.simps py_seq.simps)?, (rule keeps_intros | simp)+)+

lemma keeps_cell_cluster_params:
  "keeps h5fs (cell_cluster_params)"
  "keeps h5_file (cell_cluster_params)"
  "keeps h5_main (cell_cluster_params)"
  "keeps h5_u (cell_cluster_params)"
  "keeps open_files (cell_cluster_params)"
  "keeps num_rows (cell_cluster_params)"
  "keeps num_cols (cell_cluster_params)"
  "keeps h5_labels (cell_cluster_params)"
  "keeps num_comps_for_clustering (cell_cluster_params)"
  unfolding cell_cluster_params_def Let_def dataset_getitem_def new_figure_def compute_svd_def
    compute_cluster_def py_import_def shell_def
  by ((simp only: list.map append.simps py_seq.simps)?, (rule keeps_intros | simp)+)+

lemma keeps_cell_cluster:
  "keeps h5_file (cell_cluster l)"
  "keeps h5_main (cell_cluster l)"
  "keeps h5_u (cell_cluster l)"
  "keeps num_clusters (cell_cluster l)"
  "keeps spectral_components (cell_cluster l)"
  "keeps open_files (cell_cluster l)"
  "keeps num_rows (cell_cluster l)"
  "keeps num_cols (cell_cluster l)"
  unfolding cell_cluster_def Let_def dataset_getitem_def new_figure_def compute_svd_def
    compute_cluster_def py_import_def shell_def
  by ((simp only: list.map append.simps py_seq.simps)?, (rule keeps_intros | simp)+)+

lemma keeps_cell_labels:
  "keeps h5fs (cell_labels l)"
  "keeps h5_file (cell_labels l)"
  "keeps h5_main (cell_labels l)"
  "keeps h5_u (cell_labels l)"
  "keeps num_clusters (cell_labels l)"
  "keeps spectral_components (cell_labels l)"
  "keeps open_files (cell_labels l)"
  "keeps num_rows (cell_labels l)"
  "keeps num_cols (cell_labels l)"
  "keeps h5_labels (cell_labels l)"
  "keeps num_comps_for_clustering (cell_labels l)"
  unfolding cell_labels_def Let_def dataset_getitem_def new_figure_def compute_svd_def
    compute_cluster_def py_import_def shell_def
  by ((simp only: list.map append.simps py_seq.simps)?, (rule keeps_intros | simp)+)+

lemma keeps_cell_dendrogram:
  "keeps h5fs (cell_dendrogram l)"
  "keeps h5_file (cell_dendrogram l)"
  "keeps h5_main (cell_dendrogram l)"
  "keeps h5_u (cell_dendrogram l)"
  "keeps num_clusters (cell_dendrogram l)"
  "keeps spectral_components (cell_dendrogram l)"
  "keeps open_files (cell_dendrogram l)"
  "keeps num_rows (cell_dendrogram l)"
  "keeps num_cols (cell_dendrogram l)"
  "keeps h5_labels (cell_dendrogram l)"
  "keeps num_comps_for_clustering (cell_dendrogram l)"
  unfolding cell_dendrogram_def Let_def dataset_getitem_def new_figure_def compute_svd_def
    compute_cluster_def py_import_def shell_def
  by ((simp only: list.map append.simps py_seq.simps)?, (rule keeps_intros | simp)+)+

lemma keeps_cell_close:
  "keeps h5fs (cell_close l)"
  "keeps h5_file (cell_close l)"
  "keeps h5_main (cell_close l)"
  "keeps h5_u (cell_close l)"
  "keeps num_clusters (cell_close l)"
  "keeps spectral_components (cell_close l)"
  "keeps num_rows (cell_close l)"
  "keeps num_cols (cell_close l)"
  "keeps h5_labels (cell_close l)"
  "keeps num_comps_for_clustering (cell_close l)"
  unfolding cell_close_def Let_def dataset_getitem_def new_figure_def compute_svd_def
    compute_cluster_def py_import_def shell_def
  by ((simp only: list.map append.simps py_seq.simps)?, (rule keeps_intros | simp)+)+

lemma keeps_cell_empty:
  "keeps h5fs (cell_empty)"
  "keeps h5_file (cell_empty)"
  "keeps h5_main (cell_empty)"
  "keeps h5_u (cell_empty)"
  "keeps num_clusters (cell_empty)"
  "keeps spectral_components (cell_empty)"
  "keeps open_files (cell_empty)"
  "keeps num_rows (cell_empty)"
  "keeps num_cols (cell_empty)"
  "keeps h5_labels (cell_empty)"
  "keeps num_comps_for_clustering (cell_empty)"
  unfolding cell_empty_def Let_def dataset_getitem_def new_figure_def compute_svd_def
    compute_cluster_def py_import_def shell_def
  by ((simp only: list.map append.simps py_seq.simps)?, (rule keeps_intros | simp)+)+

section \<open>What a cell that completes has done\<close>

lemma cell_open_ok:
  assumes "cell_open l s = (Inr (), s')"
  shows "h5_file s' = Some (file_dialog l) \<and> open_files s' = file_dialog l # open_files s"
  using assms by (auto simp: cell_open_def py_defs Let_def split: option.splits)

lemma cell_get_raw_ok:
  assumes "cell_get_raw l s = (Inr (), s')"
  shows "\<exists>f. h5_file s = Some f \<and> find_dataset l (h5fs s) f ''Raw_Data'' \<noteq> [] \<and>
           h5_main s' = Some (last (find_dataset l (h5fs s) f ''Raw_Data'')) \<and>
           Call ''usid.USIDataset'' [ARef (last (find_dataset l (h5fs s) f ''Raw_Data''))]
             \<in> set (log s')"
  using assms
  by (auto simp: cell_get_raw_def py_defs Let_def py_last_def unpack2_def
           split: option.splits sum.splits if_splits list.splits)

lemma cell_svd_ok:
  assumes "cell_svd l s = (Inr (), s')"
  shows "\<exists>d fs' g. h5_main s = Some d \<and> svd_compute l (h5fs s) d 256 = (fs', g) \<and>
           h5fs s' = fs' \<and>
           h5_u s' = Some (fst g, snd g @ [''U'']) \<and>
           h5_v s' = Some (fst g, snd g @ [''V'']) \<and>
           h5_s s' = Some (fst g, snd g @ [''S'']) \<and>
           fs' (fst g, snd g @ [''U'']) \<noteq> None \<and>
           fs' (fst g, snd g @ [''V'']) \<noteq> None \<and>
           fs' (fst g, snd g @ [''S'']) \<noteq> None \<and>
           log s' = log s @
             [Call ''px.processing.SVD'' [ARef d, AInt 256],
              Call ''px.processing.SVD.compute'' [ARef d, AInt 256],
              Call ''h5py.Group.__getitem__'' [ARef g, AStr ''U''],
              Call ''h5py.Group.__getitem__'' [ARef g, AStr ''V''],
              Call ''h5py.Group.__getitem__'' [ARef g, AStr ''S'']]"
  using assms
  by (auto simp: cell_svd_def py_defs Let_def
           split: option.splits sum.splits if_splits prod.splits)


lemma cell_cluster_ok:
  assumes "cell_cluster l s = (Inr (), s')"
  shows "\<exists>k u comps fs' g c n.
           num_clusters s = Some k \<and> h5_u s = Some u \<and> spectral_components s = Some comps \<and>
           cluster_compute l (h5fs s) u comps k = (fs', g) \<and> h5fs s' = fs' \<and>
           h5_labels s' = Some (member g ''Labels'') \<and>
           fs' (member g ''Labels'') \<noteq> None \<and>
           fs' (member g ''Mean_Response'') = Some (Dataset c) \<and>
           shape1 c = Inr n \<and> num_comps_for_clustering s' = Some n \<and>
           log s' = log s @
             [Call ''KMeans'' [AInt (int k)],
              Call ''px.processing.Cluster'' [ARef u, AInt (int k), AInt (int comps)],
              Call ''px.processing.Cluster.compute'' [ARef u, AInt (int k), AInt (int comps)],
              Call ''h5py.Group.__getitem__'' [ARef g, AStr ''Labels''],
              Call ''h5py.Group.__getitem__'' [ARef g, AStr ''Mean_Response''],
              Call ''h5py.Dataset.read'' [ARef (member g ''Mean_Response'')]]"
  using assms
  by (auto simp: cell_cluster_def py_defs Let_def member_def
           split: option.splits sum.splits if_splits prod.splits node.splits)

lemma cell_cluster_any:
  assumes "cell_cluster l s = (r, s')"
    and "h5_u s = Some u" and "num_clusters s = Some k" and "spectral_components s = Some comps"
  shows "(h5fs s' = h5fs s \<or> h5fs s' = fst (cluster_compute l (h5fs s) u comps k)) \<and>
         (\<exists>evs. log s' = log s @ evs \<and>
            (\<forall>e\<in>set evs. ev_name e = ''px.processing.Cluster.compute'' \<longrightarrow>
                e = Call ''px.processing.Cluster.compute''
                      [ARef u, AInt (int k), AInt (int comps)]))"
  using assms
  by (auto simp: cell_cluster_def py_defs Let_def ev_name_def
           split: option.splits sum.splits if_splits prod.splits node.splits)

lemma cell_labels_ok:
  assumes "cell_labels l s = (Inr (), s')"
  shows "\<exists>d a rows cols.
           h5_labels s = Some d \<and> h5fs s d = Some (Dataset a) \<and>
           num_rows s = Some rows \<and> num_cols s = Some cols \<and>
           prod_list (shape a) = rows * cols \<and>
           label_mat s' = Some \<lparr>shape = [rows, cols], flat = flat a\<rparr>"
  using assms
  by (auto simp: cell_labels_def py_defs Let_def np_reshape_def
           split: option.splits sum.splits if_splits prod.splits node.splits)

lemma cell_close_any:
  assumes "cell_close l s = (r, s')" and "h5_file s = Some f"
  shows "log s' = log s @ [Call ''h5py.File.close'' [AStr f]]"
    and "r = Inr () \<Longrightarrow> open_files s' = removeAll f (open_files s)"
  using assms
  by (auto simp: cell_close_def py_defs Let_def split: option.splits)

section \<open>The state after the first cells of a run\<close>

lemma keeps_seq_Nil: "keeps f (py_seq [])"
  by (simp add: keeps_return)

lemma keeps_seq_Cons: "keeps f m \<Longrightarrow> keeps f (py_seq ms) \<Longrightarrow> keeps f (py_seq (m # ms))"
  by (simp add: keeps_bind)

lemmas keeps_cells = keeps_cell_install keeps_cell_imports keeps_cell_open keeps_cell_get_raw
  keeps_cell_visualize keeps_cell_svd keeps_cell_num_plot_comps keeps_cell_plot_scree
  keeps_cell_abundance keeps_cell_endmembers keeps_cell_cluster_params keeps_cell_cluster
  keeps_cell_labels keeps_cell_dendrogram keeps_cell_close keeps_cell_empty

lemma log_grows:
  assumes "emits ns m" and "m s = (r, s')"
  shows "set (log s) \<subseteq> set (log s')"
  using emitsD[OF assms] by auto

lemma after_open:
  assumes "py_seq (take 3 (notebook l)) s = (Inr (), t)"
  shows "h5fs t = h5fs s" and "h5_file t = Some (file_dialog l)"
    and "file_dialog l \<in> set (open_files t)"
proof -
  have split: "take 3 (notebook l) = [cell_install l, cell_imports l] @ [cell_open l]"
    by (simp add: notebook_def)
  from assms obtain s2 where a: "py_seq [cell_install l, cell_imports l] s = (Inr (), s2)"
    and b: "cell_open l s2 = (Inr (), t)"
    unfolding split py_seq_snoc_ok by blast
  have "keeps h5fs (py_seq [cell_install l, cell_imports l])"
    by (intro keeps_seq_Cons keeps_seq_Nil keeps_cells)
  from keepsD[OF this a] keepsD[OF keeps_cell_open(1) b] show "h5fs t = h5fs s" by simp
  from cell_open_ok[OF b] show "h5_file t = Some (file_dialog l)"
    and "file_dialog l \<in> set (open_files t)" by simp_all
qed

lemma after_get_raw:
  assumes "py_seq (take 4 (notebook l)) s = (Inr (), t)"
  shows "h5fs t = h5fs s" and "h5_file t = Some (file_dialog l)"
    and "file_dialog l \<in> set (open_files t)"
    and "find_dataset l (h5fs s) (file_dialog l) ''Raw_Data'' \<noteq> []"
    and "h5_main t = Some (raw_ref l (h5fs s))"
proof -
  have split: "take 4 (notebook l) = take 3 (notebook l) @ [cell_get_raw l]"
    by (simp add: notebook_def)
  from assms obtain s3 where a: "py_seq (take 3 (notebook l)) s = (Inr (), s3)"
    and b: "cell_get_raw l s3 = (Inr (), t)"
    unfolding split py_seq_snoc_ok by blast
  note o = after_open[OF a]
  from keepsD[OF keeps_cell_get_raw(1) b] o(1) show "h5fs t = h5fs s" by simp
  from keepsD[OF keeps_cell_get_raw(2) b] o(2) show "h5_file t = Some (file_dialog l)" by simp
  from keepsD[OF keeps_cell_get_raw(6) b] o(3) show "file_dialog l \<in> set (open_files t)" by simp
  from cell_get_raw_ok[OF b] o(1,2)
  show "find_dataset l (h5fs s) (file_dialog l) ''Raw_Data'' \<noteq> []"
    and "h5_main t = Some (raw_ref l (h5fs s))"
    by (auto simp: raw_ref_def)
qed

lemma before_svd:
  assumes "py_seq (take 5 (notebook l)) s = (Inr (), t)"
  shows "h5fs t = h5fs s" and "h5_file t = Some (file_dialog l)"
    and "file_dialog l \<in> set (open_files t)"
    and "find_dataset l (h5fs s) (file_dialog l) ''Raw_Data'' \<noteq> []"
    and "h5_main t = Some (raw_ref l (h5fs s))"
proof -
  have split: "take 5 (notebook l) = take 4 (notebook l) @ [cell_visualize l]"
    by (simp add: notebook_def)
  from assms obtain s4 where a: "py_seq (take 4 (notebook l)) s = (Inr (), s4)"
    and b: "cell_visualize l s4 = (Inr (), t)"
    unfolding split py_seq_snoc_ok by blast
  note o = after_get_raw[OF a]
  from keepsD[OF keeps_cell_visualize(1) b] o(1) show "h5fs t = h5fs s" by simp
  from keepsD[OF keeps_cell_visualize(2) b] o(2) show "h5_file t = Some (file_dialog l)" by simp
  from keepsD[OF keeps_cell_visualize(7) b] o(3) show "file_dialog l \<in> set (open_files t)"
    by simp
  from o(4) show "find_dataset l (h5fs s) (file_dialog l) ''Raw_Data'' \<noteq> []" .
  from keepsD[OF keeps_cell_visualize(3) b] o(5) show "h5_main t = Some (raw_ref l (h5fs s))"
    by simp
qed

lemma after_svd:
  assumes "py_seq (take 6 (notebook l)) s = (Inr (), t)"
  shows "h5fs t = fst (svd_result l (h5fs s))" and "h5_file t = Some (file_dialog l)"
    and "file_dialog l \<in> set (open_files t)"
    and "h5_main t = Some (raw_ref l (h5fs s))"
    and "h5_u t = Some (member (snd (svd_result l (h5fs s))) ''U'')"
    and "h5_v t = Some (member (snd (svd_result l (h5fs s))) ''V'')"
    and "h5_s t = Some (member (snd (svd_result l (h5fs s))) ''S'')"
    and "\<forall>n \<in> {''U'', ''V'', ''S''}. h5fs t (member (snd (svd_result l (h5fs s))) n) \<noteq> None"
    and "set [Call ''px.processing.SVD'' [ARef (raw_ref l (h5fs s)), AInt 256],
              Call ''px.processing.SVD.compute'' [ARef (raw_ref l (h5fs s)), AInt 256],
              Call ''h5py.Group.__getitem__'' [ARef (snd (svd_result l (h5fs s))), AStr ''U''],
              Call ''h5py.Group.__getitem__'' [ARef (snd (svd_result l (h5fs s))), AStr ''V''],
              Call ''h5py.Group.__getitem__'' [ARef (snd (svd_result l (h5fs s))), AStr ''S'']]
           \<subseteq> set (log t)"
proof -
  have split: "take 6 (notebook l) = take 5 (notebook l) @ [cell_svd l]"
    by (simp add: notebook_def)
  from assms obtain s5 where a: "py_seq (take 5 (notebook l)) s = (Inr (), s5)"
    and b: "cell_svd l s5 = (Inr (), t)"
    unfolding split py_seq_snoc_ok by blast
  note o = before_svd[OF a]
  from cell_svd_ok[OF b] o(1,5) obtain fs' g where
    r: "svd_result l (h5fs s) = (fs', g)" and fs: "h5fs t = fs'"
    and u: "h5_u t = Some (fst g, snd g @ [''U''])"
    and v: "h5_v t = Some (fst g, snd g @ [''V''])"
    and sv: "h5_s t = Some (fst g, snd g @ [''S''])"
    and ex: "fs' (fst g, snd g @ [''U'']) \<noteq> None" "fs' (fst g, snd g @ [''V'']) \<noteq> None"
       "fs' (fst g, snd g @ [''S'']) \<noteq> None"
    and lg: "log t = log s5 @
             [Call ''px.processing.SVD'' [ARef (raw_ref l (h5fs s)), AInt 256],
              Call ''px.processing.SVD.compute'' [ARef (raw_ref l (h5fs s)), AInt 256],
              Call ''h5py.Group.__getitem__'' [ARef g, AStr ''U''],
              Call ''h5py.Group.__getitem__'' [ARef g, AStr ''V''],
              Call ''h5py.Group.__getitem__'' [ARef g, AStr ''S'']]"
    unfolding svd_result_def by auto
  from r fs show "h5fs t = fst (svd_result l (h5fs s))" by simp
  from keepsD[OF keeps_cell_svd(1) b] o(2) show "h5_file t = Some (file_dialog l)" by simp
  from keepsD[OF keeps_cell_svd(5) b] o(3) show "file_dialog l \<in> set (open_files t)" by simp
  from keepsD[OF keeps_cell_svd(2) b] o(5) show "h5_main t = Some (raw_ref l (h5fs s))" by simp
  from r u show "h5_u t = Some (member (snd (svd_result l (h5fs s))) ''U'')"
    by (simp add: member_def)
  from r v show "h5_v t = Some (member (snd (svd_result l (h5fs s))) ''V'')"
    by (simp add: member_def)
  from r sv show "h5_s t = Some (member (snd (svd_result l (h5fs s))) ''S'')"
    by (simp add: member_def)
  from r fs ex
  show "\<forall>n \<in> {''U'', ''V'', ''S''}. h5fs t (member (snd (svd_result l (h5fs s))) n) \<noteq> None"
    by (simp add: member_def)
  from r lg show "set [Call ''px.processing.SVD'' [ARef (raw_ref l (h5fs s)), AInt 256],
              Call ''px.processing.SVD.compute'' [ARef (raw_ref l (h5fs s)), AInt 256],
              Call ''h5py.Group.__getitem__'' [ARef (snd (svd_result l (h5fs s))), AStr ''U''],
              Call ''h5py.Group.__getitem__'' [ARef (snd (svd_result l (h5fs s))), AStr ''V''],
              Call ''h5py.Group.__getitem__'' [ARef (snd (svd_result l (h5fs s))), AStr ''S'']]
           \<subseteq> set (log t)"
    by simp
qed

lemma emits_slice:
  "emits (concat (take n (drop k cell_calls))) (py_seq (take n (drop k (notebook l))))"
  by (intro emits_seq list_all2_takeI list_all2_dropI emits_notebook)

lemma cell_cluster_params_ok:
  assumes "cell_cluster_params s = (r, s')"
  shows "num_clusters s' = Some 32" and "spectral_components s' = Some 128"
  using assms by (auto simp: cell_cluster_params_def modify_def)

lemma before_cluster:
  assumes "py_seq (take 11 (notebook l)) s = (Inr (), t)"
  shows "h5fs t = fst (svd_result l (h5fs s))" and "h5_file t = Some (file_dialog l)"
    and "file_dialog l \<in> set (open_files t)"
    and "h5_u t = Some (member (snd (svd_result l (h5fs s))) ''U'')"
    and "num_clusters t = Some 32" and "spectral_components t = Some 128"
    and "Call ''px.processing.SVD.compute'' [ARef (raw_ref l (h5fs s)), AInt 256] \<in> set (log t)"
proof -
  let ?B = "[cell_num_plot_comps, cell_plot_scree l, cell_abundance l, cell_endmembers l]"
  have split: "take 11 (notebook l) = (take 6 (notebook l) @ ?B) @ [cell_cluster_params]"
    by (simp add: notebook_def)
  have slice: "take 6 (notebook l) @ ?B = take 10 (notebook l)"
    by (simp add: notebook_def)
  from assms obtain s6 s10 where a: "py_seq (take 6 (notebook l)) s = (Inr (), s6)"
    and b: "py_seq ?B s6 = (Inr (), s10)"
    and c: "cell_cluster_params s10 = (Inr (), t)"
    unfolding split py_seq_append_ok py_seq_single by blast
  note o = after_svd[OF a]
  have k: "keeps h5fs (py_seq ?B)" "keeps h5_file (py_seq ?B)" "keeps open_files (py_seq ?B)"
    "keeps h5_u (py_seq ?B)"
    by (intro keeps_seq_Cons keeps_seq_Nil keeps_cells)+
  from keepsD[OF k(1) b] keepsD[OF keeps_cell_cluster_params(1) c] o(1)
  show "h5fs t = fst (svd_result l (h5fs s))" by simp
  from keepsD[OF k(2) b] keepsD[OF keeps_cell_cluster_params(2) c] o(2)
  show "h5_file t = Some (file_dialog l)" by simp
  from keepsD[OF k(3) b] keepsD[OF keeps_cell_cluster_params(5) c] o(3)
  show "file_dialog l \<in> set (open_files t)" by simp
  from keepsD[OF k(4) b] keepsD[OF keeps_cell_cluster_params(4) c] o(5)
  show "h5_u t = Some (member (snd (svd_result l (h5fs s))) ''U'')" by simp
  from cell_cluster_params_ok[OF c]
  show "num_clusters t = Some 32" and "spectral_components t = Some 128" by simp_all
  have "?B @ [cell_cluster_params] = take 5 (drop 6 (notebook l))"
    by (simp add: notebook_def)
  moreover have "py_seq (?B @ [cell_cluster_params]) s6 = (Inr (), t)"
    using b c unfolding py_seq_snoc_ok by blast
  ultimately have "set (log s6) \<subseteq> set (log t)"
    using log_grows[OF emits_slice[of 5 6 l]] by simp
  with o(9)
  show "Call ''px.processing.SVD.compute'' [ARef (raw_ref l (h5fs s)), AInt 256] \<in> set (log t)"
    by auto
qed

lemma after_cluster:
  assumes "py_seq (take 12 (notebook l)) s = (Inr (), t)"
  shows "h5fs t = fst (cluster_result l (h5fs s))" and "h5_file t = Some (file_dialog l)"
    and "file_dialog l \<in> set (open_files t)"
    and "h5_labels t = Some (member (snd (cluster_result l (h5fs s))) ''Labels'')"
    and "h5fs t (member (snd (cluster_result l (h5fs s))) ''Labels'') \<noteq> None"
    and "\<exists>c n. h5fs t (member (snd (cluster_result l (h5fs s))) ''Mean_Response'')
                   = Some (Dataset c) \<and> shape1 c = Inr n \<and>
                 num_comps_for_clustering t = Some n"
    and "set [Call ''KMeans'' [AInt 32],
              Call ''px.processing.Cluster''
                [ARef (member (snd (svd_result l (h5fs s))) ''U''), AInt 32, AInt 128],
              Call ''px.processing.Cluster.compute''
                [ARef (member (snd (svd_result l (h5fs s))) ''U''), AInt 32, AInt 128],
              Call ''h5py.Group.__getitem__''
                [ARef (snd (cluster_result l (h5fs s))), AStr ''Labels''],
              Call ''h5py.Group.__getitem__''
                [ARef (snd (cluster_result l (h5fs s))), AStr ''Mean_Response'']]
           \<subseteq> set (log t)"
proof -
  have split: "take 12 (notebook l) = take 11 (notebook l) @ [cell_cluster l]"
    by (simp add: notebook_def)
  from assms obtain s11 where a: "py_seq (take 11 (notebook l)) s = (Inr (), s11)"
    and b: "cell_cluster l s11 = (Inr (), t)"
    unfolding split py_seq_snoc_ok by blast
  note o = before_cluster[OF a]
  from cell_cluster_ok[OF b] o(1,4,5,6) obtain fs' g c n where
    r: "cluster_result l (h5fs s) = (fs', g)" and fs: "h5fs t = fs'"
    and lb: "h5_labels t = Some (member g ''Labels'')"
    and ex: "fs' (member g ''Labels'') \<noteq> None"
    and mr: "fs' (member g ''Mean_Response'') = Some (Dataset c)" "shape1 c = Inr n"
       "num_comps_for_clustering t = Some n"
    and lg: "log t = log s11 @
             [Call ''KMeans'' [AInt 32],
              Call ''px.processing.Cluster''
                [ARef (member (snd (svd_result l (h5fs s))) ''U''), AInt 32, AInt 128],
              Call ''px.processing.Cluster.compute''
                [ARef (member (snd (svd_result l (h5fs s))) ''U''), AInt 32, AInt 128],
              Call ''h5py.Group.__getitem__'' [ARef g, AStr ''Labels''],
              Call ''h5py.Group.__getitem__'' [ARef g, AStr ''Mean_Response''],
              Call ''h5py.Dataset.read'' [ARef (member g ''Mean_Response'')]]"
    unfolding cluster_result_def by auto
  from r fs show "h5fs t = fst (cluster_result l (h5fs s))" by simp
  from keepsD[OF keeps_cell_cluster(1) b] o(2) show "h5_file t = Some (file_dialog l)" by simp
  from keepsD[OF keeps_cell_cluster(6) b] o(3) show "file_dialog l \<in> set (open_files t)"
    by simp
  from r lb show "h5_labels t = Some (member (snd (cluster_result l (h5fs s))) ''Labels'')"
    by simp
  from r fs ex show "h5fs t (member (snd (cluster_result l (h5fs s))) ''Labels'') \<noteq> None"
    by simp
  from r fs mr
  show "\<exists>c n. h5fs t (member (snd (cluster_result l (h5fs s))) ''Mean_Response'')
                   = Some (Dataset c) \<and> shape1 c = Inr n \<and>
                 num_comps_for_clustering t = Some n"
    by simp
  from r lg show "set [Call ''KMeans'' [AInt 32],
              Call ''px.processing.Cluster''
                [ARef (member (snd (svd_result l (h5fs s))) ''U''), AInt 32, AInt 128],
              Call ''px.processing.Cluster.compute''
                [ARef (member (snd (svd_result l (h5fs s))) ''U''), AInt 32, AInt 128],
              Call ''h5py.Group.__getitem__''
                [ARef (snd (cluster_result l (h5fs s))), AStr ''Labels''],
              Call ''h5py.Group.__getitem__''
                [ARef (snd (cluster_result l (h5fs s))), AStr ''Mean_Response'']]
           \<subseteq> set (log t)"
    by simp
qed

lemma after_labels:
  assumes "py_seq (take 13 (notebook l)) s = (Inr (), t)"
  shows "h5fs t = fst (cluster_result l (h5fs s))"
    and "h5_labels t = Some (member (snd (cluster_result l (h5fs s))) ''Labels'')"
    and "\<exists>a rows cols.
           h5fs t (member (snd (cluster_result l (h5fs s))) ''Labels'') = Some (Dataset a) \<and>
           num_rows t = Some rows \<and> num_cols t = Some cols \<and>
           prod_list (shape a) = rows * cols \<and>
           label_mat t = Some \<lparr>shape = [rows, cols], flat = flat a\<rparr>"
    and "\<exists>c n. h5fs t (member (snd (cluster_result l (h5fs s))) ''Mean_Response'')
                   = Some (Dataset c) \<and> shape1 c = Inr n \<and>
                 num_comps_for_clustering t = Some n"
    and "set [Call ''KMeans'' [AInt 32],
              Call ''px.processing.Cluster''
                [ARef (member (snd (svd_result l (h5fs s))) ''U''), AInt 32, AInt 128],
              Call ''px.processing.Cluster.compute''
                [ARef (member (snd (svd_result l (h5fs s))) ''U''), AInt 32, AInt 128],
              Call ''h5py.Group.__getitem__''
                [ARef (snd (cluster_result l (h5fs s))), AStr ''Labels''],
              Call ''h5py.Group.__getitem__''
                [ARef (snd (cluster_result l (h5fs s))), AStr ''Mean_Response'']]
           \<subseteq> set (log t)"
proof -
  have split: "take 13 (notebook l) = take 12 (notebook l) @ [cell_labels l]"
    by (simp add: notebook_def)
  from assms obtain u where a: "py_seq (take 12 (notebook l)) s = (Inr (), u)"
    and b: "cell_labels l u = (Inr (), t)"
    unfolding split py_seq_snoc_ok by blast
  note o = after_cluster[OF a]
  have fs: "h5fs t = h5fs u" by (rule keepsD[of _ "cell_labels l", OF _ b]) (rule keeps_cells)
  have lb: "h5_labels t = h5_labels u" by (rule keepsD[of _ "cell_labels l", OF _ b]) (rule keeps_cells)
  have nr: "num_rows t = num_rows u" by (rule keepsD[of _ "cell_labels l", OF _ b]) (rule keeps_cells)
  have nc: "num_cols t = num_cols u" by (rule keepsD[of _ "cell_labels l", OF _ b]) (rule keeps_cells)
  have nn: "num_comps_for_clustering t = num_comps_for_clustering u"
    by (rule keepsD[of _ "cell_labels l", OF _ b]) (rule keeps_cells)
  from fs o(1) show "h5fs t = fst (cluster_result l (h5fs s))" by simp
  from lb o(4) show "h5_labels t = Some (member (snd (cluster_result l (h5fs s))) ''Labels'')"
    by simp
  from cell_labels_ok[OF b] o(4) fs nr nc
  show "\<exists>a rows cols.
           h5fs t (member (snd (cluster_result l (h5fs s))) ''Labels'') = Some (Dataset a) \<and>
           num_rows t = Some rows \<and> num_cols t = Some cols \<and>
           prod_list (shape a) = rows * cols \<and>
           label_mat t = Some \<lparr>shape = [rows, cols], flat = flat a\<rparr>"
    by auto
  from o(6) fs nn
  show "\<exists>c n. h5fs t (member (snd (cluster_result l (h5fs s))) ''Mean_Response'')
                   = Some (Dataset c) \<and> shape1 c = Inr n \<and>
                 num_comps_for_clustering t = Some n"
    by simp
  from o(7) log_grows[OF emits_cell_labels b]
  show "set [Call ''KMeans'' [AInt 32],
              Call ''px.processing.Cluster''
                [ARef (member (snd (svd_result l (h5fs s))) ''U''), AInt 32, AInt 128],
              Call ''px.processing.Cluster.compute''
                [ARef (member (snd (svd_result l (h5fs s))) ''U''), AInt 32, AInt 128],
              Call ''h5py.Group.__getitem__''
                [ARef (snd (cluster_result l (h5fs s))), AStr ''Labels''],
              Call ''h5py.Group.__getitem__''
                [ARef (snd (cluster_result l (h5fs s))), AStr ''Mean_Response'']]
           \<subseteq> set (log t)"
    by (meson subset_trans)
qed

lemma py_seq_take_ok:
  "fst (py_seq ms s) = Inr () \<Longrightarrow> fst (py_seq (take k ms) s) = Inr ()"
proof (induction ms arbitrary: s k)
  case Nil
  then show ?case by simp
next
  case (Cons m ms)
  show ?case
  proof (cases k)
    case 0
    then show ?thesis by (simp add: py_return_def)
  next
    case (Suc j)
    obtain r s1 where ms: "m s = (r, s1)" by (cases "m s")
    with Cons.prems have r: "r = Inr ()" by (cases r) (auto simp: py_bind_def)
    with ms Cons.prems have "fst (py_seq ms s1) = Inr ()" by (simp add: py_bind_def)
    from Cons.IH[OF this, of j] ms r Suc show ?thesis by (simp add: py_bind_def)
  qed
qed

lemma demo_run_ok: "fst (run_all demo_lib (initial_state demo_fs)) = Inr ()"
  by (simp add: run_all_def notebook_def cell_defs py_defs np_defs demo_defs Let_def)

lemma demo_prefix_ok:
  "py_seq (take k (notebook demo_lib)) (initial_state demo_fs)
     = (Inr (), snd (py_seq (take k (notebook demo_lib)) (initial_state demo_fs)))"
  using py_seq_take_ok[OF demo_run_ok[unfolded run_all_def], of k]
  by (simp add: prod_eq_iff)

lemma demo_refs:
  "raw_ref demo_lib demo_fs = demo_raw"
  "snd (svd_result demo_lib demo_fs)
     = (''stem.h5'', [''Measurement_001'', ''Channel_000'', ''Raw_Data-SVD_000''])"
  "snd (cluster_result demo_lib demo_fs)
     = (''stem.h5'', [''Measurement_001'', ''Channel_000'', ''Raw_Data-SVD_000'', ''U-Cluster_000''])"
  by (simp_all add: raw_ref_def svd_result_def cluster_result_def member_def demo_defs Let_def)

section \<open>Properties of the notebook\<close>

text \<open>
  C2. In a run from a fresh kernel that completes cell 6, the SVD routine was constructed
  and computed on the raw dataset (the dataset bound in cell 4) with 256 components; the
  group it returned holds the members \<^verbatim>\<open>U\<close>, \<^verbatim>\<open>V\<close> and \<^verbatim>\<open>S\<close>, the notebook has
  looked each of them up in that group and bound them to \<^verbatim>\<open>h5_u\<close>, \<^verbatim>\<open>h5_v\<close>, \<^verbatim>\<open>h5_s\<close>.
  A missing member makes the lookup raise KeyError, so completing the cell means they exist.
\<close>

theorem svd_of_raw_data:
  assumes "py_seq (take 6 (notebook l)) (initial_state fs) = (Inr (), s')"
  shows "Call ''px.processing.SVD'' [ARef (raw_ref l fs), AInt 256] \<in> set (log s') \<and>
         Call ''px.processing.SVD.compute'' [ARef (raw_ref l fs), AInt 256] \<in> set (log s') \<and>
         h5fs s' = fst (svd_result l fs) \<and>
         (\<forall>n \<in> {''U'', ''V'', ''S''}.
            h5fs s' (member (snd (svd_result l fs)) n) \<noteq> None \<and>
            Call ''h5py.Group.__getitem__'' [ARef (snd (svd_result l fs)), AStr n]
              \<in> set (log s')) \<and>
         h5_u s' = Some (member (snd (svd_result l fs)) ''U'') \<and>
         h5_v s' = Some (member (snd (svd_result l fs)) ''V'') \<and>
         h5_s s' = Some (member (snd (svd_result l fs)) ''S'')"
  using after_svd[OF assms] by (simp add: initial_state_def)

theorem svd_of_raw_data_witness:
  "py_seq (take 6 (notebook demo_lib)) (initial_state demo_fs)
     = (Inr (), snd (py_seq (take 6 (notebook demo_lib)) (initial_state demo_fs))) \<and>
   Call ''px.processing.SVD'' [ARef demo_raw, AInt 256]
     \<in> set (log (snd (py_seq (take 6 (notebook demo_lib)) (initial_state demo_fs)))) \<and>
   h5_u (snd (py_seq (take 6 (notebook demo_lib)) (initial_state demo_fs)))
     = Some (''stem.h5'', [''Measurement_001'', ''Channel_000'', ''Raw_Data-SVD_000'', ''U''])"
  using svd_of_raw_data[OF demo_prefix_ok[of 6]] demo_prefix_ok[of 6]
  by (simp add: demo_refs member_def)

text \<open>
  C3. In a run from a fresh kernel that completes cell 13, k-means was constructed with
  32 clusters and the clustering was computed on the \<^verbatim>\<open>U\<close> member of the SVD group with
  \<^verbatim>\<open>num_comps = 128\<close>; the group it returned holds \<^verbatim>\<open>Labels\<close> and \<^verbatim>\<open>Mean_Response\<close>,
  both looked up by the notebook; \<^verbatim>\<open>Labels\<close> has one entry per scan position and is shown
  reshaped to rows by columns; the second dimension of \<^verbatim>\<open>Mean_Response\<close> is read.
\<close>

theorem kmeans_of_svd_scores:
  assumes "py_seq (take 13 (notebook l)) (initial_state fs) = (Inr (), s')"
  shows "Call ''KMeans'' [AInt 32] \<in> set (log s') \<and>
         Call ''px.processing.Cluster''
           [ARef (member (snd (svd_result l fs)) ''U''), AInt 32, AInt 128] \<in> set (log s') \<and>
         Call ''px.processing.Cluster.compute''
           [ARef (member (snd (svd_result l fs)) ''U''), AInt 32, AInt 128] \<in> set (log s') \<and>
         Call ''h5py.Group.__getitem__'' [ARef (snd (cluster_result l fs)), AStr ''Labels'']
           \<in> set (log s') \<and>
         Call ''h5py.Group.__getitem__'' [ARef (snd (cluster_result l fs)), AStr ''Mean_Response'']
           \<in> set (log s') \<and>
         h5fs s' = fst (cluster_result l fs) \<and>
         h5_labels s' = Some (member (snd (cluster_result l fs)) ''Labels'') \<and>
         (\<exists>a rows cols.
            h5fs s' (member (snd (cluster_result l fs)) ''Labels'') = Some (Dataset a) \<and>
            num_rows s' = Some rows \<and> num_cols s' = Some cols \<and>
            prod_list (shape a) = rows * cols \<and>
            label_mat s' = Some \<lparr>shape = [rows, cols], flat = flat a\<rparr>) \<and>
         (\<exists>c n. h5fs s' (member (snd (cluster_result l fs)) ''Mean_Response'')
                    = Some (Dataset c) \<and> shape1 c = Inr n \<and>
                  num_comps_for_clustering s' = Some n)"
  using after_labels[OF assms] by (simp add: initial_state_def)

theorem kmeans_of_svd_scores_witness:
  "py_seq (take 13 (notebook demo_lib)) (initial_state demo_fs)
     = (Inr (), snd (py_seq (take 13 (notebook demo_lib)) (initial_state demo_fs))) \<and>
   Call ''px.processing.Cluster''
     [ARef (''stem.h5'', [''Measurement_001'', ''Channel_000'', ''Raw_Data-SVD_000'', ''U'']),
      AInt 32, AInt 128]
     \<in> set (log (snd (py_seq (take 13 (notebook demo_lib)) (initial_state demo_fs)))) \<and>
   h5_labels (snd (py_seq (take 13 (notebook demo_lib)) (initial_state demo_fs)))
     = Some (''stem.h5'', [''Measurement_001'', ''Channel_000'', ''Raw_Data-SVD_000'',
                            ''U-Cluster_000'', ''Labels''])"
  using kmeans_of_svd_scores[OF demo_prefix_ok[of 13]] demo_prefix_ok[of 13]
  by (simp add: demo_refs member_def)

text \<open>
  C8. When cell 5 completes, the image of the left panel is the dataset stored as
  \<^verbatim>\<open>Spectroscopic_Mean\<close> beside the raw dataset, reshaped to rows by columns: its elements
  are those of the stored dataset, whatever the raw dataset holds.
\<close>

theorem main_map_is_stored_mean:
  assumes "cell_visualize l s = (Inr (), s')"
  shows "\<exists>d rows cols mean.
           h5_main s = Some d \<and> num_rows s = Some rows \<and> num_cols s = Some cols \<and>
           h5fs s (fst d, butlast (snd d) @ [''Spectroscopic_Mean'']) = Some (Dataset mean) \<and>
           prod_list (shape mean) = rows * cols \<and>
           main_map s' = Some \<lparr>shape = [rows, cols], flat = flat mean\<rparr>"
  using assms
  by (auto simp: cell_visualize_def py_defs Let_def np_reshape_def parent_def
           split: option.splits sum.splits if_splits node.splits prod.splits)

lemma demo_cell_ok:
  assumes "k < 16"
  shows "(notebook demo_lib ! k) (snd (py_seq (take k (notebook demo_lib)) (initial_state demo_fs)))
     = (Inr (), snd (py_seq (take (Suc k) (notebook demo_lib)) (initial_state demo_fs)))"
proof -
  have len: "k < length (notebook demo_lib)" using assms by (simp add: notebook_def)
  have "py_seq (take k (notebook demo_lib) @ [notebook demo_lib ! k]) (initial_state demo_fs)
     = (Inr (), snd (py_seq (take (Suc k) (notebook demo_lib)) (initial_state demo_fs)))"
    using demo_prefix_ok[of "Suc k"] by (simp add: take_Suc_conv_app_nth[OF len])
  then show ?thesis
    unfolding py_seq_snoc_ok using demo_prefix_ok[of k] by auto
qed

theorem main_map_is_stored_mean_witness:
  "cell_visualize demo_lib (snd (py_seq (take 4 (notebook demo_lib)) (initial_state demo_fs)))
     = (Inr (), snd (py_seq (take 5 (notebook demo_lib)) (initial_state demo_fs))) \<and>
   (\<exists>d rows cols mean.
      h5_main (snd (py_seq (take 4 (notebook demo_lib)) (initial_state demo_fs))) = Some d \<and>
      num_rows (snd (py_seq (take 4 (notebook demo_lib)) (initial_state demo_fs))) = Some rows \<and>
      num_cols (snd (py_seq (take 4 (notebook demo_lib)) (initial_state demo_fs))) = Some cols \<and>
      h5fs (snd (py_seq (take 4 (notebook demo_lib)) (initial_state demo_fs)))
        (fst d, butlast (snd d) @ [''Spectroscopic_Mean'']) = Some (Dataset mean) \<and>
      prod_list (shape mean) = rows * cols \<and>
      main_map (snd (py_seq (take 5 (notebook demo_lib)) (initial_state demo_fs)))
        = Some \<lparr>shape = [rows, cols], flat = flat mean\<rparr>)"
proof -
  have h: "cell_visualize demo_lib
             (snd (py_seq (take 4 (notebook demo_lib)) (initial_state demo_fs)))
     = (Inr (), snd (py_seq (take 5 (notebook demo_lib)) (initial_state demo_fs)))"
    using demo_cell_ok[of 4] by (simp add: notebook_def)
  show ?thesis using h main_map_is_stored_mean[OF h] by simp
qed

text \<open>
  C10. When cell 4 completes, \<^verbatim>\<open>h5_main\<close> is the last dataset that the search for
  \<^verbatim>\<open>Raw_Data\<close> returned, and that dataset is the one upgraded to a USIDataset. With more
  than one dataset found this is not the first one.
\<close>

theorem raw_data_is_last_found:
  assumes "cell_get_raw l s = (Inr (), s')"
  shows "\<exists>f. h5_file s = Some f \<and> find_dataset l (h5fs s) f ''Raw_Data'' \<noteq> [] \<and>
           h5_main s' = Some (last (find_dataset l (h5fs s) f ''Raw_Data'')) \<and>
           Call ''usid.USIDataset'' [ARef (last (find_dataset l (h5fs s) f ''Raw_Data''))]
             \<in> set (log s')"
  using assms by (rule cell_get_raw_ok)

theorem raw_data_is_last_found_witness:
  "cell_get_raw demo_lib (snd (py_seq (take 3 (notebook demo_lib)) (initial_state demo_fs)))
     = (Inr (), snd (py_seq (take 4 (notebook demo_lib)) (initial_state demo_fs))) \<and>
   find_dataset demo_lib demo_fs ''stem.h5'' ''Raw_Data'' = [demo_raw0, demo_raw] \<and>
   demo_raw0 \<noteq> demo_raw \<and>
   h5_main (snd (py_seq (take 4 (notebook demo_lib)) (initial_state demo_fs))) = Some demo_raw"
proof -
  have h: "cell_get_raw demo_lib
             (snd (py_seq (take 3 (notebook demo_lib)) (initial_state demo_fs)))
     = (Inr (), snd (py_seq (take 4 (notebook demo_lib)) (initial_state demo_fs)))"
    using demo_cell_ok[of 3] by (simp add: notebook_def)
  show ?thesis using h raw_data_is_last_found[OF h]
    by (auto simp: demo_lib_def demo_raw_def demo_raw0_def)
qed

section \<open>Whole runs of the notebook\<close>

lemma demo_run:
  "run_all demo_lib (initial_state demo_fs)
     = (Inr (), snd (run_all demo_lib (initial_state demo_fs)))"
  using demo_run_ok by (simp add: prod_eq_iff)

lemma demo_file_dialog [simp]: "file_dialog demo_lib = ''stem.h5''"
  by (simp add: demo_lib_def)


lemma demo_no_raw_open:
  "fst (py_seq (take 3 (notebook demo_lib_no_raw)) (initial_state demo_fs)) = Inr ()"
  by (simp add: notebook_def cell_defs py_defs demo_lib_no_raw_def demo_defs Let_def)

lemma emits_no_name:
  assumes "emits ns m" and "N \<notin> set ns" and "m s = (r, s')"
  shows "\<exists>evs. log s' = log s @ evs \<and> (\<forall>e\<in>set evs. ev_name e \<noteq> N)"
proof -
  from emitsD[OF assms(1,3)] obtain evs where e: "log s' = log s @ evs"
    and p: "prefix (map ev_name evs) ns" by blast
  from p have "set (map ev_name evs) \<subseteq> set ns" by (rule set_mono_prefix)
  with assms(2) have "\<forall>e\<in>set evs. ev_name e \<noteq> N" by auto
  with e show ?thesis by blast
qed

lemma prefix_snoc_unique:
  assumes "prefix (a @ x # b) (i @ [x])" and "x \<notin> set i"
  shows "a = i \<and> b = []"
proof -
  from assms(1) obtain z where z: "i @ [x] = a @ x # b @ z" by (auto simp: prefix_def)
  have "\<not> length a < length i"
  proof
    assume l: "length a < length i"
    from z have "(i @ [x]) ! length a = (a @ x # b @ z) ! length a" by simp
    with l have "i ! length a = x" by (simp add: nth_append)
    with l assms(2) show False by (metis nth_mem)
  qed
  moreover from z have "length (i @ [x]) = length (a @ x # b @ z)" by simp
  ultimately have l: "length a = length i" and bz: "b = []" "z = []" by auto
  from z l have "a = i" by simp
  with bz show ?thesis by simp
qed

lemma split_after:
  assumes "xs @ ys = pre @ e # post" and "e \<notin> set xs"
  shows "\<exists>pre'. pre = xs @ pre' \<and> ys = pre' @ e # post"
proof -
  from assms(1) consider (inside) us where "xs = pre @ us" "us @ ys = e # post"
    | (after) us where "xs @ us = pre" "ys = us @ e # post"
    by (auto simp: append_eq_append_conv2)
  then show ?thesis
  proof cases
    case inside
    with assms(2) have "us = []" by (cases us) auto
    with inside show ?thesis by simp
  next
    case after
    then show ?thesis by auto
  qed
qed

lemma py_seq_fail_at:
  assumes "k < length ms" and "py_seq (take k ms) s = (Inr (), sk)"
    and "(ms ! k) sk = (Inl e, sf)"
  shows "py_seq ms s = (Inl e, sf)"
proof -
  have "ms = take k ms @ (ms ! k) # drop (Suc k) ms"
    using assms(1) by (simp add: id_take_nth_drop)
  then have "py_seq ms s = py_bind (py_seq (take k ms))
                (\<lambda>_. py_bind (ms ! k) (\<lambda>_. py_seq (drop (Suc k) ms))) s"
    by (metis py_seq_append py_seq.simps(2))
  with assms(2,3) show ?thesis by (simp add: py_bind_def)
qed

lemma notebook_split:
  "notebook l = take 5 (notebook l) @ [cell_svd l] @ take 5 (drop 6 (notebook l)) @
                [cell_cluster l] @ drop 12 (notebook l)"
  by (simp add: notebook_def)

lemma run_all_outcome:
  assumes "run_all l s = (r, s')"
  obtains (A) e where "py_seq (take 5 (notebook l)) s = (Inl e, s')" "r = Inl e"
   | (S) s5 e where "py_seq (take 5 (notebook l)) s = (Inr (), s5)"
       "cell_svd l s5 = (Inl e, s')" "r = Inl e"
   | (B) s6 e where "py_seq (take 6 (notebook l)) s = (Inr (), s6)"
       "py_seq (take 5 (drop 6 (notebook l))) s6 = (Inl e, s')" "r = Inl e"
   | (C) s11 e where "py_seq (take 11 (notebook l)) s = (Inr (), s11)"
       "cell_cluster l s11 = (Inl e, s')" "r = Inl e"
   | (D) s5 s11 s12 where "py_seq (take 5 (notebook l)) s = (Inr (), s5)"
       "py_seq (take 11 (notebook l)) s = (Inr (), s11)"
       "cell_cluster l s11 = (Inr (), s12)"
       "py_seq (take 12 (notebook l)) s = (Inr (), s12)"
       "py_seq (drop 12 (notebook l)) s12 = (r, s')"
proof -
  have t6: "take 6 (notebook l) = take 5 (notebook l) @ [cell_svd l]"
    and t11: "take 11 (notebook l) = take 6 (notebook l) @ take 5 (drop 6 (notebook l))"
    and t12: "take 12 (notebook l) = take 11 (notebook l) @ [cell_cluster l]"
    by (simp_all add: notebook_def)
  have run: "run_all l = py_bind (py_seq (take 5 (notebook l))) (\<lambda>_.
               py_bind (cell_svd l) (\<lambda>_.
               py_bind (py_seq (take 5 (drop 6 (notebook l)))) (\<lambda>_.
               py_bind (cell_cluster l) (\<lambda>_. py_seq (drop 12 (notebook l))))))"
    unfolding run_all_def
    by (subst notebook_split) (simp only: py_seq_append py_seq_single)
  from assms[unfolded run] show thesis
  proof (cases rule: py_bind_cases)
    case (fail e)
    then show ?thesis by (rule A)
  next
    case (ok x s5)
    then have a: "py_seq (take 5 (notebook l)) s = (Inr (), s5)" by simp
    from ok(2) show ?thesis
    proof (cases rule: py_bind_cases)
      case (fail e)
      with a show ?thesis by (intro S)
    next
      case (ok y s6)
      with a have b: "py_seq (take 6 (notebook l)) s = (Inr (), s6)"
        unfolding t6 py_seq_snoc_ok by auto
      from ok(2) show ?thesis
      proof (cases rule: py_bind_cases)
        case (fail e)
        with b show ?thesis by (intro B)
      next
        case (ok z s11)
        with b have c: "py_seq (take 11 (notebook l)) s = (Inr (), s11)"
          unfolding t11 py_seq_append_ok by auto
        from ok(2) show ?thesis
        proof (cases rule: py_bind_cases)
          case (fail e)
          with c show ?thesis by (intro C)
        next
          case (ok w s12)
          with c have d: "py_seq (take 12 (notebook l)) s = (Inr (), s12)"
            unfolding t12 py_seq_snoc_ok by auto
          from a c ok d show ?thesis by (intro D) auto
        qed
      qed
    qed
  qed
qed

lemma initial_log [simp]: "log (initial_state fs) = []"
  and initial_h5fs [simp]: "h5fs (initial_state fs) = fs"
  by (simp_all add: initial_state_def)

lemma no_cluster_before:
  "''px.processing.Cluster.compute'' \<notin> set (concat (take 11 cell_calls))"
  "''px.processing.Cluster.compute'' \<notin> set (concat (drop 12 cell_calls))"
  by (simp_all add: cell_calls_def)

lemma failed_before_cluster:
  assumes "py_seq (take 11 (notebook l)) (initial_state fs) = (q, t)"
  shows "\<forall>e\<in>set (log t). ev_name e \<noteq> ''px.processing.Cluster.compute''"
  using emits_no_name[OF emits_take no_cluster_before(1) assms] by auto

lemma py_seq_take_fail:
  assumes "py_seq (take j ms) s = (Inl e, t)" and "j \<le> k"
  shows "py_seq (take k ms) s = (Inl e, t)"
proof -
  from assms(2) have "take k ms = take j ms @ drop j (take k ms)"
    by (metis append_take_drop_id min.absorb1 take_take)
  then have "py_seq (take k ms) s = py_bind (py_seq (take j ms)) (\<lambda>_. py_seq (drop j (take k ms))) s"
    by (metis py_seq_append)
  with assms(1) show ?thesis by (simp add: py_bind_def)
qed

lemma cluster_event_late:
  assumes a: "py_seq (take 11 (notebook l)) (initial_state fs) = (Inr (), s11)"
    and b: "cell_cluster l s11 = (q, s12)"
    and c: "log s' = log s12 @ evs3"
      "\<forall>x\<in>set evs3. ev_name x \<noteq> ''px.processing.Cluster.compute''"
    and h: "log s' = pre @ e # post" "ev_name e = ''px.processing.Cluster.compute''"
  shows "e = Call ''px.processing.Cluster.compute''
                  [ARef (member (snd (svd_result l fs)) ''U''), AInt 32, AInt 128] \<and>
         Call ''px.processing.SVD.compute'' [ARef (raw_ref l fs), AInt 256] \<in> set pre"
proof -
  let ?N = "''px.processing.Cluster.compute''"
  let ?E = "Call ?N [ARef (member (snd (svd_result l fs)) ''U''), AInt 32, AInt 128]"
  let ?V = "Call ''px.processing.SVD.compute'' [ARef (raw_ref l fs), AInt 256]"
  note o = before_cluster[OF a]
  from cell_cluster_any[OF b o(4,5,6)] o(1) obtain evs where
    e1: "log s12 = log s11 @ evs" and e2: "\<forall>x\<in>set evs. ev_name x = ?N \<longrightarrow> x = ?E"
    by auto
  from failed_before_cluster[OF a] h(2) have n: "e \<notin> set (log s11)" by auto
  from h(1) c(1) e1 have "log s11 @ (evs @ evs3) = pre @ e # post" by simp
  from split_after[OF this n]
  obtain pre' where p: "pre = log s11 @ pre'" "evs @ evs3 = pre' @ e # post" by blast
  have "e \<in> set (pre' @ e # post)" by simp
  with p(2) have "e \<in> set (evs @ evs3)" by simp
  with c(2) h(2) have "e \<in> set evs" by auto
  with e2 h(2) have "e = ?E" by simp
  moreover from o(7) p(1) have "?V \<in> set pre" by simp
  ultimately show ?thesis by simp
qed

lemma cluster_event_early:
  assumes "py_seq (take j (notebook l)) (initial_state fs) = (Inl x, s')" and "j \<le> 11"
    and "log s' = pre @ e # post"
  shows "ev_name e \<noteq> ''px.processing.Cluster.compute''"
proof -
  from py_seq_take_fail[OF assms(1,2)]
  have "\<forall>e\<in>set (log s'). ev_name e \<noteq> ''px.processing.Cluster.compute''"
    by (rule failed_before_cluster)
  with assms(3) show ?thesis by simp
qed

text \<open>
  C6. The calls of any run from a fresh kernel are an initial part of the fixed sequence
  \<open>script_calls\<close>, and the whole of it when the run completes. Whenever the clustering
  is computed, it is computed on the \<^verbatim>\<open>U\<close> member of the group that the SVD returned for
  the raw dataset, with 32 clusters and 128 components, and the SVD of the raw dataset
  with 256 components was computed earlier in the run.
\<close>

theorem svd_runs_before_clustering:
  assumes "run_all l (initial_state fs) = (r, s')"
  shows "prefix (map ev_name (log s')) script_calls \<and>
         (r = Inr () \<longrightarrow> map ev_name (log s') = script_calls) \<and>
         (\<forall>pre e post.
            log s' = pre @ e # post \<and> ev_name e = ''px.processing.Cluster.compute'' \<longrightarrow>
            e = Call ''px.processing.Cluster.compute''
                  [ARef (member (snd (svd_result l fs)) ''U''), AInt 32, AInt 128] \<and>
            Call ''px.processing.SVD.compute'' [ARef (raw_ref l fs), AInt 256] \<in> set pre)"
proof (intro conjI allI impI)
  from emitsD[OF emits_run_all assms]
  show "prefix (map ev_name (log s')) script_calls" by auto
next
  assume "r = Inr ()"
  with emitsD[OF emits_run_all assms]
  show "map ev_name (log s') = script_calls" by auto
next
  fix pre e post
  assume "log s' = pre @ e # post \<and> ev_name e = ''px.processing.Cluster.compute''"
  then have h: "log s' = pre @ e # post" "ev_name e = ''px.processing.Cluster.compute''"
    by simp_all
  let ?goal = "e = Call ''px.processing.Cluster.compute''
                  [ARef (member (snd (svd_result l fs)) ''U''), AInt 32, AInt 128] \<and>
         Call ''px.processing.SVD.compute'' [ARef (raw_ref l fs), AInt 256] \<in> set pre"
  from assms have ?goal
  proof (cases rule: run_all_outcome)
    case (A x)
    from cluster_event_early[OF A(1) _ h(1)] h(2) show ?thesis by simp
  next
    case (S s5 x)
    have "take 6 (notebook l) = take 5 (notebook l) @ [cell_svd l]" by (simp add: notebook_def)
    then have "py_seq (take 6 (notebook l)) (initial_state fs) = (Inl x, s')"
      using S(1,2) by (simp add: py_seq_append py_seq_single py_bind_def)
    from cluster_event_early[OF this _ h(1)] h(2) show ?thesis by simp
  next
    case (B s6 x)
    have "take 11 (notebook l) = take 6 (notebook l) @ take 5 (drop 6 (notebook l))"
      by (simp add: notebook_def)
    then have "py_seq (take 11 (notebook l)) (initial_state fs) = (Inl x, s')"
      using B(1,2) by (simp add: py_seq_append py_bind_def)
    from cluster_event_early[OF this _ h(1)] h(2) show ?thesis by simp
  next
    case (C s11 x)
    show ?thesis by (rule cluster_event_late[OF C(1,2) _ _ h, of "[]"]) simp_all
  next
    case (D s5 s11 s12)
    from emits_no_name[OF emits_drop no_cluster_before(2) D(5)]
    obtain evs3 where "log s' = log s12 @ evs3"
      "\<forall>x\<in>set evs3. ev_name x \<noteq> ''px.processing.Cluster.compute''" by auto
    then show ?thesis by (rule cluster_event_late[OF D(2,3) _ _ h])
  qed
  then show "e = Call ''px.processing.Cluster.compute''
                  [ARef (member (snd (svd_result l fs)) ''U''), AInt 32, AInt 128]"
    and "Call ''px.processing.SVD.compute'' [ARef (raw_ref l fs), AInt 256] \<in> set pre"
    by simp_all
qed

theorem svd_runs_before_clustering_witness:
  "run_all demo_lib (initial_state demo_fs)
     = (Inr (), snd (run_all demo_lib (initial_state demo_fs))) \<and>
   map ev_name (log (snd (run_all demo_lib (initial_state demo_fs)))) = script_calls \<and>
   (\<exists>pre e post.
      log (snd (run_all demo_lib (initial_state demo_fs))) = pre @ e # post \<and>
      e = Call ''px.processing.Cluster.compute''
            [ARef (''stem.h5'', [''Measurement_001'', ''Channel_000'', ''Raw_Data-SVD_000'', ''U'']),
             AInt 32, AInt 128] \<and>
      Call ''px.processing.SVD.compute'' [ARef demo_raw, AInt 256] \<in> set pre)"
proof -
  let ?S = "snd (run_all demo_lib (initial_state demo_fs))"
  note t = svd_runs_before_clustering[OF demo_run]
  from t have names: "map ev_name (log ?S) = script_calls" by simp
  have "''px.processing.Cluster.compute'' \<in> set script_calls"
    by (simp add: script_calls_def cell_calls_def)
  with names have "''px.processing.Cluster.compute'' \<in> ev_name ` set (log ?S)"
    by (metis set_map)
  then obtain e where e: "e \<in> set (log ?S)" "ev_name e = ''px.processing.Cluster.compute''"
    by auto
  from split_list[OF e(1)] obtain pre post where p: "log ?S = pre @ e # post" by blast
  from t p e(2) have "e = Call ''px.processing.Cluster.compute''
            [ARef (member (snd (svd_result demo_lib demo_fs)) ''U''), AInt 32, AInt 128] \<and>
      Call ''px.processing.SVD.compute'' [ARef (raw_ref demo_lib demo_fs), AInt 256] \<in> set pre"
    by blast
  then have "e = Call ''px.processing.Cluster.compute''
            [ARef (''stem.h5'', [''Measurement_001'', ''Channel_000'', ''Raw_Data-SVD_000'', ''U'']),
             AInt 32, AInt 128] \<and>
      Call ''px.processing.SVD.compute'' [ARef demo_raw, AInt 256] \<in> set pre"
    by (simp add: demo_refs member_def)
  with p names demo_run show ?thesis by blast
qed

lemma script_calls_close:
  "script_calls = butlast script_calls @ [''h5py.File.close'']"
  "''h5py.File.close'' \<notin> set (butlast script_calls)"
  "set [''h5py.File'', ''usid.hdf_utils.find_dataset'', ''px.processing.SVD.compute'',
        ''px.processing.Cluster.compute'', ''axes[0].imshow'', ''axes[1].imshow'',
        ''usid.plot_utils.plot_scree'', ''usid.plot_utils.plot_map_stack'',
        ''px.viz.cluster_utils.plot_cluster_labels'',
        ''px.viz.cluster_utils.plot_cluster_dendrogram'']
     \<subseteq> set (butlast script_calls)"
  by (simp_all add: script_calls_def cell_calls_def)

lemma before_close:
  assumes "py_seq (take 14 (notebook l)) s = (Inr (), t)"
  shows "h5_file t = Some (file_dialog l)"
proof -
  have split: "take 14 (notebook l) = take 12 (notebook l) @ [cell_labels l, cell_dendrogram l]"
    by (simp add: notebook_def)
  from assms obtain u where a: "py_seq (take 12 (notebook l)) s = (Inr (), u)"
    and b: "py_seq [cell_labels l, cell_dendrogram l] u = (Inr (), t)"
    unfolding split py_seq_append_ok by blast
  have "keeps h5_file (py_seq [cell_labels l, cell_dendrogram l])"
    by (intro keeps_seq_Cons keeps_seq_Nil keeps_cells)
  from keepsD[OF this b] after_cluster(2)[OF a] show ?thesis by simp
qed

text \<open>
  C4. A run from a fresh kernel that completes ends with the call that closes the file
  opened in cell 3, and leaves that file closed. In any run, a call of
  \<^verbatim>\<open>h5py.File.close\<close> is the last call made: every other call of the script comes before
  it, among them the opening of the file, the search for the raw dataset, the SVD, the
  clustering and the plotting calls, and nothing is called after it.
\<close>

theorem close_is_final_operation:
  assumes "run_all l (initial_state fs) = (r, s')"
  shows "(r = Inr () \<longrightarrow>
            log s' \<noteq> [] \<and>
            last (log s') = Call ''h5py.File.close'' [AStr (file_dialog l)] \<and>
            file_dialog l \<notin> set (open_files s')) \<and>
         (\<forall>pre e post.
            log s' = pre @ e # post \<and> ev_name e = ''h5py.File.close'' \<longrightarrow>
            post = [] \<and> map ev_name pre = butlast script_calls \<and>
            set [''h5py.File'', ''usid.hdf_utils.find_dataset'', ''px.processing.SVD.compute'',
                 ''px.processing.Cluster.compute'', ''axes[0].imshow'', ''axes[1].imshow'',
                 ''usid.plot_utils.plot_scree'', ''usid.plot_utils.plot_map_stack'',
                 ''px.viz.cluster_utils.plot_cluster_labels'',
                 ''px.viz.cluster_utils.plot_cluster_dendrogram'']
              \<subseteq> ev_name ` set pre)"
proof (intro conjI allI impI)
  assume ok: "r = Inr ()"
  have split: "notebook l = take 14 (notebook l) @ [cell_close l, cell_empty]"
    by (simp add: notebook_def)
  from assms ok have "py_seq (take 14 (notebook l) @ [cell_close l, cell_empty])
                        (initial_state fs) = (Inr (), s')"
    unfolding run_all_def using split by simp
  then obtain s14 where a: "py_seq (take 14 (notebook l)) (initial_state fs) = (Inr (), s14)"
    and rest: "py_seq [cell_close l, cell_empty] s14 = (Inr (), s')"
    unfolding py_seq_append_ok by blast
  from rest have "py_seq ([cell_close l] @ [cell_empty]) s14 = (Inr (), s')" by simp
  then obtain s15 where b: "cell_close l s14 = (Inr (), s15)"
    and c: "cell_empty s15 = (Inr (), s')"
    unfolding py_seq_snoc_ok py_seq_single by blast
  from c have s': "s' = s15" by (simp add: cell_empty_def py_return_def)
  note f = before_close[OF a]
  from cell_close_any(1)[OF b f] s'
  show "log s' \<noteq> []" and "last (log s') = Call ''h5py.File.close'' [AStr (file_dialog l)]"
    by simp_all
  from cell_close_any(2)[OF b f] s' show "file_dialog l \<notin> set (open_files s')" by simp
next
  fix pre e post
  assume "log s' = pre @ e # post \<and> ev_name e = ''h5py.File.close''"
  then have h: "log s' = pre @ e # post" "ev_name e = ''h5py.File.close''" by simp_all
  from emitsD[OF emits_run_all assms] have "prefix (map ev_name (log s')) script_calls"
    by auto
  with h have "prefix (map ev_name pre @ ''h5py.File.close'' # map ev_name post)
                 (butlast script_calls @ [''h5py.File.close''])"
    using script_calls_close(1) by simp
  from prefix_snoc_unique[OF this script_calls_close(2)]
  have p: "map ev_name pre = butlast script_calls" and q: "post = []" by simp_all
  from q show "post = []" .
  from p show "map ev_name pre = butlast script_calls" .
  have "ev_name ` set pre = set (map ev_name pre)" by simp
  also have "\<dots> = set (butlast script_calls)" by (simp only: p)
  finally have "ev_name ` set pre = set (butlast script_calls)" .
  with script_calls_close(3)
  show "set [''h5py.File'', ''usid.hdf_utils.find_dataset'', ''px.processing.SVD.compute'',
                 ''px.processing.Cluster.compute'', ''axes[0].imshow'', ''axes[1].imshow'',
                 ''usid.plot_utils.plot_scree'', ''usid.plot_utils.plot_map_stack'',
                 ''px.viz.cluster_utils.plot_cluster_labels'',
                 ''px.viz.cluster_utils.plot_cluster_dendrogram'']
              \<subseteq> ev_name ` set pre"
    by (simp only:)
qed

theorem close_is_final_operation_witness:
  "run_all demo_lib (initial_state demo_fs)
     = (Inr (), snd (run_all demo_lib (initial_state demo_fs))) \<and>
   last (log (snd (run_all demo_lib (initial_state demo_fs))))
     = Call ''h5py.File.close'' [AStr ''stem.h5''] \<and>
   ''stem.h5'' \<notin> set (open_files (snd (run_all demo_lib (initial_state demo_fs)))) \<and>
   (\<exists>pre e. log (snd (run_all demo_lib (initial_state demo_fs))) = pre @ [e] \<and>
      ev_name e = ''h5py.File.close'' \<and> map ev_name pre = butlast script_calls)"
proof -
  let ?S = "snd (run_all demo_lib (initial_state demo_fs))"
  note t = close_is_final_operation[OF demo_run]
  from t have a: "log ?S \<noteq> []" "last (log ?S) = Call ''h5py.File.close'' [AStr ''stem.h5'']"
    "''stem.h5'' \<notin> set (open_files ?S)" by simp_all
  from a(1) have d: "log ?S = butlast (log ?S) @ last (log ?S) # []" by simp
  have n: "ev_name (last (log ?S)) = ''h5py.File.close''" by (simp add: a(2) ev_name_def)
  from t d n have "map ev_name (butlast (log ?S)) = butlast script_calls" by blast
  with d n a demo_run show ?thesis by blast
qed

lemma cell_get_raw_none_found:
  assumes "h5_file s = Some f"
    and "ext_fault l (h5fs s) ''usid.hdf_utils.find_dataset'' [ARef (f, []), AStr ''Raw_Data'']
           = None"
    and "find_dataset l (h5fs s) f ''Raw_Data'' = []"
  shows "cell_get_raw l s =
           (Inl IndexError,
            s\<lparr>log := log s @ [Call ''usid.hdf_utils.find_dataset''
                                  [ARef (f, []), AStr ''Raw_Data'']]\<rparr>)"
  using assms by (simp add: cell_get_raw_def py_defs py_last_def Let_def)

section \<open>Calls that raise\<close>

text \<open>
  Statement by statement: a call that raises is the last call of the statement and decides
  its outcome. The rules cover the primitives and sequencing, which is all the notebook is
  built from. Cells 3, 6, 12 and 15 change the file or the open files and are treated one
  by one.
\<close>

lemma call_error_primitives:
  "call_error l (h5fs s) (open_files s) (Call ''h5py.Dataset.read'' [ARef d]) = Some e
     \<longleftrightarrow> fst (read_dataset d s) = Inl e"
  "call_error l (h5fs s) (open_files s) (Call ''h5py.Group.__getitem__'' [ARef g, AStr name]) = Some e
     \<longleftrightarrow> fst (group_getitem g name s) = Inl e"
  "n \<noteq> ''!'' \<Longrightarrow> n \<noteq> ''h5py.Dataset.read'' \<Longrightarrow> n \<noteq> ''h5py.Group.__getitem__'' \<Longrightarrow>
   call_error l (h5fs s) (open_files s) (Call n args) = Some e
     \<longleftrightarrow> fst (external l n args s) = Inl e"
  "call_error l fs opened (Call ''!'' args) = None"
  "fst (shell cmd s) = Inr ()"
  by (auto simp: call_error_def read_dataset_def group_getitem_def external_def shell_def
        modify_def Let_def split: option.splits node.splits)

lemma stops_Nil: "stops l F H [] r"
  by (simp add: stops_def)

lemma stops_Cons:
  "stops l F H (c # evs) r \<longleftrightarrow>
     (\<forall>e. call_error l (F []) (H []) c = Some e \<longrightarrow> evs = [] \<and> r = Inl e) \<and>
     stops l (\<lambda>ns. F (ev_name c # ns)) (\<lambda>ns. H (ev_name c # ns)) evs r"
proof
  assume a: "stops l F H (c # evs) r"
  have "evs = [] \<and> r = Inl e" if "call_error l (F []) (H []) c = Some e" for e
    using a[unfolded stops_def, rule_format, of "[]" c evs e] that by simp
  moreover have "post = [] \<and> r = Inl e"
    if "evs = pre @ ca # post"
      "call_error l (F (ev_name c # map ev_name pre)) (H (ev_name c # map ev_name pre)) ca = Some e"
    for pre ca post e
    using a[unfolded stops_def, rule_format, of "c # pre" ca post e] that by simp
  ultimately show "(\<forall>e. call_error l (F []) (H []) c = Some e \<longrightarrow> evs = [] \<and> r = Inl e) \<and>
     stops l (\<lambda>ns. F (ev_name c # ns)) (\<lambda>ns. H (ev_name c # ns)) evs r"
    unfolding stops_def by blast
next
  assume b: "(\<forall>e. call_error l (F []) (H []) c = Some e \<longrightarrow> evs = [] \<and> r = Inl e) \<and>
     stops l (\<lambda>ns. F (ev_name c # ns)) (\<lambda>ns. H (ev_name c # ns)) evs r"
  show "stops l F H (c # evs) r"
    unfolding stops_def
  proof (intro allI impI)
    fix pre ca post e
    assume h: "c # evs = pre @ ca # post \<and>
      call_error l (F (map ev_name pre)) (H (map ev_name pre)) ca = Some e"
    show "post = [] \<and> r = Inl e"
    proof (cases pre)
      case Nil
      with b h show ?thesis by simp
    next
      case (Cons x pre')
      with h have "x = c" "evs = pre' @ ca # post" by simp_all
      with b h Cons show ?thesis unfolding stops_def by simp
    qed
  qed
qed

lemma stops_append:
  assumes "stops l F H evs1 (Inr x)"
    and "stops l (\<lambda>ns. F (map ev_name evs1 @ ns)) (\<lambda>ns. H (map ev_name evs1 @ ns)) evs2 r"
  shows "stops l F H (evs1 @ evs2) r"
  using assms
proof (induction evs1 arbitrary: F H)
  case Nil
  then show ?case by simp
next
  case (Cons c evs1)
  from Cons.prems(1) have n: "call_error l (F []) (H []) c = None"
    and t: "stops l (\<lambda>ns. F (ev_name c # ns)) (\<lambda>ns. H (ev_name c # ns)) evs1 (Inr x)"
    unfolding stops_Cons by (cases "call_error l (F []) (H []) c", simp_all)
  from Cons.prems(2)
  have "stops l (\<lambda>ns. F (ev_name c # map ev_name evs1 @ ns))
          (\<lambda>ns. H (ev_name c # map ev_name evs1 @ ns)) evs2 r" by simp
  from Cons.IH[OF t this] n show ?case by (simp add: stops_Cons)
qed

lemma stops_Inl: "stops l F H evs (Inl e :: error + 'r) \<Longrightarrow> stops l F H evs (Inl e :: error + 'q)"
  by (simp add: stops_def)

lemma uncaughtD:
  assumes "uncaught l m" and "m s = (r, s')"
  shows "h5fs s' = h5fs s" and "open_files s' = open_files s"
    and "\<exists>evs. log s' = log s @ evs \<and> stops l (\<lambda>_. h5fs s) (\<lambda>_. open_files s) evs r"
  using assms unfolding uncaught_def by (metis fst_conv snd_conv)+

lemma uncaught_return: "uncaught l (py_return x)"
  by (simp add: uncaught_def py_return_def stops_Nil)

lemma uncaught_raise: "uncaught l (py_raise e)"
  by (simp add: uncaught_def py_raise_def stops_Nil)

lemma uncaught_lift: "uncaught l (py_lift x)"
  by (simp add: uncaught_def py_lift_def stops_Nil)

lemma uncaught_var: "uncaught l (var v)"
  by (simp add: uncaught_def var_def stops_Nil split: option.splits)

lemma uncaught_gets: "uncaught l (gets g)"
  by (simp add: uncaught_def gets_def stops_Nil)

lemma uncaught_modify:
  "(\<And>s. h5fs (u s) = h5fs s) \<Longrightarrow> (\<And>s. open_files (u s) = open_files s) \<Longrightarrow>
   (\<And>s. log (u s) = log s) \<Longrightarrow> uncaught l (modify u)"
  by (simp add: uncaught_def modify_def stops_Nil)

lemma uncaught_shell: "uncaught l (shell c)"
  by (simp add: uncaught_def shell_def modify_def stops_Cons stops_Nil call_error_def)

lemma uncaught_external:
  "n \<noteq> ''!'' \<Longrightarrow> n \<noteq> ''h5py.Dataset.read'' \<Longrightarrow> n \<noteq> ''h5py.Group.__getitem__'' \<Longrightarrow>
   uncaught l (external l n args)"
  by (simp add: uncaught_def external_def Let_def stops_Cons stops_Nil call_error_def
           split: option.splits)

lemma uncaught_read: "uncaught l (read_dataset d)"
  by (simp add: uncaught_def read_dataset_def Let_def stops_Cons stops_Nil call_error_def
           split: option.splits node.splits)

lemma uncaught_getitem: "uncaught l (group_getitem g n)"
  by (simp add: uncaught_def group_getitem_def Let_def stops_Cons stops_Nil call_error_def
           split: option.splits node.splits)

lemma uncaught_bind:
  assumes "uncaught l m" and "\<And>x. uncaught l (g x)"
  shows "uncaught l (py_bind m g)"
  unfolding uncaught_def
proof
  fix s
  obtain r s1 where ms: "m s = (r, s1)" by (cases "m s")
  note a = uncaughtD[OF assms(1) ms]
  from a(3) obtain evs1 where e1: "log s1 = log s @ evs1"
    and t1: "stops l (\<lambda>_. h5fs s) (\<lambda>_. open_files s) evs1 r" by blast
  show "h5fs (snd (py_bind m g s)) = h5fs s \<and> open_files (snd (py_bind m g s)) = open_files s \<and>
        (\<exists>evs. log (snd (py_bind m g s)) = log s @ evs \<and>
           stops l (\<lambda>_. h5fs s) (\<lambda>_. open_files s) evs (fst (py_bind m g s)))"
  proof (cases r)
    case (Inl e)
    with ms have b: "py_bind m g s = (Inl e, s1)" by (simp add: py_bind_def)
    from t1 Inl have "stops l (\<lambda>_. h5fs s) (\<lambda>_. open_files s) evs1 (Inl e :: error + 'c)"
      by (simp add: stops_def)
    with a(1,2) e1 show ?thesis unfolding b by auto
  next
    case (Inr x)
    with ms have b: "py_bind m g s = g x s1" by (simp add: py_bind_def)
    obtain q s2 where gs: "g x s1 = (q, s2)" by (cases "g x s1")
    note c = uncaughtD[OF assms(2) gs]
    from c(3) a(1,2) obtain evs2 where e2: "log s2 = log s1 @ evs2"
      and t2: "stops l (\<lambda>_. h5fs s) (\<lambda>_. open_files s) evs2 q" by auto
    from t1 Inr have "stops l (\<lambda>_. h5fs s) (\<lambda>_. open_files s) evs1 (Inr x)" by simp
    then have "stops l (\<lambda>_. h5fs s) (\<lambda>_. open_files s) (evs1 @ evs2) q"
      by (rule stops_append) (rule t2)
    with a(1,2) c(1,2) e1 e2 show ?thesis unfolding b gs by auto
  qed
qed

lemma uncaught_prod: "(\<And>a b. uncaught l (g a b)) \<Longrightarrow> uncaught l (case p of (a, b) \<Rightarrow> g a b)"
  by (cases p) simp

lemmas uncaught_intros = uncaught_return uncaught_raise uncaught_lift uncaught_var
  uncaught_gets uncaught_modify uncaught_shell uncaught_external uncaught_read
  uncaught_getitem uncaught_bind uncaught_prod

lemma uncaught_cell_install: "uncaught l (cell_install l)"
  unfolding cell_install_def Let_def dataset_getitem_def new_figure_def py_import_def
  by ((simp only: list.map append.simps py_seq.simps)?, (rule uncaught_intros | simp)+)

lemma uncaught_cell_imports: "uncaught l (cell_imports l)"
  unfolding cell_imports_def Let_def dataset_getitem_def new_figure_def py_import_def
  by ((simp only: list.map append.simps py_seq.simps)?, (rule uncaught_intros | simp)+)

lemma uncaught_cell_get_raw: "uncaught l (cell_get_raw l)"
  unfolding cell_get_raw_def Let_def dataset_getitem_def new_figure_def py_import_def
  by ((simp only: list.map append.simps py_seq.simps)?, (rule uncaught_intros | simp)+)

lemma uncaught_cell_visualize: "uncaught l (cell_visualize l)"
  unfolding cell_visualize_def Let_def dataset_getitem_def new_figure_def py_import_def
  by ((simp only: list.map append.simps py_seq.simps)?, (rule uncaught_intros | simp)+)

lemma uncaught_cell_num_plot_comps: "uncaught l cell_num_plot_comps"
  unfolding cell_num_plot_comps_def Let_def dataset_getitem_def new_figure_def py_import_def
  by ((simp only: list.map append.simps py_seq.simps)?, (rule uncaught_intros | simp)+)

lemma uncaught_cell_plot_scree: "uncaught l (cell_plot_scree l)"
  unfolding cell_plot_scree_def Let_def dataset_getitem_def new_figure_def py_import_def
  by ((simp only: list.map append.simps py_seq.simps)?, (rule uncaught_intros | simp)+)

lemma uncaught_cell_abundance: "uncaught l (cell_abundance l)"
  unfolding cell_abundance_def Let_def dataset_getitem_def new_figure_def py_import_def
  by ((simp only: list.map append.simps py_seq.simps)?, (rule uncaught_intros | simp)+)

lemma uncaught_cell_endmembers: "uncaught l (cell_endmembers l)"
  unfolding cell_endmembers_def Let_def dataset_getitem_def new_figure_def py_import_def
  by ((simp only: list.map append.simps py_seq.simps)?, (rule uncaught_intros | simp)+)

lemma uncaught_cell_cluster_params: "uncaught l cell_cluster_params"
  unfolding cell_cluster_params_def Let_def dataset_getitem_def new_figure_def py_import_def
  by ((simp only: list.map append.simps py_seq.simps)?, (rule uncaught_intros | simp)+)

lemma uncaught_cell_labels: "uncaught l (cell_labels l)"
  unfolding cell_labels_def Let_def dataset_getitem_def new_figure_def py_import_def
  by ((simp only: list.map append.simps py_seq.simps)?, (rule uncaught_intros | simp)+)

lemma uncaught_cell_dendrogram: "uncaught l (cell_dendrogram l)"
  unfolding cell_dendrogram_def Let_def dataset_getitem_def new_figure_def py_import_def
  by ((simp only: list.map append.simps py_seq.simps)?, (rule uncaught_intros | simp)+)

lemma uncaught_cell_empty: "uncaught l cell_empty"
  unfolding cell_empty_def by (rule uncaught_return)

lemma cell_open_stops:
  assumes "cell_open l s = (q, s')"
    and "F [] = h5fs s" "F [''px.io_utils.file_dialog''] = h5fs s"
      "F [''px.io_utils.file_dialog'', ''print''] = h5fs s"
  shows "\<exists>evs. log s' = log s @ evs \<and> stops l F H evs q"
  using assms
  by (auto simp: cell_open_def py_defs Let_def stops_Cons stops_Nil call_error_def ev_name_def
           split: option.splits)

lemma cell_close_stops:
  assumes "cell_close l s = (q, s')" and "F [] = h5fs s"
  shows "\<exists>evs. log s' = log s @ evs \<and> stops l F H evs q"
  using assms
  by (auto simp: cell_close_def py_defs Let_def stops_Cons stops_Nil call_error_def ev_name_def
           split: option.splits)

lemma cell_svd_stops:
  assumes "cell_svd l s = (q, s')" and "h5_main s = Some d"
    and "F [] = h5fs s" "F [''px.processing.SVD''] = h5fs s"
    and "\<And>ns. ns \<in> {[], [''h5py.Group.__getitem__''],
                     [''h5py.Group.__getitem__'', ''h5py.Group.__getitem__'']} \<Longrightarrow>
            F (''px.processing.SVD'' # ''px.processing.SVD.compute'' # ns)
              = fst (svd_compute l (h5fs s) d 256) \<and>
            H (''px.processing.SVD'' # ''px.processing.SVD.compute'' # ns) = open_files s"
  shows "\<exists>evs. log s' = log s @ evs \<and> stops l F H evs q"
  using assms
  by (auto simp: cell_svd_def py_defs Let_def stops_Cons stops_Nil call_error_def ev_name_def
           split: option.splits sum.splits if_splits prod.splits)

lemma cell_cluster_stops:
  assumes "cell_cluster l s = (q, s')"
    and "h5_u s = Some u" and "num_clusters s = Some k" and "spectral_components s = Some comps"
    and "F [] = h5fs s" "F [''KMeans''] = h5fs s"
      "F [''KMeans'', ''px.processing.Cluster''] = h5fs s"
    and "\<And>ns. ns \<in> {[], [''h5py.Group.__getitem__''],
                     [''h5py.Group.__getitem__'', ''h5py.Group.__getitem__'']} \<Longrightarrow>
            F (''KMeans'' # ''px.processing.Cluster'' # ''px.processing.Cluster.compute'' # ns)
              = fst (cluster_compute l (h5fs s) u comps k) \<and>
            H (''KMeans'' # ''px.processing.Cluster'' # ''px.processing.Cluster.compute'' # ns)
              = open_files s"
  shows "\<exists>evs. log s' = log s @ evs \<and> stops l F H evs q"
  using assms
  by (auto simp: cell_cluster_def py_defs Let_def stops_Cons stops_Nil call_error_def ev_name_def
           split: option.splits sum.splits if_splits prod.splits node.splits)

section \<open>The file and the open files during a run\<close>

text \<open>
  After the first \<open>k\<close> cells of a run from a fresh kernel, the contents of the file and
  the open files are what \<open>file_before\<close> and \<open>open_before\<close> say of the calls made so
  far. Cell by cell, this carries the rule for statements over to whole runs.
\<close>

lemma keeps_seq_take: "(\<And>m. m \<in> set ms \<Longrightarrow> keeps f m) \<Longrightarrow> keeps f (py_seq (take k ms))"
  by (rule keeps_seq) (auto dest: in_set_takeD)

lemma take_split: "j \<le> k \<Longrightarrow> take k xs = take j xs @ take (k - j) (drop j xs)"
  by (metis le_add_diff_inverse take_add)

lemma status_file:
  assumes p: "py_seq (take k (notebook l)) (initial_state fs) = (Inr (), t)"
  shows "h5fs t = (if 12 \<le> k then fst (cluster_result l fs)
                   else if 6 \<le> k then fst (svd_result l fs) else fs)"
proof -
  consider (a) "k \<le> 5" | (b) "6 \<le> k" "k \<le> 11" | (c) "12 \<le> k" by linarith
  then show ?thesis
  proof cases
    case a
    then have "take k (notebook l) = take k (take 5 (notebook l))" by (simp add: min_def)
    moreover have "keeps h5fs (py_seq (take k (take 5 (notebook l))))"
      by (rule keeps_seq_take) (auto simp: notebook_def keeps_cells)
    ultimately have "keeps h5fs (py_seq (take k (notebook l)))" by simp
    from keepsD[OF this p] have "h5fs t = fs" by simp
    with a show ?thesis by simp
  next
    case b
    from b(2) have e: "take (k - 6) (drop 6 (notebook l))
        = take (k - 6) (take 5 (drop 6 (notebook l)))" by (simp add: min_def)
    from p obtain s6 where s6: "py_seq (take 6 (notebook l)) (initial_state fs) = (Inr (), s6)"
      and r: "py_seq (take (k - 6) (take 5 (drop 6 (notebook l)))) s6 = (Inr (), t)"
      unfolding take_split[OF b(1), of "notebook l"] py_seq_append_ok e by blast
    have "keeps h5fs (py_seq (take (k - 6) (take 5 (drop 6 (notebook l)))))"
      by (rule keeps_seq_take) (auto simp: notebook_def keeps_cells)
    from keepsD[OF this r] after_svd(1)[OF s6] b show ?thesis by simp
  next
    case c
    from p obtain s12 where s12: "py_seq (take 12 (notebook l)) (initial_state fs) = (Inr (), s12)"
      and r: "py_seq (take (k - 12) (drop 12 (notebook l))) s12 = (Inr (), t)"
      unfolding take_split[OF c, of "notebook l"] py_seq_append_ok by blast
    have "keeps h5fs (py_seq (take (k - 12) (drop 12 (notebook l))))"
      by (rule keeps_seq_take) (auto simp: notebook_def keeps_cells)
    from keepsD[OF this r] after_cluster(1)[OF s12] c show ?thesis by simp
  qed
qed

lemma initial_open_files [simp]: "open_files (initial_state fs) = []"
  by (simp add: initial_state_def)

lemma status_open:
  assumes p: "py_seq (take k (notebook l)) (initial_state fs) = (Inr (), t)"
  shows "open_files t = (if 3 \<le> k \<and> \<not> 15 \<le> k then [file_dialog l] else [])"
proof -
  have two: "open_files u = []"
    if "py_seq (take j (notebook l)) (initial_state fs) = (Inr (), u)" "j \<le> 2" for j u
  proof -
    from that(2) have "take j (notebook l) = take j (take 2 (notebook l))" by (simp add: min_def)
    moreover have "keeps open_files (py_seq (take j (take 2 (notebook l))))"
      by (rule keeps_seq_take) (auto simp: notebook_def keeps_cells)
    ultimately have "keeps open_files (py_seq (take j (notebook l)))" by simp
    from keepsD[OF this that(1)] show ?thesis by simp
  qed
  have mid: "open_files u = [file_dialog l]"
    if h: "py_seq (take j (notebook l)) (initial_state fs) = (Inr (), u)" "3 \<le> j" "j \<le> 14" for j u
  proof -
    from h(3) have e: "take (j - 3) (drop 3 (notebook l))
        = take (j - 3) (take 11 (drop 3 (notebook l)))" by (simp add: min_def)
    from h(1) obtain s3 where s3: "py_seq (take 3 (notebook l)) (initial_state fs) = (Inr (), s3)"
      and r: "py_seq (take (j - 3) (take 11 (drop 3 (notebook l)))) s3 = (Inr (), u)"
      unfolding take_split[OF h(2), of "notebook l"] py_seq_append_ok e by blast
    have split: "take 3 (notebook l) = take 2 (notebook l) @ [cell_open l]"
      by (simp add: notebook_def)
    from s3 obtain s2 where s2: "py_seq (take 2 (notebook l)) (initial_state fs) = (Inr (), s2)"
      and o: "cell_open l s2 = (Inr (), s3)"
      unfolding split py_seq_snoc_ok by blast
    from cell_open_ok[OF o] two[OF s2] have "open_files s3 = [file_dialog l]" by simp
    moreover have "keeps open_files (py_seq (take (j - 3) (take 11 (drop 3 (notebook l)))))"
      by (rule keeps_seq_take) (auto simp: notebook_def keeps_cells)
    from keepsD[OF this r] have "open_files u = open_files s3" .
    ultimately show ?thesis by simp
  qed
  consider (a) "k \<le> 2" | (b) "3 \<le> k" "k \<le> 14" | (c) "15 \<le> k" by linarith
  then show ?thesis
  proof cases
    case a
    with two[OF p] show ?thesis by simp
  next
    case b
    with mid[OF p] show ?thesis by simp
  next
    case c
    then have c14: "(14::nat) \<le> k" by simp
    from p obtain s14 where s14: "py_seq (take 14 (notebook l)) (initial_state fs) = (Inr (), s14)"
      and r: "py_seq (take (k - 14) (drop 14 (notebook l))) s14 = (Inr (), t)"
      unfolding take_split[OF c14, of "notebook l"] py_seq_append_ok by blast
    from c have "k - 14 = Suc (k - 15)" by simp
    then have split: "take (k - 14) (drop 14 (notebook l))
        = [cell_close l] @ take (k - 15) [cell_empty]"
      by (simp add: notebook_def)
    from r obtain s15 where cl: "cell_close l s14 = (Inr (), s15)"
      and r': "py_seq (take (k - 15) [cell_empty]) s15 = (Inr (), t)"
      unfolding split py_seq_append_ok py_seq_single by blast
    have "keeps open_files (py_seq (take (k - 15) [cell_empty]))"
      by (rule keeps_seq_take) (auto simp: keeps_cells)
    from keepsD[OF this r'] cell_close_any(2)[OF cl before_close[OF s14]] mid[OF s14] c
    show ?thesis by simp
  qed
qed

lemma concat_take_mono: "i \<le> k \<Longrightarrow> set (concat (take i xs)) \<subseteq> set (concat (take k xs))"
  by (auto simp: take_split[of i k xs])

lemma marks:
  "''h5py.File'' \<in> set (concat (take k cell_calls)) \<longleftrightarrow> 3 \<le> k"
  "''px.processing.SVD.compute'' \<in> set (concat (take k cell_calls)) \<longleftrightarrow> 6 \<le> k"
  "''px.processing.Cluster.compute'' \<in> set (concat (take k cell_calls)) \<longleftrightarrow> 12 \<le> k"
  "''h5py.File.close'' \<in> set (concat (take k cell_calls)) \<longleftrightarrow> 15 \<le> k"
proof -
  have m: "x \<in> set (concat (take k cell_calls)) \<longleftrightarrow> Suc j \<le> k"
    if "x \<in> set (concat (take (Suc j) cell_calls))" "x \<notin> set (concat (take j cell_calls))"
    for x j
  proof
    assume "Suc j \<le> k"
    from concat_take_mono[OF this, of cell_calls] that(1) show "x \<in> set (concat (take k cell_calls))" by blast
  next
    assume a: "x \<in> set (concat (take k cell_calls))"
    show "Suc j \<le> k"
    proof (rule ccontr)
      assume "\<not> Suc j \<le> k"
      then have "k \<le> j" by simp
      from concat_take_mono[OF this, of cell_calls] a that(2) show False by blast
    qed
  qed
  show "''h5py.File'' \<in> set (concat (take k cell_calls)) \<longleftrightarrow> 3 \<le> k"
    using m[of "''h5py.File''" 2] by (simp add: cell_calls_def)
  show "''px.processing.SVD.compute'' \<in> set (concat (take k cell_calls)) \<longleftrightarrow> 6 \<le> k"
    using m[of "''px.processing.SVD.compute''" 5] by (simp add: cell_calls_def)
  show "''px.processing.Cluster.compute'' \<in> set (concat (take k cell_calls)) \<longleftrightarrow> 12 \<le> k"
    using m[of "''px.processing.Cluster.compute''" 11] by (simp add: cell_calls_def)
  show "''h5py.File.close'' \<in> set (concat (take k cell_calls)) \<longleftrightarrow> 15 \<le> k"
    using m[of "''h5py.File.close''" 14] by (simp add: cell_calls_def)
qed

lemma names_at:
  assumes "py_seq (take k (notebook l)) (initial_state fs) = (Inr (), t)"
  shows "map ev_name (log t) = concat (take k cell_calls)"
  using emitsD[OF emits_take assms] by auto

lemma status_at:
  assumes p: "py_seq (take k (notebook l)) (initial_state fs) = (Inr (), t)"
  shows "h5fs t = file_before l fs (map ev_name (log t))"
    and "open_files t = open_before l (map ev_name (log t))"
  unfolding names_at[OF p] file_before_def open_before_def marks
  using status_file[OF p] status_open[OF p] by simp_all

lemma before_unmarked:
  assumes "''px.processing.SVD.compute'' \<notin> set x" "''px.processing.Cluster.compute'' \<notin> set x"
    "''h5py.File'' \<notin> set x" "''h5py.File.close'' \<notin> set x"
  shows "file_before l fs (B @ x) = file_before l fs B"
    and "open_before l (B @ x) = open_before l B"
  using assms by (simp_all add: file_before_def open_before_def)

lemma stable_cell:
  assumes u: "uncaught l m" and e: "emits ns m"
    and n: "''px.processing.SVD.compute'' \<notin> set ns" "''px.processing.Cluster.compute'' \<notin> set ns"
      "''h5py.File'' \<notin> set ns" "''h5py.File.close'' \<notin> set ns"
    and run: "m t = (q, t')"
    and hf: "h5fs t = file_before l fs B" and ho: "open_files t = open_before l B"
  shows "\<exists>evs. log t' = log t @ evs \<and>
           stops l (\<lambda>x. file_before l fs (B @ x)) (\<lambda>x. open_before l (B @ x)) evs q"
proof -
  from uncaughtD(3)[OF u run] obtain evs where l: "log t' = log t @ evs"
    and s: "stops l (\<lambda>_. h5fs t) (\<lambda>_. open_files t) evs q" by blast
  from emitsD[OF e run] l have p: "prefix (map ev_name evs) ns" by auto
  have "stops l (\<lambda>x. file_before l fs (B @ x)) (\<lambda>x. open_before l (B @ x)) evs q"
    unfolding stops_def
  proof (intro allI impI)
    fix pre c post err
    assume h: "evs = pre @ c # post \<and>
      call_error l (file_before l fs (B @ map ev_name pre))
        (open_before l (B @ map ev_name pre)) c = Some err"
    from h p have "set (map ev_name pre) \<subseteq> set ns"
      using set_mono_prefix[OF p] by auto
    with n have "''px.processing.SVD.compute'' \<notin> set (map ev_name pre)"
      "''px.processing.Cluster.compute'' \<notin> set (map ev_name pre)"
      "''h5py.File'' \<notin> set (map ev_name pre)" "''h5py.File.close'' \<notin> set (map ev_name pre)"
      by blast+
    from before_unmarked(1)[where l=l and fs=fs and B=B, OF this]
      before_unmarked(2)[where l=l and B=B, OF this] h hf ho
    have "call_error l (h5fs t) (open_files t) c = Some err" by simp
    with s h show "post = [] \<and> q = Inl err" unfolding stops_def by blast
  qed
  with l show ?thesis by blast
qed

lemma seq_stops:
  assumes step: "\<And>i t q t'. i < length ms \<Longrightarrow> py_seq (take i ms) s = (Inr (), t) \<Longrightarrow>
             (ms ! i) t = (q, t') \<Longrightarrow>
             \<exists>evs. log t' = log t @ evs \<and>
               stops l (\<lambda>ns. F (map ev_name (log t) @ ns)) (\<lambda>ns. H (map ev_name (log t) @ ns)) evs q"
    and run: "py_seq ms s = (r, s')"
  shows "\<exists>evs. log s' = log s @ evs \<and>
           stops l (\<lambda>ns. F (map ev_name (log s) @ ns)) (\<lambda>ns. H (map ev_name (log s) @ ns)) evs r"
  using assms
proof (induction ms arbitrary: s)
  case Nil
  then show ?case by (simp add: py_return_def stops_Nil)
next
  case (Cons m ms)
  obtain q s1 where ms: "m s = (q, s1)" by (cases "m s")
  from Cons.prems(1)[of 0 s q s1] ms obtain evs1 where e1: "log s1 = log s @ evs1"
    and t1: "stops l (\<lambda>ns. F (map ev_name (log s) @ ns)) (\<lambda>ns. H (map ev_name (log s) @ ns)) evs1 q"
    by (auto simp: py_return_def)
  show ?case
  proof (cases q)
    case (Inl e)
    with ms Cons.prems(2) have "r = Inl e" "s' = s1" by (simp_all add: py_bind_def)
    with e1 t1 Inl show ?thesis by auto
  next
    case (Inr u)
    with ms Cons.prems(2) have rest: "py_seq ms s1 = (r, s')" by (simp add: py_bind_def)
    have "\<exists>evs. log s' = log s1 @ evs \<and>
            stops l (\<lambda>ns. F (map ev_name (log s1) @ ns))
              (\<lambda>ns. H (map ev_name (log s1) @ ns)) evs r"
    proof (rule Cons.IH[OF _ rest])
      fix i t q' t'
      assume a: "i < length ms" "py_seq (take i ms) s1 = (Inr (), t)" "(ms ! i) t = (q', t')"
      show "\<exists>evs. log t' = log t @ evs \<and>
               stops l (\<lambda>ns. F (map ev_name (log t) @ ns))
                 (\<lambda>ns. H (map ev_name (log t) @ ns)) evs q'"
      proof (rule Cons.prems(1)[of "Suc i"])
        from a(1) show "Suc i < length (m # ms)" by simp
        from a(2) ms Inr show "py_seq (take (Suc i) (m # ms)) s = (Inr (), t)"
          by (simp add: py_bind_def)
        from a(3) show "((m # ms) ! Suc i) t = (q', t')" by simp
      qed
    qed
    then obtain evs2 where e2: "log s' = log s1 @ evs2"
      and t2: "stops l (\<lambda>ns. F (map ev_name (log s1) @ ns))
                 (\<lambda>ns. H (map ev_name (log s1) @ ns)) evs2 r" by blast
    from t1 Inr have "stops l (\<lambda>ns. F (map ev_name (log s) @ ns))
        (\<lambda>ns. H (map ev_name (log s) @ ns)) evs1 (Inr u)" by simp
    moreover from t2 have "stops l (\<lambda>ns. F (map ev_name (log s) @ map ev_name evs1 @ ns))
        (\<lambda>ns. H (map ev_name (log s) @ map ev_name evs1 @ ns)) evs2 r"
      by (simp add: e1)
    ultimately have "stops l (\<lambda>ns. F (map ev_name (log s) @ ns))
        (\<lambda>ns. H (map ev_name (log s) @ ns)) (evs1 @ evs2) r"
      by (rule stops_append)
    with e1 e2 show ?thesis by auto
  qed
qed

lemma cell_index_cases:
  assumes "(idx::nat) < 16"
  obtains (c0) "idx = 0" | (c1) "idx = 1" | (c2) "idx = 2" | (c3) "idx = 3" | (c4) "idx = 4" | (c5) "idx = 5" | (c6) "idx = 6" | (c7) "idx = 7" | (c8) "idx = 8" | (c9) "idx = 9" | (c10) "idx = 10" | (c11) "idx = 11" | (c12) "idx = 12" | (c13) "idx = 13" | (c14) "idx = 14" | (c15) "idx = 15"
  using assms by (auto simp: less_Suc_eq eval_nat_numeral)

lemma before_at:
  assumes p: "py_seq (take k (notebook l)) (initial_state fs) = (Inr (), t)"
  shows "file_before l fs (map ev_name (log t) @ x) =
           (if 12 \<le> k \<or> ''px.processing.Cluster.compute'' \<in> set x then fst (cluster_result l fs)
            else if 6 \<le> k \<or> ''px.processing.SVD.compute'' \<in> set x then fst (svd_result l fs)
            else fs)"
    and "open_before l (map ev_name (log t) @ x) =
           (if (3 \<le> k \<or> ''h5py.File'' \<in> set x) \<and> \<not> (15 \<le> k \<or> ''h5py.File.close'' \<in> set x)
            then [file_dialog l] else [])"
  unfolding names_at[OF p] file_before_def open_before_def
  by (simp_all only: set_append Un_iff marks)

lemma cell_stops:
  assumes i: "i < length (notebook l)"
    and p: "py_seq (take i (notebook l)) (initial_state fs) = (Inr (), t)"
    and c: "(notebook l ! i) t = (q, t')"
  shows "\<exists>evs. log t' = log t @ evs \<and>
           stops l (\<lambda>ns. file_before l fs (map ev_name (log t) @ ns))
             (\<lambda>ns. open_before l (map ev_name (log t) @ ns)) evs q"
proof -
  note st = status_at[OF p]
  note n = names_at[OF p]
  note sf = status_file[OF p]
  note so = status_open[OF p]
  note ba = before_at[OF p]
  from i have "i < 16" by (simp add: notebook_def)
  then show ?thesis
  proof (cases rule: cell_index_cases)
    case c0
    with c have c': "cell_install l t = (q, t')" by (simp add: notebook_def)
    show ?thesis
      by (rule stable_cell[OF uncaught_cell_install emits_cell_install _ _ _ _ c' st]) simp_all
    next
    case c1
    with c have c': "cell_imports l t = (q, t')" by (simp add: notebook_def)
    show ?thesis
      by (rule stable_cell[OF uncaught_cell_imports emits_cell_imports _ _ _ _ c' st]) simp_all
    next
    case c2
    with c have c': "cell_open l t = (q, t')" by (simp add: notebook_def)
    show ?thesis
      by (rule cell_open_stops[OF c']) (simp_all add: st(1)[symmetric] sf ba c2)
    next
    case c3
    with c have c': "cell_get_raw l t = (q, t')" by (simp add: notebook_def)
    show ?thesis
      by (rule stable_cell[OF uncaught_cell_get_raw emits_cell_get_raw _ _ _ _ c' st]) simp_all
    next
    case c4
    with c have c': "cell_visualize l t = (q, t')" by (simp add: notebook_def)
    show ?thesis
      by (rule stable_cell[OF uncaught_cell_visualize emits_cell_visualize _ _ _ _ c' st]) simp_all
    next
    case c5
    with c have c': "cell_svd l t = (q, t')" by (simp add: notebook_def)
    from p c5 have p5: "py_seq (take 5 (notebook l)) (initial_state fs) = (Inr (), t)" by simp
    from before_svd(5)[OF p5] have m: "h5_main t = Some (raw_ref l fs)" by simp
    from sf so c5 have e: "h5fs t = fs" "open_files t = [file_dialog l]" by simp_all
    show ?thesis
      by (rule cell_svd_stops[OF c' m])
         (auto simp: st(1)[symmetric] e ba c5 svd_result_def)
    next
    case c6
    with c have c': "cell_num_plot_comps t = (q, t')" by (simp add: notebook_def)
    show ?thesis
      by (rule stable_cell[OF uncaught_cell_num_plot_comps emits_cell_num_plot_comps _ _ _ _ c' st]) simp_all
    next
    case c7
    with c have c': "cell_plot_scree l t = (q, t')" by (simp add: notebook_def)
    show ?thesis
      by (rule stable_cell[OF uncaught_cell_plot_scree emits_cell_plot_scree _ _ _ _ c' st]) simp_all
    next
    case c8
    with c have c': "cell_abundance l t = (q, t')" by (simp add: notebook_def)
    show ?thesis
      by (rule stable_cell[OF uncaught_cell_abundance emits_cell_abundance _ _ _ _ c' st]) simp_all
    next
    case c9
    with c have c': "cell_endmembers l t = (q, t')" by (simp add: notebook_def)
    show ?thesis
      by (rule stable_cell[OF uncaught_cell_endmembers emits_cell_endmembers _ _ _ _ c' st]) simp_all
    next
    case c10
    with c have c': "cell_cluster_params t = (q, t')" by (simp add: notebook_def)
    show ?thesis
      by (rule stable_cell[OF uncaught_cell_cluster_params emits_cell_cluster_params _ _ _ _ c' st]) simp_all
    next
    case c11
    with c have c': "cell_cluster l t = (q, t')" by (simp add: notebook_def)
    from p c11 have p11: "py_seq (take 11 (notebook l)) (initial_state fs) = (Inr (), t)" by simp
    note o = before_cluster[OF p11]
    from o(4,5,6) have m: "h5_u t = Some (member (snd (svd_result l fs)) ''U'')"
      "num_clusters t = Some 32" "spectral_components t = Some 128" by simp_all
    from sf so c11 have e: "h5fs t = fst (svd_result l fs)" "open_files t = [file_dialog l]"
      by simp_all
    show ?thesis
      by (rule cell_cluster_stops[OF c' m])
         (auto simp: st(1)[symmetric] e ba c11 cluster_result_def)
    next
    case c12
    with c have c': "cell_labels l t = (q, t')" by (simp add: notebook_def)
    show ?thesis
      by (rule stable_cell[OF uncaught_cell_labels emits_cell_labels _ _ _ _ c' st]) simp_all
    next
    case c13
    with c have c': "cell_dendrogram l t = (q, t')" by (simp add: notebook_def)
    show ?thesis
      by (rule stable_cell[OF uncaught_cell_dendrogram emits_cell_dendrogram _ _ _ _ c' st]) simp_all
    next
    case c14
    with c have c': "cell_close l t = (q, t')" by (simp add: notebook_def)
    show ?thesis
      by (rule cell_close_stops[OF c']) (simp_all add: st(1)[symmetric] sf ba c14)
    next
    case c15
    with c have c': "cell_empty t = (q, t')" by (simp add: notebook_def)
    show ?thesis
      by (rule stable_cell[OF uncaught_cell_empty emits_cell_empty _ _ _ _ c' st]) simp_all
  qed
qed

lemma run_stops:
  assumes "run_all l (initial_state fs) = (r, s')"
  shows "stops l (file_before l fs) (open_before l) (log s') r"
proof -
  from assms have "py_seq (notebook l) (initial_state fs) = (r, s')" by (simp add: run_all_def)
  from seq_stops[where F = "file_before l fs" and H = "open_before l", OF cell_stops this]
  show ?thesis by simp
qed

section \<open>Computations between the calls\<close>

text \<open>
  What a cell needs of its data to get past each computation that can raise, and the same
  for a whole run, counted by the calls made.
\<close>

lemma cell_get_raw_needs:
  assumes "cell_get_raw l s = (q, s')" and "log s' = log s @ evs"
    and "q = Inr () \<or> 1 < length evs"
  shows "\<exists>f. h5_file s = Some f \<and> find_dataset l (h5fs s) f ''Raw_Data'' \<noteq> []"
  using assms
  by (auto simp: cell_get_raw_def py_defs Let_def py_last_def unpack2_def
           split: option.splits sum.splits if_splits list.splits)

lemma cell_get_raw_sizes:
  assumes "cell_get_raw l s = (Inr (), s')" and "h5_file s = Some f"
  shows "\<exists>rows cols sr sc.
           pos_dim_sizes l (h5fs s) (last (find_dataset l (h5fs s) f ''Raw_Data'')) = [rows, cols] \<and>
           spec_dim_sizes l (h5fs s) (last (find_dataset l (h5fs s) f ''Raw_Data'')) = [sr, sc] \<and>
           num_rows s' = Some rows \<and> num_cols s' = Some cols \<and>
           num_sensor_rows s' = Some sr \<and> num_sensor_cols s' = Some sc"
  using assms
  by (auto simp: cell_get_raw_def py_defs Let_def py_last_def unpack2_def
           split: option.splits sum.splits if_splits list.splits)

lemma cell_visualize_needs:
  assumes "cell_visualize l s = (q, s')" and "log s' = log s @ evs"
  shows "q = Inr () \<or> 1 < length evs \<Longrightarrow>
           \<exists>rows cols d a ronch sr sc x.
             num_rows s = Some rows \<and> num_cols s = Some cols \<and> h5_main s = Some d \<and>
             h5fs s d = Some (Dataset a) \<and>
             nd_getitem a (int (rows div 2 * rows + cols div 2)) = Inr ronch \<and>
             num_sensor_rows s = Some sr \<and> num_sensor_cols s = Some sc \<and>
             np_reshape ronch [int sr, int sc] = Inr x"
    and "q = Inr () \<or> 6 < length evs \<Longrightarrow>
           \<exists>rows cols d mean x.
             num_rows s = Some rows \<and> num_cols s = Some cols \<and> h5_main s = Some d \<and>
             h5fs s (member (parent d) ''Spectroscopic_Mean'') = Some (Dataset mean) \<and>
             np_reshape mean [int rows, int cols] = Inr x"
  using assms
  by (auto simp: cell_visualize_def py_defs Let_def member_def
           split: option.splits sum.splits if_splits node.splits prod.splits)

lemma cell_abundance_needs:
  assumes "cell_abundance l s = (q, s')" and "log s' = log s @ evs"
    and "q = Inr () \<or> 1 < length evs"
  shows "\<exists>u k a x rows cols y z.
           h5_u s = Some u \<and> num_plot_comps s = Some k \<and> h5fs s u = Some (Dataset a) \<and>
           nd_take_cols a k = Inr x \<and> num_rows s = Some rows \<and> num_cols s = Some cols \<and>
           np_reshape x [int rows, int cols, - 1] = Inr y \<and> nd_transpose_201 y = Inr z"
  using assms
  by (auto simp: cell_abundance_def py_defs Let_def
           split: option.splits sum.splits if_splits node.splits prod.splits)

lemma cell_endmembers_needs:
  assumes "cell_endmembers l s = (q, s')" and "log s' = log s @ evs"
    and "q = Inr () \<or> 1 < length evs"
  shows "\<exists>v k a x sr sc y.
           h5_v s = Some v \<and> num_plot_comps s = Some k \<and> h5fs s v = Some (Dataset a) \<and>
           nd_take_rows a k = Inr x \<and>
           num_sensor_rows s = Some sr \<and> num_sensor_cols s = Some sc \<and>
           np_reshape x [- 1, int sr, int sc] = Inr y"
  using assms
  by (auto simp: cell_endmembers_def py_defs Let_def
           split: option.splits sum.splits if_splits node.splits prod.splits)

lemma cell_labels_needs:
  assumes "cell_labels l s = (q, s')" and "log s' = log s @ evs"
    and "q = Inr () \<or> 1 < length evs"
  shows "\<exists>d rows cols a x.
           h5_labels s = Some d \<and> num_rows s = Some rows \<and> num_cols s = Some cols \<and>
           h5fs s d = Some (Dataset a) \<and> np_reshape a [int rows, int cols] = Inr x"
  using assms
  by (auto simp: cell_labels_def py_defs Let_def
           split: option.splits sum.splits if_splits node.splits prod.splits)

lemma cell_dendrogram_needs:
  assumes "cell_dendrogram l s = (q, s')" and "log s' = log s @ evs"
    and "q = Inr () \<or> 1 < length evs"
  shows "\<exists>u comps a x rows cols y.
           h5_u s = Some u \<and> spectral_components s = Some comps \<and> h5fs s u = Some (Dataset a) \<and>
           nd_take_cols a comps = Inr x \<and> num_rows s = Some rows \<and> num_cols s = Some cols \<and>
           np_reshape x [int rows, int cols, - 1] = Inr y"
  using assms
  by (auto simp: cell_dendrogram_def py_defs Let_def
           split: option.splits sum.splits if_splits node.splits prod.splits)

lemma keeps_sizes:
  "keeps num_sensor_rows (cell_visualize l)" "keeps num_sensor_cols (cell_visualize l)"
  "keeps num_sensor_rows (cell_svd l)" "keeps num_sensor_cols (cell_svd l)"
  "keeps num_sensor_rows cell_num_plot_comps" "keeps num_sensor_cols cell_num_plot_comps"
  "keeps num_sensor_rows (cell_plot_scree l)" "keeps num_sensor_cols (cell_plot_scree l)"
  "keeps num_sensor_rows (cell_abundance l)" "keeps num_sensor_cols (cell_abundance l)"
  "keeps h5_v cell_num_plot_comps" "keeps h5_v (cell_plot_scree l)" "keeps h5_v (cell_abundance l)"
  "keeps num_plot_comps (cell_plot_scree l)" "keeps num_plot_comps (cell_abundance l)"
  unfolding cell_visualize_def cell_svd_def cell_num_plot_comps_def cell_plot_scree_def
    cell_abundance_def Let_def dataset_getitem_def new_figure_def compute_svd_def
    compute_cluster_def py_import_def shell_def
  by ((rule keeps_intros | simp)+)+

lemma sizes_at:
  assumes p: "py_seq (take k (notebook l)) (initial_state fs) = (Inr (), t)" and k: "4 \<le> k"
  shows "\<exists>rows cols sr sc.
           pos_dim_sizes l fs (raw_ref l fs) = [rows, cols] \<and>
           spec_dim_sizes l fs (raw_ref l fs) = [sr, sc] \<and>
           num_rows t = Some rows \<and> num_cols t = Some cols \<and>
           (k \<le> 9 \<longrightarrow> num_sensor_rows t = Some sr \<and> num_sensor_cols t = Some sc)"
proof -
  from p obtain s4 where s4: "py_seq (take 4 (notebook l)) (initial_state fs) = (Inr (), s4)"
    and r: "py_seq (take (k - 4) (drop 4 (notebook l))) s4 = (Inr (), t)"
    unfolding take_split[OF k, of "notebook l"] py_seq_append_ok by blast
  have split: "take 4 (notebook l) = take 3 (notebook l) @ [cell_get_raw l]"
    by (simp add: notebook_def)
  from s4 obtain s3 where s3: "py_seq (take 3 (notebook l)) (initial_state fs) = (Inr (), s3)"
    and g: "cell_get_raw l s3 = (Inr (), s4)"
    unfolding split py_seq_snoc_ok by blast
  from after_open(1,2)[OF s3] have o: "h5fs s3 = fs" "h5_file s3 = Some (file_dialog l)"
    by simp_all
  from cell_get_raw_sizes[OF g o(2)] o(1) obtain rows cols sr sc where
    z: "pos_dim_sizes l fs (raw_ref l fs) = [rows, cols]"
       "spec_dim_sizes l fs (raw_ref l fs) = [sr, sc]"
       "num_rows s4 = Some rows" "num_cols s4 = Some cols"
       "num_sensor_rows s4 = Some sr" "num_sensor_cols s4 = Some sc"
    unfolding raw_ref_def by auto
  have kr: "keeps num_rows (py_seq (take (k - 4) (drop 4 (notebook l))))"
    and kc: "keeps num_cols (py_seq (take (k - 4) (drop 4 (notebook l))))"
    by (rule keeps_seq_take, auto simp: notebook_def keeps_cells)+
  have "num_sensor_rows t = Some sr \<and> num_sensor_cols t = Some sc" if "k \<le> 9"
  proof -
    from that have e: "take (k - 4) (drop 4 (notebook l))
        = take (k - 4) (take 5 (drop 4 (notebook l)))" by (simp add: min_def)
    have "keeps num_sensor_rows (py_seq (take (k - 4) (take 5 (drop 4 (notebook l)))))"
      and "keeps num_sensor_cols (py_seq (take (k - 4) (take 5 (drop 4 (notebook l)))))"
      by (rule keeps_seq_take, auto simp: notebook_def keeps_sizes)+
    from keepsD[OF this(1) r[unfolded e]] keepsD[OF this(2) r[unfolded e]] z(5,6)
    show ?thesis by simp
  qed
  with keepsD[OF kr r] keepsD[OF kc r] z show ?thesis by auto
qed

lemma svd_members_at:
  assumes p: "py_seq (take k (notebook l)) (initial_state fs) = (Inr (), t)" and k: "6 \<le> k"
  shows "h5_u t = Some (member (snd (svd_result l fs)) ''U'')"
    and "k \<le> 9 \<Longrightarrow> h5_v t = Some (member (snd (svd_result l fs)) ''V'')"
    and "7 \<le> k \<Longrightarrow> k \<le> 9 \<Longrightarrow> num_plot_comps t = Some 16"
proof -
  from p obtain s6 where s6: "py_seq (take 6 (notebook l)) (initial_state fs) = (Inr (), s6)"
    and r: "py_seq (take (k - 6) (drop 6 (notebook l))) s6 = (Inr (), t)"
    unfolding take_split[OF k, of "notebook l"] py_seq_append_ok by blast
  have "keeps h5_u (py_seq (take (k - 6) (drop 6 (notebook l))))"
    by (rule keeps_seq_take) (auto simp: notebook_def keeps_cells)
  from keepsD[OF this r] after_svd(5)[OF s6]
  show "h5_u t = Some (member (snd (svd_result l fs)) ''U'')" by simp
  show "h5_v t = Some (member (snd (svd_result l fs)) ''V'')" if "k \<le> 9"
  proof -
    from that have e: "take (k - 6) (drop 6 (notebook l))
        = take (k - 6) (take 3 (drop 6 (notebook l)))" by (simp add: min_def)
    have "keeps h5_v (py_seq (take (k - 6) (take 3 (drop 6 (notebook l)))))"
      by (rule keeps_seq_take) (auto simp: notebook_def keeps_sizes)
    from keepsD[OF this r[unfolded e]] after_svd(6)[OF s6] show ?thesis by simp
  qed
  show "num_plot_comps t = Some 16" if a: "7 \<le> k" and b: "k \<le> 9"
  proof -
    from p obtain s7 where s7: "py_seq (take 7 (notebook l)) (initial_state fs) = (Inr (), s7)"
      and r7: "py_seq (take (k - 7) (drop 7 (notebook l))) s7 = (Inr (), t)"
      unfolding take_split[OF a, of "notebook l"] py_seq_append_ok by blast
    have split: "take 7 (notebook l) = take 6 (notebook l) @ [cell_num_plot_comps]"
      by (simp add: notebook_def)
    from s7 obtain u where "cell_num_plot_comps u = (Inr (), s7)"
      unfolding split py_seq_snoc_ok by blast
    then have n: "num_plot_comps s7 = Some 16"
      by (auto simp: cell_num_plot_comps_def modify_def)
    from b have e: "take (k - 7) (drop 7 (notebook l))
        = take (k - 7) (take 2 (drop 7 (notebook l)))" by (simp add: min_def)
    have "keeps num_plot_comps (py_seq (take (k - 7) (take 2 (drop 7 (notebook l)))))"
      by (rule keeps_seq_take) (auto simp: notebook_def keeps_sizes)
    from keepsD[OF this r7[unfolded e]] n show ?thesis by simp
  qed
qed

lemma cluster_params_at:
  assumes p: "py_seq (take k (notebook l)) (initial_state fs) = (Inr (), t)" and k: "11 \<le> k"
  shows "spectral_components t = Some 128"
proof -
  from p obtain s11 where s11: "py_seq (take 11 (notebook l)) (initial_state fs) = (Inr (), s11)"
    and r: "py_seq (take (k - 11) (drop 11 (notebook l))) s11 = (Inr (), t)"
    unfolding take_split[OF k, of "notebook l"] py_seq_append_ok by blast
  have "keeps spectral_components (py_seq (take (k - 11) (drop 11 (notebook l))))"
    by (rule keeps_seq_take) (auto simp: notebook_def keeps_cells)
  from keepsD[OF this r] before_cluster(6)[OF s11] show ?thesis by simp
qed

lemma run_passes:
  assumes run: "run_all l (initial_state fs) = (r, s')"
    and len: "length (concat (take k cell_calls)) < length (log s')"
  shows "\<exists>t. py_seq (take k (notebook l)) (initial_state fs) = (Inr (), t)"
proof -
  have "run_all l = py_bind (py_seq (take k (notebook l))) (\<lambda>_. py_seq (drop k (notebook l)))"
    unfolding run_all_def by (metis append_take_drop_id py_seq_append)
  with run have "py_bind (py_seq (take k (notebook l))) (\<lambda>_. py_seq (drop k (notebook l)))
      (initial_state fs) = (r, s')" by simp
  then show ?thesis
  proof (cases rule: py_bind_cases)
    case (fail e)
    from emitsD[OF emits_take fail(1)]
    have "prefix (map ev_name (log s')) (concat (take k cell_calls))" by auto
    from prefix_length_le[OF this] len show ?thesis by simp
  next
    case (ok x t)
    then show ?thesis by auto
  qed
qed

lemma run_reaches:
  assumes run: "run_all l (initial_state fs) = (r, s')" and k: "k < length (notebook l)"
    and len: "length (concat (take k cell_calls)) + j < length (log s')"
  shows "\<exists>t q t' evs. py_seq (take k (notebook l)) (initial_state fs) = (Inr (), t) \<and>
           (notebook l ! k) t = (q, t') \<and> log t' = log t @ evs \<and>
           (q = Inr () \<or> j < length evs)"
proof -
  from len have "length (concat (take k cell_calls)) < length (log s')" by simp
  from run_passes[OF run this] obtain t where
    p: "py_seq (take k (notebook l)) (initial_state fs) = (Inr (), t)" by blast
  from names_at[OF p] have n: "length (log t) = length (concat (take k cell_calls))"
    by (metis length_map)
  obtain q t' where c: "(notebook l ! k) t = (q, t')" by (cases "(notebook l ! k) t")
  from k have "length cell_calls = length (notebook l)"
    using list_all2_lengthD[OF emits_notebook[of l]] by simp
  with k emits_notebook[of l] have "emits (cell_calls ! k) (notebook l ! k)"
    by (simp add: list_all2_conv_all_nth)
  from emitsD[OF this c] obtain evs where e: "log t' = log t @ evs" by blast
  have "q = Inr () \<or> j < length evs"
  proof (cases q)
    case (Inl e')
    with py_seq_fail_at[OF k p] c have "py_seq (notebook l) (initial_state fs) = (Inl e', t')"
      by simp
    with run have "s' = t'" by (simp add: run_all_def)
    with e n len show ?thesis by simp
  next
    case (Inr u)
    then show ?thesis by simp
  qed
  with p c e show ?thesis by blast
qed

lemma calls_before:
  "length (concat (take 3 cell_calls)) = 20" "length (concat (take 4 cell_calls)) = 22"
  "length (concat (take 8 cell_calls)) = 42" "length (concat (take 9 cell_calls)) = 45"
  "length (concat (take 12 cell_calls)) = 54" "length (concat (take 13 cell_calls)) = 56"
  by (simp_all add: cell_calls_def)

lemma notebook_nth:
  "notebook l ! 3 = cell_get_raw l" "notebook l ! 4 = cell_visualize l"
  "notebook l ! 8 = cell_abundance l" "notebook l ! 9 = cell_endmembers l"
  "notebook l ! 12 = cell_labels l" "notebook l ! 13 = cell_dendrogram l"
  "length (notebook l) = 16"
  by (simp_all add: notebook_def)

lemma run_needs_raw:
  assumes run: "run_all l (initial_state fs) = (r, s')" and len: "21 < length (log s')"
  shows "find_dataset l fs (file_dialog l) ''Raw_Data'' \<noteq> []"
proof -
  from len have len': "length (concat (take 3 cell_calls)) + 1 < length (log s')"
    by (simp add: calls_before)
  have k: "3 < length (notebook l)" by (simp add: notebook_nth)
  from run_reaches[OF run k len'] obtain t q t' evs where
    p: "py_seq (take 3 (notebook l)) (initial_state fs) = (Inr (), t)"
    and c: "cell_get_raw l t = (q, t')" and e: "log t' = log t @ evs"
    and j: "q = Inr () \<or> 1 < length evs"
    unfolding notebook_nth by blast
  from cell_get_raw_needs[OF c e j] after_open(1,2)[OF p] show ?thesis by auto
qed

lemma run_needs_sizes:
  assumes run: "run_all l (initial_state fs) = (r, s')" and len: "22 < length (log s')"
  shows "\<exists>rows cols sr sc. pos_dim_sizes l fs (raw_ref l fs) = [rows, cols] \<and>
           spec_dim_sizes l fs (raw_ref l fs) = [sr, sc]"
proof -
  from len have "length (concat (take 4 cell_calls)) < length (log s')"
    by (simp add: calls_before)
  from run_passes[OF run this] obtain t where
    p: "py_seq (take 4 (notebook l)) (initial_state fs) = (Inr (), t)" by blast
  from sizes_at[OF p] show ?thesis by auto
qed

lemma run_needs_ronchigram:
  assumes run: "run_all l (initial_state fs) = (r, s')" and len: "23 < length (log s')"
  shows "\<exists>rows cols sr sc a ronch x.
           pos_dim_sizes l fs (raw_ref l fs) = [rows, cols] \<and>
           spec_dim_sizes l fs (raw_ref l fs) = [sr, sc] \<and>
           fs (raw_ref l fs) = Some (Dataset a) \<and>
           nd_getitem a (int (rows div 2 * rows + cols div 2)) = Inr ronch \<and>
           np_reshape ronch [int sr, int sc] = Inr x"
proof -
  from len have len': "length (concat (take 4 cell_calls)) + 1 < length (log s')"
    by (simp add: calls_before)
  have k: "4 < length (notebook l)" by (simp add: notebook_nth)
  from run_reaches[OF run k len'] obtain t q t' evs where
    p: "py_seq (take 4 (notebook l)) (initial_state fs) = (Inr (), t)"
    and c: "cell_visualize l t = (q, t')" and e: "log t' = log t @ evs"
    and j: "q = Inr () \<or> 1 < length evs"
    unfolding notebook_nth by blast
  from after_get_raw(1,5)[OF p] have o: "h5fs t = fs" "h5_main t = Some (raw_ref l fs)"
    by simp_all
  from sizes_at[OF p] obtain rows cols sr sc where
    z: "pos_dim_sizes l fs (raw_ref l fs) = [rows, cols]"
       "spec_dim_sizes l fs (raw_ref l fs) = [sr, sc]"
       "num_rows t = Some rows" "num_cols t = Some cols"
       "num_sensor_rows t = Some sr" "num_sensor_cols t = Some sc" by auto
  from cell_visualize_needs(1)[OF c e j] o z show ?thesis by auto
qed

lemma run_needs_mean:
  assumes run: "run_all l (initial_state fs) = (r, s')" and len: "28 < length (log s')"
  shows "\<exists>rows cols mean x.
           pos_dim_sizes l fs (raw_ref l fs) = [rows, cols] \<and>
           fs (member (parent (raw_ref l fs)) ''Spectroscopic_Mean'') = Some (Dataset mean) \<and>
           np_reshape mean [int rows, int cols] = Inr x"
proof -
  from len have len': "length (concat (take 4 cell_calls)) + 6 < length (log s')"
    by (simp add: calls_before)
  have k: "4 < length (notebook l)" by (simp add: notebook_nth)
  from run_reaches[OF run k len'] obtain t q t' evs where
    p: "py_seq (take 4 (notebook l)) (initial_state fs) = (Inr (), t)"
    and c: "cell_visualize l t = (q, t')" and e: "log t' = log t @ evs"
    and j: "q = Inr () \<or> 6 < length evs"
    unfolding notebook_nth by blast
  from after_get_raw(1,5)[OF p] have o: "h5fs t = fs" "h5_main t = Some (raw_ref l fs)"
    by simp_all
  from sizes_at[OF p] obtain rows cols where
    z: "pos_dim_sizes l fs (raw_ref l fs) = [rows, cols]"
       "num_rows t = Some rows" "num_cols t = Some cols" by auto
  from cell_visualize_needs(2)[OF c e j] o z show ?thesis by auto
qed

lemma run_needs_abundance:
  assumes run: "run_all l (initial_state fs) = (r, s')" and len: "43 < length (log s')"
  shows "\<exists>rows cols a x y z.
           pos_dim_sizes l fs (raw_ref l fs) = [rows, cols] \<and>
           fst (svd_result l fs) (member (snd (svd_result l fs)) ''U'') = Some (Dataset a) \<and>
           nd_take_cols a 16 = Inr x \<and>
           np_reshape x [int rows, int cols, - 1] = Inr y \<and> nd_transpose_201 y = Inr z"
proof -
  from len have len': "length (concat (take 8 cell_calls)) + 1 < length (log s')"
    by (simp add: calls_before)
  have k: "8 < length (notebook l)" by (simp add: notebook_nth)
  from run_reaches[OF run k len'] obtain t q t' evs where
    p: "py_seq (take 8 (notebook l)) (initial_state fs) = (Inr (), t)"
    and c: "cell_abundance l t = (q, t')" and e: "log t' = log t @ evs"
    and j: "q = Inr () \<or> 1 < length evs"
    unfolding notebook_nth by blast
  from status_file[OF p] have o: "h5fs t = fst (svd_result l fs)" by simp
  note m = svd_members_at[OF p]
  from m have u: "h5_u t = Some (member (snd (svd_result l fs)) ''U'')"
    "num_plot_comps t = Some 16" by simp_all
  from sizes_at[OF p] obtain rows cols where
    z: "pos_dim_sizes l fs (raw_ref l fs) = [rows, cols]"
       "num_rows t = Some rows" "num_cols t = Some cols" by auto
  from cell_abundance_needs[OF c e j] o u z show ?thesis by auto
qed

lemma run_needs_endmembers:
  assumes run: "run_all l (initial_state fs) = (r, s')" and len: "46 < length (log s')"
  shows "\<exists>sr sc a x y.
           spec_dim_sizes l fs (raw_ref l fs) = [sr, sc] \<and>
           fst (svd_result l fs) (member (snd (svd_result l fs)) ''V'') = Some (Dataset a) \<and>
           nd_take_rows a 16 = Inr x \<and> np_reshape x [- 1, int sr, int sc] = Inr y"
proof -
  from len have len': "length (concat (take 9 cell_calls)) + 1 < length (log s')"
    by (simp add: calls_before)
  have k: "9 < length (notebook l)" by (simp add: notebook_nth)
  from run_reaches[OF run k len'] obtain t q t' evs where
    p: "py_seq (take 9 (notebook l)) (initial_state fs) = (Inr (), t)"
    and c: "cell_endmembers l t = (q, t')" and e: "log t' = log t @ evs"
    and j: "q = Inr () \<or> 1 < length evs"
    unfolding notebook_nth by blast
  from status_file[OF p] have o: "h5fs t = fst (svd_result l fs)" by simp
  note m = svd_members_at[OF p]
  from m have u: "h5_v t = Some (member (snd (svd_result l fs)) ''V'')"
    "num_plot_comps t = Some 16" by simp_all
  from sizes_at[OF p] obtain sr sc where
    z: "spec_dim_sizes l fs (raw_ref l fs) = [sr, sc]"
       "num_sensor_rows t = Some sr" "num_sensor_cols t = Some sc" by auto
  from cell_endmembers_needs[OF c e j] o u z show ?thesis by auto
qed

lemma run_needs_centroids:
  assumes run: "run_all l (initial_state fs) = (r, s')" and len: "54 < length (log s')"
  shows "\<exists>c n. fst (cluster_result l fs) (member (snd (cluster_result l fs)) ''Mean_Response'')
                  = Some (Dataset c) \<and> shape1 c = Inr n"
proof -
  from len have "length (concat (take 12 cell_calls)) < length (log s')"
    by (simp add: calls_before)
  from run_passes[OF run this] obtain t where
    p: "py_seq (take 12 (notebook l)) (initial_state fs) = (Inr (), t)" by blast
  from after_cluster(1,6)[OF p] show ?thesis by auto
qed

lemma run_needs_labels:
  assumes run: "run_all l (initial_state fs) = (r, s')" and len: "55 < length (log s')"
  shows "\<exists>rows cols a x.
           pos_dim_sizes l fs (raw_ref l fs) = [rows, cols] \<and>
           fst (cluster_result l fs) (member (snd (cluster_result l fs)) ''Labels'')
             = Some (Dataset a) \<and>
           np_reshape a [int rows, int cols] = Inr x"
proof -
  from len have len': "length (concat (take 12 cell_calls)) + 1 < length (log s')"
    by (simp add: calls_before)
  have k: "12 < length (notebook l)" by (simp add: notebook_nth)
  from run_reaches[OF run k len'] obtain t q t' evs where
    p: "py_seq (take 12 (notebook l)) (initial_state fs) = (Inr (), t)"
    and c: "cell_labels l t = (q, t')" and e: "log t' = log t @ evs"
    and j: "q = Inr () \<or> 1 < length evs"
    unfolding notebook_nth by blast
  from after_cluster(1,4)[OF p] have o: "h5fs t = fst (cluster_result l fs)"
    "h5_labels t = Some (member (snd (cluster_result l fs)) ''Labels'')" by simp_all
  from sizes_at[OF p] obtain rows cols where
    z: "pos_dim_sizes l fs (raw_ref l fs) = [rows, cols]"
       "num_rows t = Some rows" "num_cols t = Some cols" by auto
  from cell_labels_needs[OF c e j] o z show ?thesis by auto
qed

lemma run_needs_dendrogram:
  assumes run: "run_all l (initial_state fs) = (r, s')" and len: "57 < length (log s')"
  shows "\<exists>rows cols a x y.
           pos_dim_sizes l fs (raw_ref l fs) = [rows, cols] \<and>
           fst (cluster_result l fs) (member (snd (svd_result l fs)) ''U'') = Some (Dataset a) \<and>
           nd_take_cols a 128 = Inr x \<and> np_reshape x [int rows, int cols, - 1] = Inr y"
proof -
  from len have len': "length (concat (take 13 cell_calls)) + 1 < length (log s')"
    by (simp add: calls_before)
  have k: "13 < length (notebook l)" by (simp add: notebook_nth)
  from run_reaches[OF run k len'] obtain t q t' evs where
    p: "py_seq (take 13 (notebook l)) (initial_state fs) = (Inr (), t)"
    and c: "cell_dendrogram l t = (q, t')" and e: "log t' = log t @ evs"
    and j: "q = Inr () \<or> 1 < length evs"
    unfolding notebook_nth by blast
  from status_file[OF p] have o: "h5fs t = fst (cluster_result l fs)" by simp
  from svd_members_at(1)[OF p] cluster_params_at[OF p]
  have u: "h5_u t = Some (member (snd (svd_result l fs)) ''U'')"
    "spectral_components t = Some 128" by simp_all
  from sizes_at[OF p] obtain rows cols where
    z: "pos_dim_sizes l fs (raw_ref l fs) = [rows, cols]"
       "num_rows t = Some rows" "num_cols t = Some cols" by auto
  from cell_dendrogram_needs[OF c e j] o u z show ?thesis by auto
qed

lemma demo_svd_fails_last:
  "log (snd (run_all demo_lib_svd_fails (initial_state demo_fs))) \<noteq> [] \<and>
   last (log (snd (run_all demo_lib_svd_fails (initial_state demo_fs))))
     = Call ''px.processing.SVD.compute'' [ARef demo_raw, AInt 256]"
  by (simp add: run_all_def notebook_def cell_defs py_defs np_defs demo_defs Let_def
        demo_lib_svd_fails_def)

lemma script_calls_after:
  "script_calls ! 21 = ''usid.USIDataset''" "script_calls ! 22 = ''h5py.Dataset.read''"
  "script_calls ! 23 = ''plt.subplots''"
  "script_calls ! 28 = ''px.plot_utils.cmap_jet_white_center''"
  "script_calls ! 43 = ''px.plot_utils.cmap_jet_white_center''"
  "script_calls ! 46 = ''px.plot_utils.cmap_jet_white_center''"
  "script_calls ! 54 = ''h5py.Dataset.read''"
  "script_calls ! 55 = ''px.viz.cluster_utils.plot_cluster_labels''"
  "script_calls ! 57 = ''px.viz.cluster_utils.plot_cluster_dendrogram''"
  by (simp_all add: script_calls_def cell_calls_def)

text \<open>
  C5. No statement of the notebook handles an exception. In any run from a fresh kernel, a
  call that raises is the last call of the run and its exception is the outcome of the run:
  this holds of every call into an external package that faults, and of every read of a
  dataset and lookup of a group member that fails on the file as it is when the call is
  made. A computation between two calls that fails (indexing the empty search result,
  unpacking the sizes, an index out of range, a slice or a shape that does not fit) ends
  the run before the next call: the call of the script that follows it (numbers 21, 22,
  23, 28, 43, 46, 54, 55 and 57 of \<open>script_calls\<close>, counted from 0) is made only if the
  computation succeeded. In particular, when the search of cell 4 finds no dataset named
  \<^verbatim>\<open>Raw_Data\<close>, indexing the empty result raises IndexError and the run ends there, in
  the state that cells 1 to 3 left, with the search as its last call. When a cell raises
  after the cells before it completed, the run ends with that exception in the state the
  cell left: no later cell runs and nothing is retried or undone.
\<close>

theorem uncaught_error_ends_run:
  assumes run: "run_all l (initial_state fs) = (r, s')"
  shows
    "(\<forall>pre c post e.
        log s' = pre @ c # post \<and>
        call_error l (file_before l fs (map ev_name pre)) (open_before l (map ev_name pre)) c
          = Some e \<longrightarrow>
        post = [] \<and> r = Inl e) \<and>
     (21 < length (log s') \<longrightarrow> find_dataset l fs (file_dialog l) ''Raw_Data'' \<noteq> []) \<and>
     (22 < length (log s') \<longrightarrow>
        (\<exists>rows cols sr sc. pos_dim_sizes l fs (raw_ref l fs) = [rows, cols] \<and>
           spec_dim_sizes l fs (raw_ref l fs) = [sr, sc])) \<and>
     (23 < length (log s') \<longrightarrow>
        (\<exists>rows cols sr sc a ronch x.
           pos_dim_sizes l fs (raw_ref l fs) = [rows, cols] \<and>
           spec_dim_sizes l fs (raw_ref l fs) = [sr, sc] \<and>
           fs (raw_ref l fs) = Some (Dataset a) \<and>
           nd_getitem a (int (rows div 2 * rows + cols div 2)) = Inr ronch \<and>
           np_reshape ronch [int sr, int sc] = Inr x)) \<and>
     (28 < length (log s') \<longrightarrow>
        (\<exists>rows cols mean x.
           pos_dim_sizes l fs (raw_ref l fs) = [rows, cols] \<and>
           fs (member (parent (raw_ref l fs)) ''Spectroscopic_Mean'') = Some (Dataset mean) \<and>
           np_reshape mean [int rows, int cols] = Inr x)) \<and>
     (43 < length (log s') \<longrightarrow>
        (\<exists>rows cols a x y z.
           pos_dim_sizes l fs (raw_ref l fs) = [rows, cols] \<and>
           fst (svd_result l fs) (member (snd (svd_result l fs)) ''U'') = Some (Dataset a) \<and>
           nd_take_cols a 16 = Inr x \<and>
           np_reshape x [int rows, int cols, - 1] = Inr y \<and> nd_transpose_201 y = Inr z)) \<and>
     (46 < length (log s') \<longrightarrow>
        (\<exists>sr sc a x y.
           spec_dim_sizes l fs (raw_ref l fs) = [sr, sc] \<and>
           fst (svd_result l fs) (member (snd (svd_result l fs)) ''V'') = Some (Dataset a) \<and>
           nd_take_rows a 16 = Inr x \<and> np_reshape x [- 1, int sr, int sc] = Inr y)) \<and>
     (54 < length (log s') \<longrightarrow>
        (\<exists>c n. fst (cluster_result l fs) (member (snd (cluster_result l fs)) ''Mean_Response'')
                  = Some (Dataset c) \<and> shape1 c = Inr n)) \<and>
     (55 < length (log s') \<longrightarrow>
        (\<exists>rows cols a x.
           pos_dim_sizes l fs (raw_ref l fs) = [rows, cols] \<and>
           fst (cluster_result l fs) (member (snd (cluster_result l fs)) ''Labels'')
             = Some (Dataset a) \<and>
           np_reshape a [int rows, int cols] = Inr x)) \<and>
     (57 < length (log s') \<longrightarrow>
        (\<exists>rows cols a x y.
           pos_dim_sizes l fs (raw_ref l fs) = [rows, cols] \<and>
           fst (cluster_result l fs) (member (snd (svd_result l fs)) ''U'') = Some (Dataset a) \<and>
           nd_take_cols a 128 = Inr x \<and> np_reshape x [int rows, int cols, - 1] = Inr y)) \<and>
     (\<forall>s3.
        py_seq (take 3 (notebook l)) (initial_state fs) = (Inr (), s3) \<and>
        ext_fault l fs ''usid.hdf_utils.find_dataset''
          [ARef (file_dialog l, []), AStr ''Raw_Data''] = None \<and>
        find_dataset l fs (file_dialog l) ''Raw_Data'' = [] \<longrightarrow>
        r = Inl IndexError \<and>
        s' = s3\<lparr>log := log s3 @ [Call ''usid.hdf_utils.find_dataset''
                                     [ARef (file_dialog l, []), AStr ''Raw_Data'']]\<rparr>) \<and>
     (\<forall>k e sk sf.
        k < length (notebook l) \<and>
        py_seq (take k (notebook l)) (initial_state fs) = (Inr (), sk) \<and>
        (notebook l ! k) sk = (Inl e, sf) \<longrightarrow>
        r = Inl e \<and> s' = sf)"
proof -
  have calls: "\<forall>pre c post e.
        log s' = pre @ c # post \<and>
        call_error l (file_before l fs (map ev_name pre)) (open_before l (map ev_name pre)) c
          = Some e \<longrightarrow>
        post = [] \<and> r = Inl e"
    using run_stops[OF run] unfolding stops_def .
  have cellwise: "r = Inl e \<and> s' = sf"
    if "k < length (notebook l)" "py_seq (take k (notebook l)) (initial_state fs) = (Inr (), sk)"
      "(notebook l ! k) sk = (Inl e, sf)" for k e sk sf
    using py_seq_fail_at[OF that] run by (simp add: run_all_def)
  have none: "r = Inl IndexError \<and>
        s' = s3\<lparr>log := log s3 @ [Call ''usid.hdf_utils.find_dataset''
                                     [ARef (file_dialog l, []), AStr ''Raw_Data'']]\<rparr>"
    if a: "py_seq (take 3 (notebook l)) (initial_state fs) = (Inr (), s3)"
      and b: "ext_fault l fs ''usid.hdf_utils.find_dataset''
          [ARef (file_dialog l, []), AStr ''Raw_Data''] = None"
      and c: "find_dataset l fs (file_dialog l) ''Raw_Data'' = []" for s3
  proof -
    from after_open(1)[OF a] have f: "h5fs s3 = fs" by simp
    have "(notebook l ! 3) s3 =
        (Inl IndexError,
         s3\<lparr>log := log s3 @ [Call ''usid.hdf_utils.find_dataset''
                                 [ARef (file_dialog l, []), AStr ''Raw_Data'']]\<rparr>)"
      using cell_get_raw_none_found[OF after_open(2)[OF a]] b c f by (simp add: notebook_def)
    moreover have "3 < length (notebook l)" by (simp add: notebook_def)
    ultimately show ?thesis using cellwise a by blast
  qed
  show ?thesis
  proof (intro conjI)
    show "\<forall>pre c post e.
        log s' = pre @ c # post \<and>
        call_error l (file_before l fs (map ev_name pre)) (open_before l (map ev_name pre)) c
          = Some e \<longrightarrow>
        post = [] \<and> r = Inl e" by (rule calls)
    show "21 < length (log s') \<longrightarrow> find_dataset l fs (file_dialog l) ''Raw_Data'' \<noteq> []"
      by (rule impI) (rule run_needs_raw[OF run])
    show "22 < length (log s') \<longrightarrow>
        (\<exists>rows cols sr sc. pos_dim_sizes l fs (raw_ref l fs) = [rows, cols] \<and>
           spec_dim_sizes l fs (raw_ref l fs) = [sr, sc])"
      by (rule impI) (rule run_needs_sizes[OF run])
    show "23 < length (log s') \<longrightarrow>
        (\<exists>rows cols sr sc a ronch x.
           pos_dim_sizes l fs (raw_ref l fs) = [rows, cols] \<and>
           spec_dim_sizes l fs (raw_ref l fs) = [sr, sc] \<and>
           fs (raw_ref l fs) = Some (Dataset a) \<and>
           nd_getitem a (int (rows div 2 * rows + cols div 2)) = Inr ronch \<and>
           np_reshape ronch [int sr, int sc] = Inr x)"
      by (rule impI) (rule run_needs_ronchigram[OF run])
    show "28 < length (log s') \<longrightarrow>
        (\<exists>rows cols mean x.
           pos_dim_sizes l fs (raw_ref l fs) = [rows, cols] \<and>
           fs (member (parent (raw_ref l fs)) ''Spectroscopic_Mean'') = Some (Dataset mean) \<and>
           np_reshape mean [int rows, int cols] = Inr x)"
      by (rule impI) (rule run_needs_mean[OF run])
    show "43 < length (log s') \<longrightarrow>
        (\<exists>rows cols a x y z.
           pos_dim_sizes l fs (raw_ref l fs) = [rows, cols] \<and>
           fst (svd_result l fs) (member (snd (svd_result l fs)) ''U'') = Some (Dataset a) \<and>
           nd_take_cols a 16 = Inr x \<and>
           np_reshape x [int rows, int cols, - 1] = Inr y \<and> nd_transpose_201 y = Inr z)"
      by (rule impI) (rule run_needs_abundance[OF run])
    show "46 < length (log s') \<longrightarrow>
        (\<exists>sr sc a x y.
           spec_dim_sizes l fs (raw_ref l fs) = [sr, sc] \<and>
           fst (svd_result l fs) (member (snd (svd_result l fs)) ''V'') = Some (Dataset a) \<and>
           nd_take_rows a 16 = Inr x \<and> np_reshape x [- 1, int sr, int sc] = Inr y)"
      by (rule impI) (rule run_needs_endmembers[OF run])
    show "54 < length (log s') \<longrightarrow>
        (\<exists>c n. fst (cluster_result l fs) (member (snd (cluster_result l fs)) ''Mean_Response'')
                  = Some (Dataset c) \<and> shape1 c = Inr n)"
      by (rule impI) (rule run_needs_centroids[OF run])
    show "55 < length (log s') \<longrightarrow>
        (\<exists>rows cols a x.
           pos_dim_sizes l fs (raw_ref l fs) = [rows, cols] \<and>
           fst (cluster_result l fs) (member (snd (cluster_result l fs)) ''Labels'')
             = Some (Dataset a) \<and>
           np_reshape a [int rows, int cols] = Inr x)"
      by (rule impI) (rule run_needs_labels[OF run])
    show "57 < length (log s') \<longrightarrow>
        (\<exists>rows cols a x y.
           pos_dim_sizes l fs (raw_ref l fs) = [rows, cols] \<and>
           fst (cluster_result l fs) (member (snd (svd_result l fs)) ''U'') = Some (Dataset a) \<and>
           nd_take_cols a 128 = Inr x \<and> np_reshape x [int rows, int cols, - 1] = Inr y)"
      by (rule impI) (rule run_needs_dendrogram[OF run])
    show "\<forall>s3.
        py_seq (take 3 (notebook l)) (initial_state fs) = (Inr (), s3) \<and>
        ext_fault l fs ''usid.hdf_utils.find_dataset''
          [ARef (file_dialog l, []), AStr ''Raw_Data''] = None \<and>
        find_dataset l fs (file_dialog l) ''Raw_Data'' = [] \<longrightarrow>
        r = Inl IndexError \<and>
        s' = s3\<lparr>log := log s3 @ [Call ''usid.hdf_utils.find_dataset''
                                     [ARef (file_dialog l, []), AStr ''Raw_Data'']]\<rparr>"
      using none by blast
    show "\<forall>k e sk sf.
        k < length (notebook l) \<and>
        py_seq (take k (notebook l)) (initial_state fs) = (Inr (), sk) \<and>
        (notebook l ! k) sk = (Inl e, sf) \<longrightarrow>
        r = Inl e \<and> s' = sf"
      using cellwise by blast
  qed
qed

theorem uncaught_error_ends_run_witness:
  "(\<exists>pre. log (snd (run_all demo_lib_svd_fails (initial_state demo_fs)))
            = pre @ [Call ''px.processing.SVD.compute'' [ARef demo_raw, AInt 256]] \<and>
          call_error demo_lib_svd_fails (file_before demo_lib_svd_fails demo_fs (map ev_name pre))
            (open_before demo_lib_svd_fails (map ev_name pre))
            (Call ''px.processing.SVD.compute'' [ARef demo_raw, AInt 256])
            = Some (LibraryError ''MemoryError'')) \<and>
   fst (run_all demo_lib_svd_fails (initial_state demo_fs)) = Inl (LibraryError ''MemoryError'') \<and>
   py_seq (take 3 (notebook demo_lib_no_raw)) (initial_state demo_fs)
     = (Inr (), snd (py_seq (take 3 (notebook demo_lib_no_raw)) (initial_state demo_fs))) \<and>
   find_dataset demo_lib_no_raw demo_fs (file_dialog demo_lib_no_raw) ''Raw_Data'' = [] \<and>
   run_all demo_lib_no_raw (initial_state demo_fs)
     = (Inl IndexError,
        (snd (py_seq (take 3 (notebook demo_lib_no_raw)) (initial_state demo_fs)))
          \<lparr>log := log (snd (py_seq (take 3 (notebook demo_lib_no_raw)) (initial_state demo_fs)))
                    @ [Call ''usid.hdf_utils.find_dataset''
                         [ARef (''stem.h5'', []), AStr ''Raw_Data'']]\<rparr>) \<and>
   57 < length (log (snd (run_all demo_lib (initial_state demo_fs)))) \<and>
   (\<exists>a x y. fst (cluster_result demo_lib demo_fs) (member (snd (svd_result demo_lib demo_fs)) ''U'')
              = Some (Dataset a) \<and>
            nd_take_cols a 128 = Inr x \<and> np_reshape x [2, 3, - 1] = Inr y)"
proof -
  let ?L = "demo_lib_svd_fails"
  let ?S = "snd (run_all ?L (initial_state demo_fs))"
  let ?c = "Call ''px.processing.SVD.compute'' [ARef demo_raw, AInt 256]"
  have run1: "run_all ?L (initial_state demo_fs) = (fst (run_all ?L (initial_state demo_fs)), ?S)"
    by simp
  from demo_svd_fails_last have lg: "log ?S = butlast (log ?S) @ ?c # []"
    by (metis append_butlast_last_id)
  have ce: "call_error ?L (file_before ?L demo_fs (map ev_name (butlast (log ?S))))
            (open_before ?L (map ev_name (butlast (log ?S)))) ?c
            = Some (LibraryError ''MemoryError'')"
    by (simp add: call_error_def demo_lib_svd_fails_def)
  note t1 = uncaught_error_ends_run[OF run1, THEN conjunct1]
  from t1 lg ce
  have r1: "fst (run_all ?L (initial_state demo_fs)) = Inl (LibraryError ''MemoryError'')"
    by blast
  let ?N = "demo_lib_no_raw"
  let ?S3 = "snd (py_seq (take 3 (notebook ?N)) (initial_state demo_fs))"
  have a: "py_seq (take 3 (notebook ?N)) (initial_state demo_fs) = (Inr (), ?S3)"
    using demo_no_raw_open by (simp add: prod_eq_iff)
  have b: "ext_fault ?N demo_fs ''usid.hdf_utils.find_dataset''
        [ARef (file_dialog ?N, []), AStr ''Raw_Data''] = None"
    and c: "find_dataset ?N demo_fs (file_dialog ?N) ''Raw_Data'' = []"
    and d: "file_dialog ?N = ''stem.h5''"
    by (simp_all add: demo_lib_no_raw_def demo_lib_def)
  have run2: "run_all ?N (initial_state demo_fs)
      = (fst (run_all ?N (initial_state demo_fs)), snd (run_all ?N (initial_state demo_fs)))"
    by simp
  note t2 = uncaught_error_ends_run[OF run2, THEN conjunct2, THEN conjunct2, THEN conjunct2,
      THEN conjunct2, THEN conjunct2, THEN conjunct2, THEN conjunct2, THEN conjunct2,
      THEN conjunct2, THEN conjunct2, THEN conjunct1]
  from t2 a b c
  have "fst (run_all ?N (initial_state demo_fs)) = Inl IndexError \<and>
        snd (run_all ?N (initial_state demo_fs))
          = ?S3\<lparr>log := log ?S3 @ [Call ''usid.hdf_utils.find_dataset''
                         [ARef (file_dialog ?N, []), AStr ''Raw_Data'']]\<rparr>"
    by blast
  then have r2: "run_all ?N (initial_state demo_fs)
     = (Inl IndexError,
        ?S3\<lparr>log := log ?S3 @ [Call ''usid.hdf_utils.find_dataset''
                         [ARef (''stem.h5'', []), AStr ''Raw_Data'']]\<rparr>)"
    by (simp add: prod_eq_iff d)
  let ?D = "snd (run_all demo_lib (initial_state demo_fs))"
  from emitsD[OF emits_run_all demo_run]
  have "map ev_name (log ?D) = script_calls" by auto
  then have "length (log ?D) = length script_calls" by (metis length_map)
  then have len: "57 < length (log ?D)" by (simp add: script_calls_def cell_calls_def)
  note t3 = uncaught_error_ends_run[OF demo_run, THEN conjunct2, THEN conjunct2,
      THEN conjunct2, THEN conjunct2, THEN conjunct2, THEN conjunct2, THEN conjunct2,
      THEN conjunct2, THEN conjunct2, THEN conjunct1]
  from t3 len
  have "\<exists>rows cols a x y.
           pos_dim_sizes demo_lib demo_fs (raw_ref demo_lib demo_fs) = [rows, cols] \<and>
           fst (cluster_result demo_lib demo_fs) (member (snd (svd_result demo_lib demo_fs)) ''U'')
             = Some (Dataset a) \<and>
           nd_take_cols a 128 = Inr x \<and> np_reshape x [int rows, int cols, - 1] = Inr y"
    by blast
  then have r3: "\<exists>a x y. fst (cluster_result demo_lib demo_fs)
              (member (snd (svd_result demo_lib demo_fs)) ''U'') = Some (Dataset a) \<and>
            nd_take_cols a 128 = Inr x \<and> np_reshape x [2, 3, - 1] = Inr y"
    by (auto simp: demo_lib_def)
  from lg ce have e1: "\<exists>pre. log ?S = pre @ [?c] \<and>
          call_error ?L (file_before ?L demo_fs (map ev_name pre))
            (open_before ?L (map ev_name pre)) ?c = Some (LibraryError ''MemoryError'')"
    by blast
  show ?thesis using e1 r1 a c r2 len r3 by (intro conjI) assumption+
qed






















end
